theory Spec2Isabelle
  imports Main "HOL-Library.Sublist"
begin

chapter \<open>The Nosana job lifecycle controller and its log streamer\<close>

text \<open>
  A shallow embedding of \<^verbatim>\<open>nosana_service.ts\<close> (the retry helper and the class
  \<^verbatim>\<open>NosanaService\<close>) and of \<^verbatim>\<open>nosana_logs.ts\<close> (the class \<^verbatim>\<open>LogStreamer\<close>).

  Every method becomes a function on an explicit \<open>world\<close>: the mutable fields of the
  service (the watch registry, the cached delegated signature) and the ordered trace of
  the effects the method performed. The answer of an outside party (marketplace, signing
  service, node, orchestrator, clock) is read from an \<open>env\<close> of response functions,
  indexed by the position in the trace at which the request is made, so an outside party
  may answer differently each time it is asked. A thrown exception is the \<open>Inl\<close> of a
  sum. Informational \<^verbatim>\<open>console.log\<close> lines are left out; warnings and errors are
  trace events.
\<close>

section \<open>JavaScript values\<close>

text \<open>Job definitions are typed \<^verbatim>\<open>any\<close> in the source: they are JSON values.
  A number is carried opaquely (the code never computes with one inside a definition).
  An object is its list of own properties in enumeration order.\<close>

datatype json =
    JUndefined
  | JNull
  | JBool bool
  | JNum int
  | JStr string
  | JArr "json list"
  | JObj "(string \<times> json) list"

text \<open>An exception value: \<^verbatim>\<open>e.status\<close> and \<^verbatim>\<open>e.message\<close>, either of
  which may be undefined.\<close>

datatype error = Error (err_status: "int option") (err_message: "string option")

definition TypeError :: error where
  "TypeError = Error None (Some ''TypeError: Cannot read properties of undefined'')"

fun truthy :: "json \<Rightarrow> bool" where
  "truthy JUndefined = False"
| "truthy JNull = False"
| "truthy (JBool b) = b"
| "truthy (JNum n) = (n \<noteq> 0)"
| "truthy (JStr s) = (s \<noteq> [])"
| "truthy (JArr xs) = True"
| "truthy (JObj fs) = True"

text \<open>\<^verbatim>\<open>x.k\<close> for a property name \<open>k\<close> that is neither an index nor a built-in
  of a primitive's prototype: reading from null or undefined throws.\<close>

fun js_get :: "json \<Rightarrow> string \<Rightarrow> error + json" where
  "js_get JUndefined k = Inl TypeError"
| "js_get JNull k = Inl TypeError"
| "js_get (JObj fs) k = Inr (case map_of fs k of None \<Rightarrow> JUndefined | Some v \<Rightarrow> v)"
| "js_get (JBool b) k = Inr JUndefined"
| "js_get (JNum n) k = Inr JUndefined"
| "js_get (JStr s) k = Inr JUndefined"
| "js_get (JArr xs) k = Inr JUndefined"

fun show_nat :: "nat \<Rightarrow> string" where
  "show_nat n =
     (if n < 10 then [char_of (48 + n)]
      else show_nat (n div 10) @ [char_of (48 + n mod 10)])"

text \<open>\<^verbatim>\<open>{...x}\<close>: the own enumerable properties of \<open>x\<close>; none for null,
  undefined, numbers and booleans; the indices for arrays and strings.\<close>

fun js_spread :: "json \<Rightarrow> (string \<times> json) list" where
  "js_spread (JObj fs) = fs"
| "js_spread (JArr xs) = zip (map show_nat [0..<length xs]) xs"
| "js_spread (JStr s) = zip (map show_nat [0..<length s]) (map (\<lambda>c. JStr [c]) s)"
| "js_spread JUndefined = []"
| "js_spread JNull = []"
| "js_spread (JBool b) = []"
| "js_spread (JNum n) = []"

text \<open>Writing property \<open>k\<close> of an object: an existing key keeps its place.\<close>

definition obj_set :: "string \<Rightarrow> 'v \<Rightarrow> (string \<times> 'v) list \<Rightarrow> (string \<times> 'v) list" where
  "obj_set k v fs =
     (if k \<in> fst ` set fs then map (\<lambda>(k', v'). if k' = k then (k', v) else (k', v')) fs
      else fs @ [(k, v)])"

text \<open>\<^verbatim>\<open>s.includes(pat)\<close>.\<close>

fun js_includes :: "string \<Rightarrow> string \<Rightarrow> bool" where
  "js_includes [] pat = (pat = [])"
| "js_includes (c # cs) pat = (prefix pat (c # cs) \<or> js_includes cs pat)"

text \<open>\<^verbatim>\<open>a || b\<close> on strings, an absent string being the empty one.\<close>

definition str_or :: "string \<Rightarrow> string \<Rightarrow> string" where
  "str_or a b = (if a \<noteq> [] then a else b)"

section \<open>Constants of the service\<close>

definition JOB_TIMEOUT_MS :: int where "JOB_TIMEOUT_MS = 30 * 60 * 1000"
definition EXTEND_THRESHOLD_MS :: int where "EXTEND_THRESHOLD_MS = 5 * 60 * 1000"
definition EXTEND_DURATION_SECS :: int where "EXTEND_DURATION_SECS = 1800"
definition MIN_RUNTIME_FOR_REDEPLOY_MS :: int where "MIN_RUNTIME_FOR_REDEPLOY_MS = 20 * 60 * 1000"
definition SIGN_MESSAGE :: string where "SIGN_MESSAGE = ''Hello Nosana Node!''"
definition API_AUTH_CACHE_TTL_MS :: int where "API_AUTH_CACHE_TTL_MS = 5 * 60 * 1000"

text \<open>The enumeration \<^verbatim>\<open>JobState\<close> belongs to the external package
  \<^verbatim>\<open>@nosana/kit\<close>. Its values are the numbers the source itself pairs with the names
  (\<^verbatim>\<open>JobState.RUNNING || 1\<close>, \<^verbatim>\<open>JobState.COMPLETED || 2\<close>,
  \<^verbatim>\<open>JobState.STOPPED || 3\<close>).\<close>

definition JobState_QUEUED :: int where "JobState_QUEUED = 0"
definition JobState_RUNNING :: int where "JobState_RUNNING = 1"
definition JobState_COMPLETED :: int where "JobState_COMPLETED = 2"
definition JobState_STOPPED :: int where "JobState_STOPPED = 3"

section \<open>Data model\<close>

datatype auth_mode = Wallet | Api

record Resources =
  gpu_allocated :: int
  vcpu_allocated :: int
  ram_gb_allocated :: int

record WatchedJobInfo =
  jobAddress :: string
  deploymentUuid :: "string option"
  startTime :: int
  lastExtendTime :: int
  jobDefinition :: json
  marketAddress :: string
  isConfidential :: bool
  resources :: Resources
  userStopped :: bool
  serviceUrl :: "string option"

text \<open>The answer of \<^verbatim>\<open>POST /auth/sign-message/external\<close>, and the cache entry
  \<^verbatim>\<open>{...result, timestamp}\<close> made of it.\<close>

record SignResult =
  signature :: string
  message :: string
  userAddress :: string

record CachedApiAuth = SignResult +
  timestamp :: int

text \<open>The job account read by \<^verbatim>\<open>client.jobs.get\<close>.\<close>

record Job =
  job_address :: string
  job_state :: int
  job_node :: string
  job_project :: string
  job_price :: int
  job_ipfsJob :: "string option"
  job_ipfsResult :: "string option"

text \<open>What \<^verbatim>\<open>getJob\<close> returns.\<close>

record JobStatus =
  jobState :: int
  gj_jobAddress :: string
  runAddress :: string
  nodeAddress :: string
  price :: int
  ipfsResult :: "string option"
  gj_serviceUrl :: "string option"

text \<open>What \<^verbatim>\<open>launchJob\<close> returns (its \<^verbatim>\<open>status\<close> is always "success").\<close>

record LaunchResult =
  lr_jobAddress :: string
  lr_deploymentUuid :: "string option"
  lr_ipfsHash :: string

text \<open>The \<^verbatim>\<open>options\<close> of \<^verbatim>\<open>watchJob\<close>; an absent definition is
  \<open>JUndefined\<close>.\<close>

record WatchOptions =
  opt_jobDefinition :: json
  opt_marketAddress :: "string option"
  opt_deploymentUuid :: "string option"
  opt_isConfidential :: "bool option"
  resources_allocated :: "Resources option"

text \<open>The body posted to \<^verbatim>\<open>/inventory/heartbeat\<close>. \<open>expose_url\<close> is \<open>None\<close>
  when the key is absent and \<open>Some None\<close> when it is null.\<close>

record HeartbeatPayload =
  provider :: string
  provider_instance_id :: string
  old_provider_instance_id :: "string option"
  hb_gpu_allocated :: int
  hb_vcpu_allocated :: int
  hb_ram_gb_allocated :: int
  health_score :: int
  state :: string
  expose_url :: "string option option"

text \<open>The first job of a deployment, as \<^verbatim>\<open>deployments.get\<close> lists it; an absent
  field is the empty string.\<close>

record DeploymentJob =
  dj_address :: string
  dj_job :: string
  dj_ipfs_job :: string

datatype fetch_result = NetworkError string | Response int string

datatype log_level = Warn | Err

section \<open>Effects and the world\<close>

datatype event =
    Sleep int
  | ConsoleLog log_level string
  | AuditLog string string json string
  | JobsGet string
  | IpfsPin json
  | IpfsRetrieve string
  | ApiSignMessage string
  | ApiJobsList string string
  | DeploymentsCreate json string
  | DeploymentsGet "string option"
  | JobsPost string string
  | BuildSignAndSend
  | GenerateHeaders string
  | NodePost string "(string \<times> string) list" json
  | Heartbeat string HeartbeatPayload
  | ExtendJob string int
  | LaunchJob json string bool
  | SpawnHandoff string json string "string option"
  | SpawnWatch string string WatchOptions
  | ApiCreditsBalance
  | SdkCreditsBalance
  | SolanaGetBalance
  | NosGetBalance

text \<open>
  \<open>Sleep\<close> is an awaited \<^verbatim>\<open>setTimeout\<close>; \<open>AuditLog action jobAddress details status\<close>
  is the un-awaited \<^verbatim>\<open>sendAuditLog\<close>; \<open>NodePost url headers body\<close> is the
  \<^verbatim>\<open>fetch\<close> of \<^verbatim>\<open>sendDef\<close>; \<open>Heartbeat url payload\<close> the \<^verbatim>\<open>fetch\<close>
  to the orchestrator. \<open>LaunchJob\<close> marks an entry into \<^verbatim>\<open>launchJob\<close> with its
  arguments; \<open>SpawnHandoff\<close> and \<open>SpawnWatch\<close> mark the un-awaited calls of
  \<^verbatim>\<open>waitForRunningAndSendDefinition\<close> and \<^verbatim>\<open>watchJob\<close>, which run as tasks of
  their own. \<open>ApiCreditsBalance\<close> is the request \<^verbatim>\<open>GET /credits/balance\<close>,
  \<open>SdkCreditsBalance\<close> the call \<^verbatim>\<open>client.api.credits.balance()\<close>, and
  \<open>SolanaGetBalance\<close> and \<open>NosGetBalance\<close> the two reads of the wallet's balances.
\<close>

record world =
  watchedJobs :: "string \<Rightarrow> WatchedJobInfo option"
  cachedApiAuth :: "CachedApiAuth option"
  events :: "event list"

record env =
  authMode :: auth_mode
  NOSANA_INGRESS_DOMAIN :: string
  clock :: "nat \<Rightarrow> int"
  is_address :: "string \<Rightarrow> bool"
  jobs_get :: "string \<Rightarrow> nat \<Rightarrow> error + Job"
  ipfs_pin :: "json \<Rightarrow> nat \<Rightarrow> error + string"
  ipfs_retrieve :: "string \<Rightarrow> nat \<Rightarrow> error + json"
  getJobExposedServices :: "json \<Rightarrow> string \<Rightarrow> error + string list"
  api_sign_message :: "string \<Rightarrow> nat \<Rightarrow> error + SignResult"
  api_jobs_list :: "string \<Rightarrow> string \<Rightarrow> nat \<Rightarrow> error + string"
  deployments_create :: "json \<Rightarrow> string \<Rightarrow> nat \<Rightarrow> error + string option"
  deployments_get :: "string option \<Rightarrow> nat \<Rightarrow> error + DeploymentJob list"
  jobs_post :: "string \<Rightarrow> string \<Rightarrow> nat \<Rightarrow> error + string list"
  buildSignAndSend :: "nat \<Rightarrow> error + string"
  generateHeaders :: "string \<Rightarrow> nat \<Rightarrow> error + (string \<times> string) list"
  fetch_node :: "string \<Rightarrow> nat \<Rightarrow> fetch_result"
  fetch_heartbeat :: "string \<Rightarrow> nat \<Rightarrow> error + unit"
  extend_job :: "string \<Rightarrow> int \<Rightarrow> nat \<Rightarrow> error + unit"

text \<open>
  \<open>is_address\<close> is where \<^verbatim>\<open>address(s)\<close> of \<^verbatim>\<open>@solana/kit\<close> does not throw.
  \<open>api_jobs_list\<close> answers the job address of \<^verbatim>\<open>POST /jobs/list\<close>,
  \<open>deployments_create\<close> the \<^verbatim>\<open>uuid || id\<close> of the new deployment,
  \<open>deployments_get\<close> the \<^verbatim>\<open>jobs || []\<close> of its status, \<open>jobs_post\<close> the account
  addresses of the instruction. \<open>extend_job\<close> stands for the whole method
  \<^verbatim>\<open>extendJob\<close>, whose marketplace call and audit line are one event here.
\<close>

definition emit :: "event \<Rightarrow> world \<Rightarrow> world" where
  "emit ev w = w\<lparr>events := events w @ [ev]\<rparr>"

definition extern :: "event \<Rightarrow> (nat \<Rightarrow> 'r) \<Rightarrow> world \<Rightarrow> 'r \<times> world" where
  "extern ev resp w = (resp (length (events w)), emit ev w)"

definition now :: "env \<Rightarrow> world \<Rightarrow> int" where
  "now en w = clock en (length (events w))"

definition ingress_domain :: "env \<Rightarrow> string" where
  "ingress_domain en = str_or (NOSANA_INGRESS_DOMAIN en) ''node.k8s.prd.nos.ci''"

definition sendAuditLog :: "string \<Rightarrow> string \<Rightarrow> json \<Rightarrow> string \<Rightarrow> world \<Rightarrow> world" where
  "sendAuditLog action addr details status w =
     emit (AuditLog action addr (if truthy details then details else JObj [])
             (str_or status ''success'')) w"

section \<open>The retry helper\<close>

definition errorMsg_of :: "error \<Rightarrow> string" where
  "errorMsg_of e = (case err_message e of None \<Rightarrow> [] | Some m \<Rightarrow> m)"

function retry ::
  "(world \<Rightarrow> (error + 'a) \<times> world) \<Rightarrow> int \<Rightarrow> int \<Rightarrow> world \<Rightarrow> (error + 'a) \<times> world" where
  "retry fn retries delay w =
     (case fn w of
        (Inr v, w1) \<Rightarrow> (Inr v, w1)
      | (Inl e, w1) \<Rightarrow>
          (let errorMsg = errorMsg_of e in
           if retries > 0 \<and>
              (js_includes errorMsg ''429'' \<or> js_includes errorMsg ''Too Many Requests'')
           then retry fn (retries - 1) (delay * 2) (emit (Sleep delay) w1)
           else (Inl e, w1)))"
  by pat_completeness auto
termination
  by (relation "measure (\<lambda>(fn, retries, delay, w). nat retries)") auto

text \<open>The default arguments \<^verbatim>\<open>retries = 5, delay = 500\<close>.\<close>

definition retry_default :: "(world \<Rightarrow> (error + 'a) \<times> world) \<Rightarrow> world \<Rightarrow> (error + 'a) \<times> world" where
  "retry_default fn = retry fn 5 500"

section \<open>Delegated signing\<close>

definition signMessageExternal :: "env \<Rightarrow> string \<Rightarrow> world \<Rightarrow> (error + SignResult) \<times> world" where
  "signMessageExternal en msg w =
     (if authMode en \<noteq> Api
      then (Inl (Error None (Some ''signMessageExternal is only available in API mode'')), w)
      else
        let t = now en w;
            cached = (case cachedApiAuth w of
                        None \<Rightarrow> None
                      | Some c \<Rightarrow>
                          if message c = msg \<and> t - timestamp c < API_AUTH_CACHE_TTL_MS
                          then Some c else None)
        in
        case cached of
          Some c \<Rightarrow>
            (Inr \<lparr>signature = signature c, message = message c, userAddress = userAddress c\<rparr>, w)
        | None \<Rightarrow>
            (case extern (ApiSignMessage msg) (api_sign_message en msg) w of
               (Inl e, w1) \<Rightarrow> (Inl e, w1)
             | (Inr result, w1) \<Rightarrow>
                 (Inr result,
                  w1\<lparr>cachedApiAuth :=
                       Some \<lparr>signature = signature result, message = message result,
                             userAddress = userAddress result, timestamp = t\<rparr>\<rparr>)))"

text \<open>The header and the signer's address, \<^verbatim>\<open>{header, userAddress}\<close>.\<close>

definition generateApiNodeAuthHeader :: "env \<Rightarrow> world \<Rightarrow> (error + string \<times> string) \<times> world" where
  "generateApiNodeAuthHeader en w =
     (case signMessageExternal en SIGN_MESSAGE w of
        (Inl e, w1) \<Rightarrow> (Inl e, w1)
      | (Inr auth, w1) \<Rightarrow> (Inr (message auth @ '':'' @ signature auth, userAddress auth), w1))"

section \<open>Launching a job\<close>

text \<open>The object pinned in place of a confidential definition (the
  \<^verbatim>\<open>definitionToPin\<close> of the branch \<^verbatim>\<open>if (isConfidential)\<close>).\<close>

definition js_prop :: "json \<Rightarrow> string \<Rightarrow> json" where
  "js_prop x k = (case js_get x k of Inl e \<Rightarrow> JUndefined | Inr v \<Rightarrow> v)"

definition api_listen :: json where
  "api_listen = JObj [(''type'', JStr ''api-listen''), (''args'', JObj [])]"

definition dummy_endpoint :: "json \<Rightarrow> string \<Rightarrow> json" where
  "dummy_endpoint jd side =
     (let logistics = js_prop jd ''logistics'' in
      if truthy logistics \<and> truthy (js_prop logistics side)
         \<and> js_prop (js_prop logistics side) ''type'' = JStr ''api''
      then js_prop logistics side
      else api_listen)"

definition dummy_definition :: "json \<Rightarrow> error + json" where
  "dummy_definition jd =
     (case js_get jd ''version'' of
        Inl e \<Rightarrow> Inl e
      | Inr version \<Rightarrow>
          Inr (JObj
            [(''version'', if truthy version then version else JStr ''0.1''),
             (''type'', if truthy (js_prop jd ''type'') then js_prop jd ''type''
                        else JStr ''container''),
             (''meta'', JObj (obj_set ''trigger'' (JStr ''cli'') (js_spread (js_prop jd ''meta'')))),
             (''logistics'', JObj [(''send'', dummy_endpoint jd ''send''),
                                   (''receive'', dummy_endpoint jd ''receive'')]),
             (''ops'', JArr [])]))"

definition thrown_message :: "error \<Rightarrow> string" where
  "thrown_message e = (case err_message e of None \<Rightarrow> ''undefined'' | Some m \<Rightarrow> m)"

function poll_deployment ::
  "env \<Rightarrow> string option \<Rightarrow> nat \<Rightarrow> world \<Rightarrow> (error + DeploymentJob option) \<times> world" where
  "poll_deployment en uuid attempts w =
     (if attempts < 30 then
        (case extern (DeploymentsGet uuid) (deployments_get en uuid) w of
           (Inl e, w1) \<Rightarrow> (Inl e, w1)
         | (Inr jobs, w1) \<Rightarrow>
             (case jobs of
                dj # rest \<Rightarrow> (Inr (Some dj), w1)
              | [] \<Rightarrow> poll_deployment en uuid (attempts + 1) (emit (Sleep 2000) w1)))
      else (Inr None, w))"
  by pat_completeness auto
termination
  by (relation "measure (\<lambda>(en, uuid, attempts, w). 30 - attempts)") auto

text \<open>The two ways of posting: each answers the job address, the deployment handle and
  the content reference.\<close>

definition launch_api ::
  "env \<Rightarrow> json \<Rightarrow> string \<Rightarrow> world \<Rightarrow> (error + string \<times> string option \<times> string) \<times> world" where
  "launch_api en definitionToPin market w =
     (case extern (IpfsPin definitionToPin) (ipfs_pin en definitionToPin) w of
        (Inl e, w1) \<Rightarrow> (Inl e, w1)
      | (Inr ipfsHash, w1) \<Rightarrow>
          (case extern (ApiJobsList ipfsHash market) (api_jobs_list en ipfsHash market) w1 of
             (Inr job, w2) \<Rightarrow> (Inr (job, None, ipfsHash), w2)
           | (Inl apiError, w2) \<Rightarrow>
               (case extern (DeploymentsCreate definitionToPin market)
                       (deployments_create en definitionToPin market)
                       (emit (ConsoleLog Warn ''[Launch] Direct API failed. Falling back to SDK deployments API...'') w2) of
                  (Inl e, w3) \<Rightarrow> (Inl e, w3)
                | (Inr uuid, w3) \<Rightarrow>
                    (case poll_deployment en uuid 0 w3 of
                       (Inl e, w4) \<Rightarrow> (Inl e, w4)
                     | (Inr found, w4) \<Rightarrow>
                         (let addr = (case found of None \<Rightarrow> ''unknown''
                                            | Some dj \<Rightarrow> str_or (dj_address dj) (dj_job dj));
                              ipfsHash' = (case found of None \<Rightarrow> ipfsHash
                                           | Some dj \<Rightarrow> str_or (dj_ipfs_job dj) ipfsHash)
                          in if addr = ''unknown''
                             then (Inl (Error None (Some ''Timeout waiting for Job Address from Nosana API'')), w4)
                             else (Inr (addr, uuid, ipfsHash'), w4))))))"

definition launch_wallet ::
  "env \<Rightarrow> json \<Rightarrow> string \<Rightarrow> world \<Rightarrow> (error + string \<times> string option \<times> string) \<times> world" where
  "launch_wallet en definitionToPin market w =
     (case extern (IpfsPin definitionToPin) (ipfs_pin en definitionToPin) w of
        (Inl e, w1) \<Rightarrow> (Inl e, w1)
      | (Inr ipfsHash, w1) \<Rightarrow>
          if \<not> is_address en market then (Inl (Error None (Some ''invalid address'')), w1)
          else
            (case extern (JobsPost ipfsHash market) (jobs_post en ipfsHash market) w1 of
               (Inl e, w2) \<Rightarrow> (Inl e, w2)
             | (Inr accounts, w2) \<Rightarrow>
                 (case extern BuildSignAndSend (buildSignAndSend en) w2 of
                    (Inl e, w3) \<Rightarrow> (Inl e, w3)
                  | (Inr sig, w3) \<Rightarrow>
                      (Inr (case accounts of [] \<Rightarrow> ''unknown'' | a # rest \<Rightarrow> a, None, ipfsHash), w3))))"

definition launch_body ::
  "env \<Rightarrow> json \<Rightarrow> string \<Rightarrow> bool \<Rightarrow> world \<Rightarrow> (error + LaunchResult) \<times> world" where
  "launch_body en jd market conf w =
     (case (if conf then dummy_definition jd else Inr jd) of
        Inl e \<Rightarrow> (Inl e, w)
      | Inr definitionToPin \<Rightarrow>
          (case (if authMode en = Api then launch_api en definitionToPin market w
                 else launch_wallet en definitionToPin market w) of
             (Inl e, w1) \<Rightarrow> (Inl e, w1)
           | (Inr (addr, uuid, ipfsHash), w1) \<Rightarrow>
               (Inr \<lparr>lr_jobAddress = addr, lr_deploymentUuid = uuid,
                      lr_ipfsHash = ipfsHash\<rparr>,
                sendAuditLog ''JOB_LAUNCHED'' addr
                  (JObj [(''ipfsHash'', JStr ipfsHash), (''marketAddress'', JStr market),
                         (''isConfidential'', JBool conf),
                         (''authMode'', JStr (if authMode en = Api then ''api'' else ''wallet'')),
                         (''deploymentUuid'', case uuid of None \<Rightarrow> JUndefined
                                              | Some u \<Rightarrow> JStr u)])
                  []
                  (if conf then emit (SpawnHandoff addr jd ipfsHash uuid) w1
                   else w1))))"

definition launchJob ::
  "env \<Rightarrow> json \<Rightarrow> string \<Rightarrow> bool \<Rightarrow> world \<Rightarrow> (error + LaunchResult) \<times> world" where
  "launchJob en jd market conf w =
     (case launch_body en jd market conf (emit (LaunchJob jd market conf) w) of
        (Inl e, w1) \<Rightarrow>
          (Inl (Error None (Some (''Nosana SDK Error: '' @ thrown_message e))),
           emit (ConsoleLog Err ''Launch Error:'') w1)
      | (Inr r, w1) \<Rightarrow> (Inr r, w1))"

section \<open>The confidential handoff\<close>

text \<open>How the polling loop of \<^verbatim>\<open>waitForRunningAndSendDefinition\<close> is left: by
  \<^verbatim>\<open>return\<close> when the job has ended, or past its end (by \<^verbatim>\<open>break\<close> or with
  the attempts used up) with the last job that was read.\<close>

datatype poll_exit = Ended | LoopDone "Job option"

function poll_running ::
  "env \<Rightarrow> string \<Rightarrow> nat \<Rightarrow> Job option \<Rightarrow> world \<Rightarrow> poll_exit \<times> world" where
  "poll_running en addr i job w =
     (if i < 600 then
        (case retry (extern (JobsGet addr) (jobs_get en addr)) 3 2000 w of
           (Inr j, w1) \<Rightarrow>
             if job_state j = JobState_RUNNING \<or> job_state j = 1 then (LoopDone (Some j), w1)
             else if job_state j = JobState_COMPLETED \<or> job_state j = JobState_STOPPED
             then (Ended,
                   emit (ConsoleLog Warn ''[Confidential] Job ended before we could send definition.'') w1)
             else poll_running en addr (i + 1) (Some j) (emit (Sleep 3000) w1)
         | (Inl e, w1) \<Rightarrow> poll_running en addr (i + 1) job (emit (Sleep 3000) w1))
      else (LoopDone job, w))"
  by pat_completeness auto
termination
  by (relation "measure (\<lambda>(en, addr, i, job, w). 600 - i)") auto

text \<open>\<^verbatim>\<open>sendDef\<close>: the request to the node's job-definition endpoint.\<close>

definition sendDef ::
  "env \<Rightarrow> string \<Rightarrow> json \<Rightarrow> (string \<times> string) list \<Rightarrow> world \<Rightarrow> (error + unit) \<times> world" where
  "sendDef en nodeUrl body headers w =
     (case extern (NodePost nodeUrl headers body) (fetch_node en nodeUrl) w of
        (NetworkError m, w1) \<Rightarrow> (Inl (Error None (Some m)), w1)
      | (Response code txt, w1) \<Rightarrow>
          if 200 \<le> code \<and> code \<le> 299 then (Inr (), w1)
          else (Inl (Error (Some code) (Some txt)), w1))"

text \<open>Filling \<^verbatim>\<open>fetchHeaders\<close> with the authentication of the mode.\<close>

definition auth_headers ::
  "env \<Rightarrow> string \<Rightarrow> (string \<times> string) list \<Rightarrow> world
     \<Rightarrow> (error + (string \<times> string) list) \<times> world" where
  "auth_headers en dummyIpfsHash fetchHeaders w =
     (if authMode en = Api then
        (case generateApiNodeAuthHeader en w of
           (Inl e, w1) \<Rightarrow> (Inl e, w1)
         | (Inr (header, user), w1) \<Rightarrow> (Inr (obj_set ''Authorization'' header fetchHeaders), w1))
      else
        (case extern (GenerateHeaders dummyIpfsHash) (generateHeaders en dummyIpfsHash) w of
           (Inl e, w1) \<Rightarrow> (Inl e, w1)
         | (Inr hs, w1) \<Rightarrow> (Inr (fold (\<lambda>(k, v). obj_set k v) hs fetchHeaders), w1)))"

text \<open>The first \<^verbatim>\<open>sendDef\<close> and what its \<^verbatim>\<open>catch\<close> does.\<close>

definition send_with_reauth ::
  "env \<Rightarrow> string \<Rightarrow> json \<Rightarrow> string \<Rightarrow> (string \<times> string) list \<Rightarrow> world
     \<Rightarrow> (error + unit) \<times> world" where
  "send_with_reauth en nodeUrl body dummyIpfsHash fetchHeaders w =
     (case sendDef en nodeUrl body fetchHeaders w of
        (Inr u, w1) \<Rightarrow> (Inr u, w1)
      | (Inl e, w1) \<Rightarrow>
          (case err_status e of
             None \<Rightarrow> (Inl e, w1)
           | Some code \<Rightarrow>
               if code \<ge> 400 \<and> code < 500 then
                 (let w2 = emit (Sleep 5000)
                             (emit (ConsoleLog Warn ''[Confidential] Node rejected definition, retrying in 5s...'') w1);
                      w3 = (if authMode en = Api then w2\<lparr>cachedApiAuth := None\<rparr> else w2)
                  in case auth_headers en dummyIpfsHash fetchHeaders w3 of
                       (Inl e2, w4) \<Rightarrow> (Inl e2, w4)
                     | (Inr fresh, w4) \<Rightarrow> sendDef en nodeUrl body fresh w4)
               else (Inl e, w1)))"

definition record_service_url :: "env \<Rightarrow> string \<Rightarrow> json \<Rightarrow> string \<Rightarrow> world \<Rightarrow> world" where
  "record_service_url en addr realJobDefinition canonical w =
     (case getJobExposedServices en realJobDefinition canonical of
        Inl e \<Rightarrow> emit (ConsoleLog Err ''[Confidential] Failed to resolve service URL from definition:'') w
      | Inr services \<Rightarrow>
          (case services of
             [] \<Rightarrow> w
           | h # rest \<Rightarrow>
               (case watchedJobs w addr of
                  None \<Rightarrow> w
                | Some jobInfo \<Rightarrow>
                    w\<lparr>watchedJobs := (watchedJobs w)
                         (addr \<mapsto> jobInfo\<lparr>serviceUrl :=
                             Some (''https://'' @ h @ ''.'' @ ingress_domain en)\<rparr>)\<rparr>)))"

definition push_definition ::
  "env \<Rightarrow> string \<Rightarrow> json \<Rightarrow> string \<Rightarrow> Job \<Rightarrow> world \<Rightarrow> world" where
  "push_definition en addr realJobDefinition dummyIpfsHash job w =
     (case auth_headers en dummyIpfsHash [(''Content-Type'', ''application/json'')] w of
        (Inl e, w1) \<Rightarrow> emit (ConsoleLog Err ''[Confidential] Failed to send definition to node:'') w1
      | (Inr fetchHeaders, w1) \<Rightarrow>
          (case send_with_reauth en
                  (''https://'' @ job_node job @ ''.'' @ ingress_domain en @ ''/job/''
                     @ job_address job @ ''/job-definition'')
                  realJobDefinition dummyIpfsHash fetchHeaders w1 of
             (Inl e, w2) \<Rightarrow> emit (ConsoleLog Err ''[Confidential] Failed to send definition to node:'') w2
           | (Inr u, w2) \<Rightarrow> record_service_url en addr realJobDefinition (job_address job) w2))"

definition waitForRunningAndSendDefinition ::
  "env \<Rightarrow> string \<Rightarrow> json \<Rightarrow> string \<Rightarrow> string option \<Rightarrow> world \<Rightarrow> (error + unit) \<times> world" where
  "waitForRunningAndSendDefinition en addr realJobDefinition dummyIpfsHash uuid w =
     (if \<not> is_address en addr then (Inl (Error None (Some ''invalid address'')), w)
      else
        (case poll_running en addr 0 None w of
           (Ended, w1) \<Rightarrow> (Inr (), w1)
         | (LoopDone job, w1) \<Rightarrow>
             (case job of
                None \<Rightarrow> (Inr (), emit (ConsoleLog Err ''[Confidential] Timeout waiting for job to run.'') w1)
              | Some j \<Rightarrow>
                  if job_state j \<noteq> JobState_RUNNING \<and> job_state j \<noteq> 1
                  then (Inr (), emit (ConsoleLog Err ''[Confidential] Timeout waiting for job to run.'') w1)
                  else (Inr (), push_definition en addr realJobDefinition dummyIpfsHash j w1))))"

section \<open>The watch loop\<close>

definition service_url_of :: "env \<Rightarrow> json \<Rightarrow> string \<Rightarrow> error + string option" where
  "service_url_of en def addr =
     (case getJobExposedServices en def addr of
        Inl e \<Rightarrow> Inl e
      | Inr services \<Rightarrow>
          Inr (case services of [] \<Rightarrow> None
               | h # rest \<Rightarrow> Some (''https://'' @ h @ ''.'' @ ingress_domain en)))"

text \<open>The part of \<^verbatim>\<open>getJob\<close> that resolves the service URL of a running job from its
  pinned definition, and stores it in the registry entry read before.\<close>

definition resolve_service_url ::
  "env \<Rightarrow> string \<Rightarrow> string \<Rightarrow> WatchedJobInfo option \<Rightarrow> world \<Rightarrow> string option \<times> world" where
  "resolve_service_url en addr ipfsJob cachedJob w =
     (case retry_default (extern (IpfsRetrieve ipfsJob) (ipfs_retrieve en ipfsJob)) w of
        (Inl e, w1) \<Rightarrow> (None, emit (ConsoleLog Err ''Failed to resolve service URL:'') w1)
      | (Inr rawDef, w1) \<Rightarrow>
          if \<not> truthy rawDef then (None, w1)
          else
            (case service_url_of en rawDef addr of
               Inl e \<Rightarrow> (None, emit (ConsoleLog Err ''Failed to resolve service URL:'') w1)
             | Inr None \<Rightarrow> (None, w1)
             | Inr (Some url) \<Rightarrow>
                 (Some url,
                  case cachedJob of
                    None \<Rightarrow> w1
                  | Some c \<Rightarrow> w1\<lparr>watchedJobs := (watchedJobs w1)(addr \<mapsto> c\<lparr>serviceUrl := Some url\<rparr>)\<rparr>)))"

definition getJob :: "env \<Rightarrow> string \<Rightarrow> world \<Rightarrow> (error + JobStatus) \<times> world" where
  "getJob en addr w =
     (if \<not> is_address en addr then (Inl (Error None (Some ''Get Job Error: invalid address'')), w)
      else
        (case retry_default (extern (JobsGet addr) (jobs_get en addr)) w of
           (Inl e, w1) \<Rightarrow> (Inl (Error None (Some (''Get Job Error: '' @ thrown_message e))), w1)
         | (Inr job, w1) \<Rightarrow>
             (let cachedJob = watchedJobs w1 addr;
                  cachedUrl = (case cachedJob of
                                 None \<Rightarrow> None
                               | Some c \<Rightarrow> (case serviceUrl c of
                                              None \<Rightarrow> None
                                            | Some u \<Rightarrow> if u \<noteq> [] then Some u else None));
                  (url, w2) = (case job_ipfsJob job of
                                 Some h \<Rightarrow>
                                   if job_state job = JobState_RUNNING \<and> cachedUrl = None \<and> h \<noteq> []
                                   then resolve_service_url en addr h cachedJob w1
                                   else (cachedUrl, w1)
                               | None \<Rightarrow> (cachedUrl, w1))
              in (Inr \<lparr>jobState = job_state job, gj_jobAddress = addr,
                        runAddress = job_project job, nodeAddress = job_node job,
                        price = job_price job, ipfsResult = job_ipfsResult job,
                        gj_serviceUrl = url\<rparr>, w2))))"

definition default_resources :: Resources where
  "default_resources = \<lparr>gpu_allocated = 1, vcpu_allocated = 8, ram_gb_allocated = 32\<rparr>"

text \<open>\<^verbatim>\<open>watchJob\<close> up to its loop: the registry entry and the audit line.\<close>

definition watchJob_begin :: "env \<Rightarrow> string \<Rightarrow> WatchOptions option \<Rightarrow> world \<Rightarrow> world" where
  "watchJob_begin en addr options w =
     (let t = now en w;
          res = (case options of
                   None \<Rightarrow> default_resources
                 | Some opts \<Rightarrow> (case resources_allocated opts of
                                  None \<Rightarrow> default_resources | Some r \<Rightarrow> r));
          uuid = (case options of None \<Rightarrow> None | Some opts \<Rightarrow> opt_deploymentUuid opts);
          jobInfo = \<lparr>jobAddress = addr,
                     deploymentUuid = uuid,
                     startTime = t,
                     lastExtendTime = t,
                     jobDefinition = (case options of
                                        None \<Rightarrow> JNull
                                      | Some opts \<Rightarrow> if truthy (opt_jobDefinition opts)
                                                     then opt_jobDefinition opts else JNull),
                     marketAddress = (case options of
                                        None \<Rightarrow> []
                                      | Some opts \<Rightarrow> (case opt_marketAddress opts of
                                                       None \<Rightarrow> [] | Some m \<Rightarrow> m)),
                     isConfidential = (case options of
                                         None \<Rightarrow> True
                                       | Some opts \<Rightarrow> (case opt_isConfidential opts of
                                                        None \<Rightarrow> True | Some b \<Rightarrow> b)),
                     resources = res,
                     userStopped = False,
                     serviceUrl = None\<rparr>
      in sendAuditLog ''WATCHDOG_STARTED'' addr
           (JObj [(''resources'',
                   JObj [(''gpu_allocated'', JNum (gpu_allocated res)),
                         (''vcpu_allocated'', JNum (vcpu_allocated res)),
                         (''ram_gb_allocated'', JNum (ram_gb_allocated res))]),
                  (''deploymentUuid'', case uuid of None \<Rightarrow> JUndefined | Some u \<Rightarrow> JStr u)])
           []
           (w\<lparr>watchedJobs := (watchedJobs w)(addr \<mapsto> jobInfo)\<rparr>))"

text \<open>The un-awaited \<^verbatim>\<open>this.watchJob(...)\<close> of the redeploy: the new task is
  started and runs its synchronous beginning; its loop is a task of its own.\<close>

definition spawn_watchJob :: "env \<Rightarrow> string \<Rightarrow> string \<Rightarrow> WatchOptions \<Rightarrow> world \<Rightarrow> world" where
  "spawn_watchJob en addr orchestratorUrl opts w =
     watchJob_begin en addr (Some opts) (emit (SpawnWatch addr orchestratorUrl opts) w)"

definition send_heartbeat :: "string \<Rightarrow> HeartbeatPayload \<Rightarrow> world \<Rightarrow> world" where
  "send_heartbeat orchestratorUrl payload w =
     emit (Heartbeat (orchestratorUrl @ ''/inventory/heartbeat'') payload) w"

definition down_payload :: "string \<Rightarrow> string \<Rightarrow> HeartbeatPayload" where
  "down_payload addr st =
     \<lparr>provider = ''nosana'', provider_instance_id = addr, old_provider_instance_id = None,
      hb_gpu_allocated = 0, hb_vcpu_allocated = 0, hb_ram_gb_allocated = 0,
      health_score = 0, state = st, expose_url = None\<rparr>"

definition provisioning_payload :: "string \<Rightarrow> string \<Rightarrow> Resources \<Rightarrow> HeartbeatPayload" where
  "provisioning_payload new old res =
     \<lparr>provider = ''nosana'', provider_instance_id = new, old_provider_instance_id = Some old,
      hb_gpu_allocated = gpu_allocated res, hb_vcpu_allocated = vcpu_allocated res,
      hb_ram_gb_allocated = ram_gb_allocated res,
      health_score = 50, state = ''provisioning'', expose_url = None\<rparr>"

definition ready_payload :: "string \<Rightarrow> Resources \<Rightarrow> string option \<Rightarrow> HeartbeatPayload" where
  "ready_payload addr res url =
     \<lparr>provider = ''nosana'', provider_instance_id = addr, old_provider_instance_id = None,
      hb_gpu_allocated = gpu_allocated res, hb_vcpu_allocated = vcpu_allocated res,
      hb_ram_gb_allocated = ram_gb_allocated res,
      health_score = 100, state = ''ready'', expose_url = Some url\<rparr>"

text \<open>The branch \<^verbatim>\<open>else if (shouldRedeploy)\<close>.\<close>

definition redeploy :: "env \<Rightarrow> string \<Rightarrow> string \<Rightarrow> WatchedJobInfo \<Rightarrow> world \<Rightarrow> world" where
  "redeploy en addr orchestratorUrl currentJobInfo w =
     (case launchJob en (jobDefinition currentJobInfo) (marketAddress currentJobInfo)
             (isConfidential currentJobInfo) w of
        (Inr newJob, w1) \<Rightarrow>
          spawn_watchJob en (lr_jobAddress newJob) orchestratorUrl
            \<lparr>opt_jobDefinition = jobDefinition currentJobInfo,
             opt_marketAddress = Some (marketAddress currentJobInfo),
             opt_deploymentUuid = lr_deploymentUuid newJob,
             opt_isConfidential = Some (isConfidential currentJobInfo),
             resources_allocated = Some (resources currentJobInfo)\<rparr>
            (send_heartbeat orchestratorUrl
               (provisioning_payload (lr_jobAddress newJob) addr (resources currentJobInfo)) w1)
      | (Inl redeployErr, w1) \<Rightarrow>
          send_heartbeat orchestratorUrl (down_payload addr ''failed'')
            (emit (ConsoleLog Err ''[auto-redeploy] Failed:'') w1))"

text \<open>The block \<^verbatim>\<open>if (isTerminated)\<close>, which ends the task.\<close>

definition isTerminated :: "int \<Rightarrow> bool" where
  "isTerminated st =
     (st = JobState_COMPLETED \<or> st = 2 \<or> st = JobState_STOPPED \<or> st = 3 \<or> st = 4)"

definition audit_terminated :: "string \<Rightarrow> int \<Rightarrow> int \<Rightarrow> WatchedJobInfo \<Rightarrow> world \<Rightarrow> world" where
  "audit_terminated addr runtime st currentJobInfo w =
     sendAuditLog ''WATCHDOG_TERMINATED'' addr
       (JObj [(''final_state'', JNum st), (''runtime_mins'', JNum ((runtime + 30000) div 60000)),
              (''user_stopped'', JBool (userStopped currentJobInfo))])
       [] w"

text \<open>The decision between \<^verbatim>\<open>const shouldRedeploy\<close> and the last heartbeat.\<close>

definition redeploy_decision ::
  "env \<Rightarrow> string \<Rightarrow> string \<Rightarrow> int \<Rightarrow> WatchedJobInfo \<Rightarrow> world \<Rightarrow> world" where
  "redeploy_decision en addr orchestratorUrl runtime currentJobInfo w =
     (let shouldRedeploy = (\<not> userStopped currentJobInfo
                            \<and> truthy (jobDefinition currentJobInfo)
                            \<and> marketAddress currentJobInfo \<noteq> []
                            \<and> runtime \<ge> MIN_RUNTIME_FOR_REDEPLOY_MS);
          tooShort = (runtime < MIN_RUNTIME_FOR_REDEPLOY_MS)
      in if userStopped currentJobInfo then w
         else if tooShort then send_heartbeat orchestratorUrl (down_payload addr ''failed'') w
         else if shouldRedeploy then redeploy en addr orchestratorUrl currentJobInfo w
         else w)"

definition watch_terminated ::
  "env \<Rightarrow> string \<Rightarrow> string \<Rightarrow> int \<Rightarrow> int \<Rightarrow> WatchedJobInfo \<Rightarrow> world \<Rightarrow> world" where
  "watch_terminated en addr orchestratorUrl currentTime st currentJobInfo w =
     (let runtime = currentTime - startTime currentJobInfo;
          w1 = audit_terminated addr runtime st currentJobInfo w;
          w2 = redeploy_decision en addr orchestratorUrl runtime currentJobInfo w1;
          w3 = send_heartbeat orchestratorUrl (down_payload addr ''terminated'') w2
      in w3\<lparr>watchedJobs := (watchedJobs w3)(addr := None)\<rparr>)"

text \<open>The block of a running job: auto-extend and the "ready" heartbeat.\<close>

record watch_local =
  lastState :: "int option"
  lastHeartbeat :: int

definition auto_extend :: "env \<Rightarrow> string \<Rightarrow> int \<Rightarrow> WatchedJobInfo \<Rightarrow> world \<Rightarrow> WatchedJobInfo \<times> world" where
  "auto_extend en addr currentTime currentJobInfo w =
     (let timeSinceLastExtend = currentTime - lastExtendTime currentJobInfo;
          timeUntilTimeout = JOB_TIMEOUT_MS - timeSinceLastExtend
      in if timeUntilTimeout \<le> EXTEND_THRESHOLD_MS \<and> timeUntilTimeout > 0 then
           (case extern (ExtendJob addr EXTEND_DURATION_SECS)
                   (extend_job en addr EXTEND_DURATION_SECS) w of
              (Inr u, w1) \<Rightarrow>
                (currentJobInfo\<lparr>lastExtendTime := currentTime\<rparr>,
                 sendAuditLog ''JOB_AUTO_EXTENDED'' addr
                   (JObj [(''duration'', JNum EXTEND_DURATION_SECS)]) []
                   (w1\<lparr>watchedJobs := (watchedJobs w1)
                         (addr \<mapsto> currentJobInfo\<lparr>lastExtendTime := currentTime\<rparr>)\<rparr>))
            | (Inl extendErr, w1) \<Rightarrow>
                (currentJobInfo,
                 sendAuditLog ''JOB_AUTO_EXTEND_FAILED'' addr
                   (JObj [(''error'', case err_message extendErr of None \<Rightarrow> JUndefined
                                       | Some m \<Rightarrow> JStr m)])
                   ''error''
                   (emit (ConsoleLog Err ''[auto-extend] Failed to extend job'') w1)))
         else (currentJobInfo, w))"

definition ready_heartbeat ::
  "env \<Rightarrow> string \<Rightarrow> string \<Rightarrow> int \<Rightarrow> JobStatus \<Rightarrow> WatchedJobInfo \<Rightarrow> watch_local \<Rightarrow> world
     \<Rightarrow> watch_local \<times> world" where
  "ready_heartbeat en addr orchestratorUrl currentTime job currentJobInfo loc w =
     (if currentTime - lastHeartbeat loc > 30000 then
        (case extern (Heartbeat (orchestratorUrl @ ''/inventory/heartbeat'')
                        (ready_payload addr (resources currentJobInfo) (gj_serviceUrl job)))
                (fetch_heartbeat en orchestratorUrl) w of
           (Inr u, w1) \<Rightarrow> (loc\<lparr>lastHeartbeat := currentTime\<rparr>, w1)
         | (Inl e, w1) \<Rightarrow> (loc, emit (ConsoleLog Err ''[heartbeat] Failed to send heartbeat'') w1))
      else (loc, w))"

text \<open>One pass through the body of \<^verbatim>\<open>while (true)\<close>, up to its
  \<^verbatim>\<open>setTimeout\<close>.\<close>

datatype loop_ctl = Continue watch_local | Exit

definition note_state_change :: "string \<Rightarrow> watch_local \<Rightarrow> int \<Rightarrow> world \<Rightarrow> watch_local \<times> world" where
  "note_state_change addr loc st w =
     (if Some st \<noteq> lastState loc
      then (loc\<lparr>lastState := Some st\<rparr>,
            sendAuditLog ''JOB_STATE_CHANGED'' addr
              (JObj [(''old_state'', case lastState loc of None \<Rightarrow> JNull | Some s \<Rightarrow> JNum s),
                     (''new_state'', JNum st)]) [] w)
      else (loc, w))"

definition watch_iteration ::
  "env \<Rightarrow> string \<Rightarrow> string \<Rightarrow> watch_local \<Rightarrow> world \<Rightarrow> loop_ctl \<times> world" where
  "watch_iteration en addr orchestratorUrl loc w =
     (let currentTime = now en w in
      case getJob en addr w of
        (Inl e, w1) \<Rightarrow> (Continue loc, emit (ConsoleLog Err ''[watchdog] Error loop'') w1)
      | (Inr job, w1) \<Rightarrow>
          (case watchedJobs w1 addr of
             None \<Rightarrow> (Exit, w1)
           | Some currentJobInfo \<Rightarrow>
               (let (loc1, w2) = note_state_change addr loc (jobState job) w1;
                    (info2, loc2, w3) =
                      (if jobState job = JobState_RUNNING \<or> jobState job = 1
                       then (case auto_extend en addr currentTime currentJobInfo w2 of
                               (info', w') \<Rightarrow>
                                 (case ready_heartbeat en addr orchestratorUrl currentTime job
                                         info' loc1 w' of
                                    (loc', w'') \<Rightarrow> (info', loc', w'')))
                       else (currentJobInfo, loc1, w2))
                in if isTerminated (jobState job)
                   then (Exit, watch_terminated en addr orchestratorUrl currentTime
                                 (jobState job) info2 w3)
                   else (Continue loc2, w3))))"

partial_function (option) watch_loop ::
  "env \<Rightarrow> string \<Rightarrow> string \<Rightarrow> watch_local \<Rightarrow> world \<Rightarrow> world option" where
  "watch_loop en addr orchestratorUrl loc w =
     (case watch_iteration en addr orchestratorUrl loc w of
        (Exit, w1) \<Rightarrow> Some w1
      | (Continue loc1, w1) \<Rightarrow>
          watch_loop en addr orchestratorUrl loc1 (emit (Sleep 60000) w1))"

definition watchJob :: "env \<Rightarrow> string \<Rightarrow> string \<Rightarrow> WatchOptions option \<Rightarrow> world \<Rightarrow> world option" where
  "watchJob en addr orchestratorUrl options w =
     watch_loop en addr orchestratorUrl \<lparr>lastState = None, lastHeartbeat = 0\<rparr>
       (watchJob_begin en addr options w)"

definition markJobAsStopping :: "string \<Rightarrow> world \<Rightarrow> world" where
  "markJobAsStopping addr w =
     (case watchedJobs w addr of
        None \<Rightarrow> w
      | Some jobInfo \<Rightarrow> w\<lparr>watchedJobs := (watchedJobs w)(addr \<mapsto> jobInfo\<lparr>userStopped := True\<rparr>)\<rparr>)"

section \<open>The balance\<close>

text \<open>
  \<^verbatim>\<open>getBalance\<close> computes with JavaScript numbers: it subtracts credits and formats the
  difference with \<^verbatim>\<open>toFixed(2)\<close>. The type \<open>'n\<close> stands for the values these
  operations work on, and the operations themselves are parameters: \<^verbatim>\<open>0\<close>,
  \<^verbatim>\<open>x - y\<close>, \<^verbatim>\<open>x.toFixed(d)\<close> and \<^verbatim>\<open>x.toString()\<close>.
\<close>

record 'n Number =
  num_zero :: 'n
  num_minus :: "'n \<Rightarrow> 'n \<Rightarrow> 'n"
  num_toFixed :: "'n \<Rightarrow> nat \<Rightarrow> string"
  num_toString :: "'n \<Rightarrow> string"

text \<open>The body of the answer of \<^verbatim>\<open>GET /credits/balance\<close>, and what
  \<^verbatim>\<open>getBalance\<close> returns: the three credit fields are present only in the object
  built from that answer.\<close>

record 'n CreditsBalance =
  assignedCredits :: 'n
  reservedCredits :: 'n
  settledCredits :: 'n

record 'n Balance =
  sol :: 'n
  nos :: json
  credits :: "'n CreditsBalance option"
  address :: string

text \<open>
  What \<^verbatim>\<open>getBalance\<close> asks of its surroundings: \<open>credits_balance\<close> is
  \<^verbatim>\<open>apiRequest('/credits/balance')\<close>, which throws or answers the parsed body
  (\<open>None\<close> when the body is \<^verbatim>\<open>null\<close>, from which no field can be read);
  \<open>sdk_credits_balance\<close> is \<^verbatim>\<open>client.api.credits.balance()\<close>;
  \<open>solana_getBalance\<close> and \<open>nos_getBalance\<close> are the reads of the wallet's balances;
  \<open>wallet\<close> is the address of \<^verbatim>\<open>client.wallet\<close>, if there is one.
\<close>

record 'n balance_env =
  credits_balance :: "nat \<Rightarrow> error + 'n CreditsBalance option"
  sdk_credits_balance :: "nat \<Rightarrow> error + json"
  solana_getBalance :: "nat \<Rightarrow> error + 'n"
  nos_getBalance :: "nat \<Rightarrow> error + 'n"
  wallet :: "string option"

text \<open>The \<^verbatim>\<open>try\<close> block of API mode: the request and the object built from its
  answer.\<close>

definition api_balance ::
  "'n Number \<Rightarrow> 'n balance_env \<Rightarrow> world \<Rightarrow> (error + 'n Balance) \<times> world" where
  "api_balance num be w =
     (case extern ApiCreditsBalance (credits_balance be) w of
        (Inl e, w1) \<Rightarrow> (Inl e, w1)
      | (Inr None, w1) \<Rightarrow> (Inl TypeError, w1)
      | (Inr (Some balance), w1) \<Rightarrow>
          (let availableCredits =
                 num_minus num (num_minus num (assignedCredits balance) (reservedCredits balance))
                   (settledCredits balance)
           in (Inr \<lparr>sol = num_zero num, nos = JStr (num_toFixed num availableCredits 2),
                    credits = Some balance, address = ''API_ACCOUNT''\<rparr>, w1)))"

definition getBalance ::
  "env \<Rightarrow> 'n Number \<Rightarrow> 'n balance_env \<Rightarrow> world \<Rightarrow> (error + 'n Balance) \<times> world" where
  "getBalance en num be w =
     (if authMode en = Api then
        (case api_balance num be w of
           (Inr res, w1) \<Rightarrow> (Inr res, w1)
         | (Inl error, w1) \<Rightarrow>
             (case extern SdkCreditsBalance (sdk_credits_balance be)
                     (emit (ConsoleLog Err ''[API] Failed to get balance:'') w1) of
                (Inl e, w2) \<Rightarrow> (Inl error, w2)
              | (Inr balance, w2) \<Rightarrow>
                  (case js_get balance ''amount'' of
                     Inl e \<Rightarrow> (Inl error, w2)
                   | Inr amount \<Rightarrow>
                       (Inr \<lparr>sol = num_zero num,
                             nos = (if truthy amount then amount else JStr ''0''),
                             credits = None, address = ''API_ACCOUNT''\<rparr>, w2))))
      else
        (case extern SolanaGetBalance (solana_getBalance be) w of
           (Inl e, w1) \<Rightarrow> (Inl e, w1)
         | (Inr s, w1) \<Rightarrow>
             (case extern NosGetBalance (nos_getBalance be) w1 of
                (Inl e, w2) \<Rightarrow> (Inl e, w2)
              | (Inr n, w2) \<Rightarrow>
                  (Inr \<lparr>sol = s, nos = JStr (str_or (num_toString num n) ''0''),
                        credits = None,
                        address = (case wallet be of None \<Rightarrow> ''Unknown'' | Some a \<Rightarrow> a)\<rparr>,
                   w2))))"

section \<open>The log streamer\<close>

text \<open>
  The fields of \<^verbatim>\<open>LogStreamer\<close> that its handlers write (\<open>ws\<close>, \<open>shouldReconnect\<close>,
  \<open>retryCount\<close>), and what the runtime holds for it: every socket it has created, with
  its \<^verbatim>\<open>readyState\<close> (a socket is its index in \<open>sockets\<close>), and the number of
  reconnect timers that have not fired yet. \<^verbatim>\<open>maxRetries\<close> and \<^verbatim>\<open>retryDelay\<close>
  are never assigned after their initialisers. The 10 s timer of \<^verbatim>\<open>connect\<close> only
  rejects the promise of \<^verbatim>\<open>connect\<close> and writes no field; it is left out.
\<close>

datatype ready_state = CONNECTING | OPEN | CLOSING | CLOSED

record LogStreamer =
  ws :: "nat option"
  shouldReconnect :: bool
  retryCount :: nat
  sockets :: "ready_state list"
  timers :: nat

definition maxRetries :: nat where "maxRetries = 10"
definition retryDelay :: int where "retryDelay = 3000"

definition new_LogStreamer :: LogStreamer where
  "new_LogStreamer = \<lparr>ws = None, shouldReconnect = True, retryCount = 0, sockets = [], timers = 0\<rparr>"

text \<open>An incoming frame, as the \<^verbatim>\<open>message\<close> handler tells them apart: a log
  envelope with its parsed payload, an envelope with an \<^verbatim>\<open>error\<close> field, any other
  envelope, and text that does not parse.\<close>

datatype frame = LogFrame json | ErrorFrame string | OtherFrame | RawFrame string

datatype ls_effect =
    NewWebSocket nat
  | Send nat
  | CloseSocket nat
  | Resolve
  | Reject
  | EmitLog json
  | EmitError string
  | EmitClose
  | SetTimeoutConnect int
  | Console string

definition connect :: "LogStreamer \<Rightarrow> LogStreamer \<times> ls_effect list" where
  "connect st =
     (st\<lparr>ws := Some (length (sockets st)), sockets := sockets st @ [CONNECTING]\<rparr>,
      [NewWebSocket (length (sockets st))])"

text \<open>The handlers; \<open>ok\<close> is whether \<^verbatim>\<open>generateAuth\<close> succeeded.\<close>

definition on_open :: "bool \<Rightarrow> LogStreamer \<Rightarrow> LogStreamer \<times> ls_effect list" where
  "on_open ok st =
     (st\<lparr>retryCount := 0\<rparr>,
      if ok then (case ws st of None \<Rightarrow> [] | Some c \<Rightarrow> [Send c]) @ [Resolve]
      else [Console ''[LogStreamer] Failed to send subscribe message:'', Reject])"

definition on_message :: "frame \<Rightarrow> LogStreamer \<Rightarrow> LogStreamer \<times> ls_effect list" where
  "on_message f st =
     (st, case f of
            LogFrame logData \<Rightarrow> [EmitLog logData]
          | ErrorFrame m \<Rightarrow> [EmitError m]
          | OtherFrame \<Rightarrow> []
          | RawFrame txt \<Rightarrow> [EmitLog (JObj [(''raw'', JStr txt)])])"

definition on_error :: "string \<Rightarrow> LogStreamer \<Rightarrow> LogStreamer \<times> ls_effect list" where
  "on_error m st = (st, [Console ''[LogStreamer] WebSocket error:'', EmitError m])"

definition on_close :: "int \<Rightarrow> LogStreamer \<Rightarrow> LogStreamer \<times> ls_effect list" where
  "on_close code st =
     (let logged = (if code \<noteq> 1000 \<and> code \<noteq> 1005
                    then [Console ''[LogStreamer] WebSocket closed.''] else [])
      in if shouldReconnect st \<and> retryCount st < maxRetries
         then (st\<lparr>retryCount := retryCount st + 1, timers := timers st + 1\<rparr>,
               logged @ [Console ''[LogStreamer] Reconnecting'', SetTimeoutConnect retryDelay])
         else (st, logged @ [EmitClose]))"

definition closing :: "ready_state \<Rightarrow> ready_state" where
  "closing r = (case r of CONNECTING \<Rightarrow> CLOSING | OPEN \<Rightarrow> CLOSING | CLOSING \<Rightarrow> CLOSING
                | CLOSED \<Rightarrow> CLOSED)"

definition close :: "LogStreamer \<Rightarrow> LogStreamer \<times> ls_effect list" where
  "close st =
     (case ws st of
        None \<Rightarrow> (st\<lparr>shouldReconnect := False\<rparr>, [])
      | Some s \<Rightarrow>
          (st\<lparr>shouldReconnect := False, ws := None,
              sockets := (if s < length (sockets st)
                          then (sockets st)[s := closing (sockets st ! s)] else sockets st)\<rparr>,
           [CloseSocket s]))"

text \<open>What can happen to a streamer: a call of \<^verbatim>\<open>connect\<close> or \<^verbatim>\<open>close\<close> by its
  owner, an event of one of its sockets, or a reconnect timer firing. The runtime delivers
  \<^verbatim>\<open>open\<close> only to a connecting socket, \<^verbatim>\<open>message\<close> only to an open one,
  \<^verbatim>\<open>close\<close> once to each socket, and fires only timers that were set: \<open>None\<close> is an
  input that cannot occur.\<close>

datatype ls_input =
    CallConnect
  | CallClose
  | OnOpen nat bool
  | OnMessage nat frame
  | OnError nat string
  | OnClose nat int
  | ReconnectTimer

fun ls_step :: "ls_input \<Rightarrow> LogStreamer \<Rightarrow> (LogStreamer \<times> ls_effect list) option" where
  "ls_step CallConnect st = Some (connect st)"
| "ls_step CallClose st = Some (close st)"
| "ls_step (OnOpen s ok) st =
     (if s < length (sockets st) \<and> sockets st ! s = CONNECTING
      then Some (on_open ok (st\<lparr>sockets := (sockets st)[s := OPEN]\<rparr>)) else None)"
| "ls_step (OnMessage s f) st =
     (if s < length (sockets st) \<and> sockets st ! s = OPEN
      then Some (on_message f st) else None)"
| "ls_step (OnError s m) st =
     (if s < length (sockets st) \<and> sockets st ! s \<noteq> CLOSED
      then Some (on_error m st) else None)"
| "ls_step (OnClose s code) st =
     (if s < length (sockets st) \<and> sockets st ! s \<noteq> CLOSED
      then Some (on_close code (st\<lparr>sockets := (sockets st)[s := CLOSED]\<rparr>)) else None)"
| "ls_step ReconnectTimer st =
     (if timers st > 0 then Some (connect (st\<lparr>timers := timers st - 1\<rparr>)) else None)"

fun ls_run :: "ls_input list \<Rightarrow> LogStreamer \<Rightarrow> (LogStreamer \<times> ls_effect list) option" where
  "ls_run [] st = Some (st, [])"
| "ls_run (i # rest) st =
     (case ls_step i st of
        None \<Rightarrow> None
      | Some (st1, es1) \<Rightarrow>
          (case ls_run rest st1 of
             None \<Rightarrow> None
           | Some (st2, es2) \<Rightarrow> Some (st2, es1 @ es2)))"

text \<open>The reconnect timers an effect list sets.\<close>

definition reconnects :: "ls_effect list \<Rightarrow> int list" where
  "reconnects es = concat (map (\<lambda>e. case e of SetTimeoutConnect d \<Rightarrow> [d] | _ \<Rightarrow> []) es)"

declare retry.simps [simp del]
declare poll_deployment.simps [simp del]
declare poll_running.simps [simp del]
declare show_nat.simps [simp del]

section \<open>Notions of the statements, and sample inputs\<close>

text \<open>What a trace holds of one kind: the bodies of the heartbeats, the arguments of the
  calls of \<open>launchJob\<close>, the watch tasks started, the requests made to node endpoints, and
  the definitions handed to public storage or to the marketplace.\<close>

definition heartbeats :: "event list \<Rightarrow> HeartbeatPayload list" where
  "heartbeats es = concat (map (\<lambda>e. case e of Heartbeat u p \<Rightarrow> [p] | _ \<Rightarrow> []) es)"

definition launches :: "event list \<Rightarrow> (json \<times> string \<times> bool) list" where
  "launches es = concat (map (\<lambda>e. case e of LaunchJob d m c \<Rightarrow> [(d, m, c)] | _ \<Rightarrow> []) es)"

definition spawned :: "event list \<Rightarrow> (string \<times> string \<times> WatchOptions) list" where
  "spawned es = concat (map (\<lambda>e. case e of SpawnWatch a u opts \<Rightarrow> [(a, u, opts)] | _ \<Rightarrow> []) es)"

definition node_posts :: "event list \<Rightarrow> (string \<times> (string \<times> string) list \<times> json) list" where
  "node_posts es = concat (map (\<lambda>e. case e of NodePost u h b \<Rightarrow> [(u, h, b)] | _ \<Rightarrow> []) es)"

definition published :: "event list \<Rightarrow> json list" where
  "published es =
     concat (map (\<lambda>e. case e of IpfsPin d \<Rightarrow> [d] | DeploymentsCreate d m \<Rightarrow> [d] | _ \<Rightarrow> []) es)"

text \<open>A failure that signals rate limiting, as \<open>retry\<close> recognises it.\<close>

definition rate_limited :: "error \<Rightarrow> bool" where
  "rate_limited e =
     (js_includes (errorMsg_of e) ''429'' \<or> js_includes (errorMsg_of e) ''Too Many Requests'')"

text \<open>The trace of an operation that fails \<open>n + 1\<close> times with the waits between.\<close>

fun backoff :: "event \<Rightarrow> nat \<Rightarrow> int \<Rightarrow> event list" where
  "backoff ev 0 d = [ev]"
| "backoff ev (Suc n) d = ev # Sleep d # backoff ev n (d * 2)"

definition world0 :: world where
  "world0 = \<lparr>watchedJobs = (\<lambda>a. None), cachedApiAuth = None, events = []\<rparr>"

definition too_many :: error where
  "too_many = Error (Some 429) (Some ''Nosana API Error (429): Too Many Requests'')"

definition boom :: error where
  "boom = Error None (Some ''connection reset'')"

definition always_too_many :: "nat \<Rightarrow> error + Job" where
  "always_too_many i = Inl too_many"

definition always_boom :: "nat \<Rightarrow> error + Job" where
  "always_boom i = Inl boom"

definition env0 :: env where
  "env0 = \<lparr>authMode = Api, NOSANA_INGRESS_DOMAIN = [], clock = (\<lambda>i. 0),
            is_address = (\<lambda>a. True),
            jobs_get = (\<lambda>a i. Inl boom),
            ipfs_pin = (\<lambda>d i. Inr ''QmDummy''),
            ipfs_retrieve = (\<lambda>h i. Inl boom),
            getJobExposedServices = (\<lambda>d a. Inr []),
            api_sign_message =
              (\<lambda>m i. Inr \<lparr>signature = ''sig'', message = m, userAddress = ''user''\<rparr>),
            api_jobs_list = (\<lambda>h m i. Inr ''job2''),
            deployments_create = (\<lambda>d m i. Inl boom),
            deployments_get = (\<lambda>u i. Inl boom),
            jobs_post = (\<lambda>h m i. Inl boom),
            buildSignAndSend = (\<lambda>i. Inl boom),
            generateHeaders = (\<lambda>h i. Inl boom),
            fetch_node = (\<lambda>u i. Response 200 []),
            fetch_heartbeat = (\<lambda>u i. Inr ()),
            extend_job = (\<lambda>a d i. Inr ())\<rparr>"

text \<open>A signing service that answers with a message other than the one it was sent.\<close>

definition normalising_signer :: "string \<Rightarrow> nat \<Rightarrow> error + SignResult" where
  "normalising_signer m i =
     Inr \<lparr>signature = ''sig'', message = ''hello nosana node'', userAddress = ''user''\<rparr>"

definition cached0 :: CachedApiAuth where
  "cached0 = \<lparr>signature = ''sig'', message = ''Hello Nosana Node!'', userAddress = ''user'',
              timestamp = -299999\<rparr>"

text \<open>Sample parties and inputs of the confidential push.\<close>

definition rejecting_node :: "string \<Rightarrow> nat \<Rightarrow> fetch_result" where
  "rejecting_node u i = Response 401 ''signature expired''"

definition failing_signer :: "string \<Rightarrow> nat \<Rightarrow> error + SignResult" where
  "failing_signer m i = Inl boom"

text \<open>A wallet that signs the headers of a request, and one that fails to.\<close>

definition wallet_signer :: "string \<Rightarrow> nat \<Rightarrow> error + (string \<times> string) list" where
  "wallet_signer h i = Inr [(''Authorization'', ''Hello Nosana Node!:new''), (''X-Time'', ''1'')]"

definition failing_wallet :: "string \<Rightarrow> nat \<Rightarrow> error + (string \<times> string) list" where
  "failing_wallet h i = Inl boom"

definition def0 :: json where
  "def0 = JObj [(''version'', JStr ''0.1''), (''type'', JStr ''container''),
                (''meta'', JObj [(''trigger'', JStr ''dashboard''),
                                 (''system_requirements'', JObj [(''required_vram'', JNum 24)])]),
                (''ops'', JArr [JObj [(''type'', JStr ''container/run''), (''id'', JStr ''llm''),
                                      (''args'', JObj [(''image'', JStr ''registry.example/llm:1''),
                                                       (''cmd'', JStr ''serve --port 8000'')])]])]"

definition headers0 :: "(string \<times> string) list" where
  "headers0 = [(''Content-Type'', ''application/json''), (''Authorization'', ''Hello Nosana Node!:old'')]"

text \<open>What the handoff does, up to the new signing request, when the node rejects the
  definition with a 4xx status.\<close>

definition rejection_trace :: "string \<Rightarrow> (string \<times> string) list \<Rightarrow> json \<Rightarrow> event list" where
  "rejection_trace url hdrs body =
     [NodePost url hdrs body,
      ConsoleLog Warn ''[Confidential] Node rejected definition, retrying in 5s...'',
      Sleep 5000, ApiSignMessage SIGN_MESSAGE]"

definition job0 :: Job where
  "job0 = \<lparr>job_address = ''job1'', job_state = 1, job_node = ''node1'', job_project = ''owner1'',
            job_price = 1, job_ipfsJob = Some ''QmDummy'', job_ipfsResult = None\<rparr>"

definition broken_node :: "string \<Rightarrow> nat \<Rightarrow> fetch_result" where
  "broken_node u i = Response 500 ''internal error''"

definition unreachable_node :: "string \<Rightarrow> nat \<Rightarrow> fetch_result" where
  "unreachable_node u i = NetworkError ''fetch failed''"

definition url0 :: string where
  "url0 = ''https://node1.node.k8s.prd.nos.ci/job/job1/job-definition''"

text \<open>Whether, among the events \<open>es\<close> that begin at position \<open>b\<close> of a trace, there is a
  read of the job \<open>addr\<close> that was answered with a job whose state satisfies \<open>P\<close>.\<close>

fun seen :: "env \<Rightarrow> string \<Rightarrow> (int \<Rightarrow> bool) \<Rightarrow> nat \<Rightarrow> event list \<Rightarrow> bool" where
  "seen en addr P b [] = False"
| "seen en addr P b (e # es) =
     ((e = JobsGet addr \<and> (case jobs_get en addr b of Inl x \<Rightarrow> False | Inr j \<Rightarrow> P (job_state j)))
      \<or> seen en addr P (Suc b) es)"

definition shows_running :: "int \<Rightarrow> bool" where
  "shows_running st = (st = JobState_RUNNING)"

definition shows_ended :: "int \<Rightarrow> bool" where
  "shows_ended st = (st = JobState_COMPLETED \<or> st = JobState_STOPPED)"

text \<open>The events a method has added to the trace.\<close>

definition new_events :: "world \<Rightarrow> world \<Rightarrow> event list" where
  "new_events w w' = drop (length (events w)) (events w')"

text \<open>A job that has completed, and a marketplace that always reports it.\<close>

definition job_done :: Job where
  "job_done = \<lparr>job_address = ''job1'', job_state = 2, job_node = ''node1'', job_project = ''owner1'',
            job_price = 1, job_ipfsJob = Some ''QmDummy'', job_ipfsResult = None\<rparr>"

definition completed_job :: "string \<Rightarrow> nat \<Rightarrow> error + Job" where
  "completed_job a i = Inr job_done"

text \<open>An event that is not a heartbeat, a call of \<open>launchJob\<close> or the start of a watch
  task; a world that differs from another by such events only.\<close>

definition quiet :: "event \<Rightarrow> bool" where
  "quiet e = (case e of Heartbeat u p \<Rightarrow> False | LaunchJob d m c \<Rightarrow> False
              | SpawnWatch a u opts \<Rightarrow> False | _ \<Rightarrow> True)"

definition adds :: "world \<Rightarrow> event list \<Rightarrow> world \<Rightarrow> bool" where
  "adds w es w' = (events w' = events w @ es \<and> watchedJobs w' = watchedJobs w)"

definition quietly :: "world \<Rightarrow> world \<Rightarrow> bool" where
  "quietly w w' = (\<exists>es. events w' = events w @ es \<and> (\<forall>e\<in>set es. quiet e))"

text \<open>A watched job, its registry, and clocks that read 25 and 10 minutes after its start.\<close>

definition info0 :: WatchedJobInfo where
  "info0 = \<lparr>jobAddress = ''job1'', deploymentUuid = None, startTime = 0, lastExtendTime = 0,
            jobDefinition = def0, marketAddress = ''market1'', isConfidential = True,
            resources = \<lparr>gpu_allocated = 1, vcpu_allocated = 8, ram_gb_allocated = 32\<rparr>,
            userStopped = False, serviceUrl = None\<rparr>"

definition watching0 :: world where
  "watching0 = world0\<lparr>watchedJobs := (\<lambda>a. None)(''job1'' \<mapsto> info0)\<rparr>"

definition loc0 :: watch_local where
  "loc0 = \<lparr>lastState = Some 1, lastHeartbeat = 0\<rparr>"

definition orch0 :: string where
  "orch0 = ''http://localhost:8080''"

definition env_late :: env where
  "env_late = env0\<lparr>jobs_get := completed_job, clock := (\<lambda>i. 1500000)\<rparr>"

definition env_early :: env where
  "env_early = env0\<lparr>jobs_get := completed_job, clock := (\<lambda>i. 600000)\<rparr>"

definition no_storage :: "json \<Rightarrow> nat \<Rightarrow> error + string" where
  "no_storage d i = Inl boom"

definition status0 :: JobStatus where
  "status0 = \<lparr>jobState = 2, gj_jobAddress = ''job1'', runAddress = ''owner1'',
              nodeAddress = ''node1'', price = 1, ipfsResult = None, gj_serviceUrl = None\<rparr>"

text \<open>The inputs that are an \<^verbatim>\<open>open\<close> event of a socket.\<close>

fun is_open :: "ls_input \<Rightarrow> bool" where
  "is_open (OnOpen s ok) = True"
| "is_open i = False"

text \<open>
  States and input sequences of the log streamer: the state after \<open>k\<close> failed connections
  (the last socket still connecting), the state once the reconnection budget is used up,
  \<open>n\<close> rounds of a close followed by the reconnect timer, and a connection that opens and
  drops eleven times in a row.
\<close>

definition failing_state :: "nat \<Rightarrow> LogStreamer" where
  "failing_state k = \<lparr>ws = Some k, shouldReconnect = True, retryCount = k,
                       sockets = replicate k CLOSED @ [CONNECTING], timers = 0\<rparr>"

definition stopped_state :: LogStreamer where
  "stopped_state = \<lparr>ws = Some 10, shouldReconnect = True, retryCount = 10,
                     sockets = replicate 11 CLOSED, timers = 0\<rparr>"

definition failed_rounds :: "int \<Rightarrow> nat \<Rightarrow> nat \<Rightarrow> ls_input list" where
  "failed_rounds code k n = concat (map (\<lambda>j. [OnClose j code, ReconnectTimer]) [k..<k + n])"

definition flapping :: "ls_input list" where
  "flapping = CallConnect #
     concat (map (\<lambda>j. [OnOpen j True, OnClose j 1006, ReconnectTimer]) [0..<11])"

text \<open>
  A declared external-listen endpoint of a definition: its \<open>logistics\<close> has an entry for
  the side (\<open>send\<close> or \<open>receive\<close>) whose type is \<open>api\<close>.
\<close>

definition carried_over :: "json \<Rightarrow> string \<Rightarrow> bool" where
  "carried_over jd side =
     (truthy (js_prop jd ''logistics'') \<and> truthy (js_prop (js_prop jd ''logistics'') side)
      \<and> js_prop (js_prop (js_prop jd ''logistics'') side) ''type'' = JStr ''api'')"

text \<open>A definition that declares an \<open>api\<close> endpoint for sending and an endpoint of
  another type for receiving.\<close>

definition api_send :: json where
  "api_send = JObj [(''type'', JStr ''api''), (''args'', JObj [(''endpoint'', JStr ''/results'')])]"

definition def_listen :: json where
  "def_listen = JObj [(''version'', JStr ''0.1''), (''type'', JStr ''container''),
                (''meta'', JObj [(''trigger'', JStr ''dashboard'')]),
                (''logistics'', JObj [(''send'', api_send),
                                      (''receive'', JObj [(''type'', JStr ''http'')])]),
                (''ops'', JArr [JObj [(''type'', JStr ''container/run''), (''id'', JStr ''llm''),
                                      (''args'', JObj [(''image'', JStr ''registry.example/llm:1''),
                                                       (''cmd'', JStr ''serve --port 8000'')])]])]"

text \<open>From one world to a later one, nothing but \<open>p\<close> is handed to public storage or to
  the deployments interface.\<close>

definition publishes :: "json \<Rightarrow> world \<Rightarrow> world \<Rightarrow> bool" where
  "publishes p w w' = (\<exists>es. events w' = events w @ es \<and> set (published es) \<subseteq> {p})"

text \<open>
  A sample of the number operations, over integer credits: \<^verbatim>\<open>toFixed(d)\<close> of an
  integer is its decimal notation followed by \<open>d\<close> zeros. A credits endpoint that answers
  100 assigned, 20 reserved and 10 settled credits, an SDK that answers the amount
  \<open>12.50\<close>, and the two of them failing.
\<close>

definition show_int :: "int \<Rightarrow> string" where
  "show_int x = (if x < 0 then ''-'' @ show_nat (nat (- x)) else show_nat (nat x))"

definition int_number :: "int Number" where
  "int_number = \<lparr>num_zero = 0, num_minus = (\<lambda>x y. x - y),
                  num_toFixed = (\<lambda>x d. show_int x @ (if d = 0 then [] else ''.'' @ replicate d (CHR ''0''))),
                  num_toString = show_int\<rparr>"

definition credits0 :: "int CreditsBalance" where
  "credits0 = \<lparr>assignedCredits = 100, reservedCredits = 20, settledCredits = 10\<rparr>"

definition balance0 :: "int balance_env" where
  "balance0 = \<lparr>credits_balance = (\<lambda>i. Inr (Some credits0)),
               sdk_credits_balance = (\<lambda>i. Inr (JObj [(''amount'', JStr ''12.50'')])),
               solana_getBalance = (\<lambda>i. Inl boom),
               nos_getBalance = (\<lambda>i. Inl boom),
               wallet = None\<rparr>"

definition endpoint_down :: "nat \<Rightarrow> error + int CreditsBalance option" where
  "endpoint_down i = Inl boom"

definition sdk_down :: "nat \<Rightarrow> error + json" where
  "sdk_down i = Inl too_many"

chapter \<open>Verification\<close>

section \<open>The retry helper\<close>

lemma retry_returns: "fn w = (Inr v, w1) \<Longrightarrow> retry fn r d w = (Inr v, w1)"
  by (subst retry.simps) simp

lemma retry_propagates:
  "fn w = (Inl e, w1) \<Longrightarrow> \<not> rate_limited e \<Longrightarrow> retry fn r d w = (Inl e, w1)"
  by (subst retry.simps) (simp add: rate_limited_def)

lemma retry_exhausted:
  "fn w = (Inl e, w1) \<Longrightarrow> r \<le> 0 \<Longrightarrow> retry fn r d w = (Inl e, w1)"
  by (subst retry.simps) simp

lemma retry_again:
  "fn w = (Inl e, w1) \<Longrightarrow> rate_limited e \<Longrightarrow> 0 < r \<Longrightarrow>
   retry fn r d w = retry fn (r - 1) (d * 2) (emit (Sleep d) w1)"
  by (subst retry.simps) (simp add: rate_limited_def)

text \<open>An operation that is rate limited every time is tried \<open>n + 1\<close> times when
  \<open>n\<close> retries are allowed, with \<open>n\<close> waits that double.\<close>

lemma retry_persistent:
  assumes "\<forall>i. \<exists>e. resp i = Inl e \<and> rate_limited e"
  shows "retry (extern ev resp) (int n) d w =
           (resp (length (events w) + 2 * n), w\<lparr>events := events w @ backoff ev n d\<rparr>)"
proof (induction n arbitrary: d w)
  case 0
  obtain e where e: "resp (length (events w)) = Inl e" using assms by blast
  have "extern ev resp w = (Inl e, emit ev w)" by (simp add: extern_def e)
  then have "retry (extern ev resp) 0 d w = (Inl e, emit ev w)" by (rule retry_exhausted) simp
  then show ?case by (simp add: e emit_def)
next
  case (Suc n)
  obtain e where e: "resp (length (events w)) = Inl e" "rate_limited e" using assms by blast
  have "extern ev resp w = (Inl e, emit ev w)" by (simp add: extern_def e)
  then have "retry (extern ev resp) (int (Suc n)) d w
          = retry (extern ev resp) (int (Suc n) - 1) (d * 2) (emit (Sleep d) (emit ev w))"
    by (rule retry_again) (use e in simp_all)
  then have "retry (extern ev resp) (int (Suc n)) d w
          = retry (extern ev resp) (int n) (d * 2) (emit (Sleep d) (emit ev w))" by simp
  also have "\<dots> = (resp (length (events w) + 2 * Suc n),
                     w\<lparr>events := events w @ backoff ev (Suc n) d\<rparr>)"
    by (simp add: Suc.IH emit_def)
  finally show ?case .
qed

lemma backoff_default:
  "backoff ev 5 500 = [ev, Sleep 500, ev, Sleep 1000, ev, Sleep 2000, ev, Sleep 4000,
                       ev, Sleep 8000, ev]"
  by (simp add: eval_nat_numeral)

lemma rate_limited_too_many: "rate_limited too_many"
  by (simp add: rate_limited_def too_many_def errorMsg_of_def)

lemma not_rate_limited_boom: "\<not> rate_limited boom"
  by (simp add: rate_limited_def boom_def errorMsg_of_def)

text \<open>
  \<^bold>\<open>C4\<close>, as stated, does not hold: with the default arguments an operation that is rate
  limited every time is invoked six times, not five. The waits are the five the claim
  lists.
\<close>

theorem retry_default_six_attempts:
  "count_list (events (snd (retry_default (extern (JobsGet ''job'') always_too_many) world0)))
     (JobsGet ''job'') = 6
   \<and> count_list (events (snd (retry_default (extern (JobsGet ''job'') always_too_many) world0)))
       (JobsGet ''job'') \<noteq> 5"
proof -
  have "\<forall>i. \<exists>e. always_too_many i = Inl e \<and> rate_limited e"
    by (simp add: always_too_many_def rate_limited_too_many)
  from retry_persistent[OF this, of "JobsGet ''job''" 5 500 world0]
  show ?thesis by (simp add: retry_default_def backoff_default world0_def)
qed

text \<open>
  \<^bold>\<open>C4\<close>, amended. A failure of the wrapped operation that does not signal rate
  limiting (its message contains neither "429" nor "Too Many Requests") is propagated at
  once, whatever the retries left, with nothing done after the operation. An operation
  that signals rate limiting every time is, with the default arguments, invoked six times:
  the first attempt and five retries, after waits of 500, 1000, 2000, 4000 and 8000 ms;
  then its last failure is propagated.
\<close>

theorem retry_policy:
  "(fn w = (Inl e, w1) \<and> \<not> rate_limited e \<longrightarrow> retry fn r d w = (Inl e, w1))
   \<and> ((\<forall>i. \<exists>e. resp i = Inl e \<and> rate_limited e) \<longrightarrow>
        retry_default (extern ev resp) w =
          (resp (length (events w) + 10),
           w\<lparr>events := events w @ [ev, Sleep 500, ev, Sleep 1000, ev, Sleep 2000,
                                    ev, Sleep 4000, ev, Sleep 8000, ev]\<rparr>))"
proof (intro conjI impI)
  assume "fn w = (Inl e, w1) \<and> \<not> rate_limited e"
  then show "retry fn r d w = (Inl e, w1)" by (simp add: retry_propagates)
next
  assume a: "\<forall>i. \<exists>e. resp i = Inl e \<and> rate_limited e"
  from retry_persistent[OF a, of ev 5 500 w]
  show "retry_default (extern ev resp) w =
          (resp (length (events w) + 10),
           w\<lparr>events := events w @ [ev, Sleep 500, ev, Sleep 1000, ev, Sleep 2000,
                                    ev, Sleep 4000, ev, Sleep 8000, ev]\<rparr>)"
    by (simp add: retry_default_def backoff_default)
qed

theorem retry_policy_witness:
  "retry (extern (JobsGet ''job'') always_boom) 5 500 world0
     = (Inl boom, world0\<lparr>events := [JobsGet ''job'']\<rparr>)
   \<and> retry_default (extern (JobsGet ''job'') always_too_many) world0
     = (Inl too_many,
        world0\<lparr>events := [JobsGet ''job'', Sleep 500, JobsGet ''job'', Sleep 1000,
                           JobsGet ''job'', Sleep 2000, JobsGet ''job'', Sleep 4000,
                           JobsGet ''job'', Sleep 8000, JobsGet ''job'']\<rparr>)"
  using retry_policy[of "extern (JobsGet ''job'') always_boom" world0 boom
          "world0\<lparr>events := [JobsGet ''job'']\<rparr>" 5 500 always_too_many "JobsGet ''job''"]
  by (simp add: extern_def emit_def world0_def always_boom_def always_too_many_def
        not_rate_limited_boom rate_limited_too_many)

section \<open>Delegated signing\<close>

lemma sign_hit:
  "authMode en = Api \<Longrightarrow> cachedApiAuth w = Some c \<Longrightarrow> message c = msg \<Longrightarrow>
   now en w - timestamp c < API_AUTH_CACHE_TTL_MS \<Longrightarrow>
   signMessageExternal en msg w =
     (Inr \<lparr>signature = signature c, message = message c, userAddress = userAddress c\<rparr>, w)"
  by (simp add: signMessageExternal_def)

lemma sign_miss:
  "authMode en = Api \<Longrightarrow>
   cachedApiAuth w = None \<or> (\<exists>c. cachedApiAuth w = Some c \<and>
       (message c \<noteq> msg \<or> API_AUTH_CACHE_TTL_MS \<le> now en w - timestamp c)) \<Longrightarrow>
   signMessageExternal en msg w =
     (case api_sign_message en msg (length (events w)) of
        Inl e \<Rightarrow> (Inl e, emit (ApiSignMessage msg) w)
      | Inr res \<Rightarrow>
          (Inr res,
           (emit (ApiSignMessage msg) w)\<lparr>cachedApiAuth :=
              Some \<lparr>signature = signature res, message = message res,
                    userAddress = userAddress res, timestamp = now en w\<rparr>\<rparr>))"
  by (auto simp add: signMessageExternal_def extern_def split: sum.splits)

text \<open>
  \<^bold>\<open>C6\<close>, as stated, does not hold: the cache entry is the answer of the signing
  service, and the entry is compared by the message of that answer. When the service
  answers with another message than the one requested, a second call with the same
  message, at the same instant, asks the service again.
\<close>

theorem signing_twice_asks_twice:
  "events (snd (signMessageExternal (env0\<lparr>api_sign_message := normalising_signer\<rparr>)
                  ''Hello Nosana Node!''
             (snd (signMessageExternal (env0\<lparr>api_sign_message := normalising_signer\<rparr>)
                     ''Hello Nosana Node!'' world0))))
   = [ApiSignMessage ''Hello Nosana Node!'', ApiSignMessage ''Hello Nosana Node!'']"
  by (simp add: signMessageExternal_def env0_def normalising_signer_def world0_def
        extern_def emit_def now_def API_AUTH_CACHE_TTL_MS_def)

text \<open>
  \<^bold>\<open>C6\<close>, amended. In API mode: (1) a call whose message equals the message of the
  cache entry, less than 5 minutes after the entry's timestamp, returns the entry's
  signature, message and user address and leaves the world as it was: no request is made;
  (2) a call with an empty (cleared) cache, with a message other than the entry's, or
  5 minutes or more after the entry's timestamp makes one new signing request; (3) when a
  first call finds the cache empty and the service answers with the message it was sent,
  a second call with the same message less than 5 minutes later returns that same answer
  and makes no request.
\<close>

theorem delegated_signing_cache:
  assumes api: "authMode en = Api"
  shows
  "(cachedApiAuth w = Some c \<and> message c = msg
      \<and> now en w - timestamp c < API_AUTH_CACHE_TTL_MS
      \<longrightarrow> signMessageExternal en msg w =
            (Inr \<lparr>signature = signature c, message = message c, userAddress = userAddress c\<rparr>, w))
   \<and> (cachedApiAuth w' = None
        \<or> (\<exists>c. cachedApiAuth w' = Some c \<and>
              (message c \<noteq> msg' \<or> API_AUTH_CACHE_TTL_MS \<le> now en w' - timestamp c))
      \<longrightarrow> events (snd (signMessageExternal en msg' w')) = events w' @ [ApiSignMessage msg'])
   \<and> (cachedApiAuth v = None \<and> api_sign_message en m (length (events v)) = Inr res
        \<and> message res = m
        \<and> clock en (Suc (length (events v))) - clock en (length (events v))
            < API_AUTH_CACHE_TTL_MS
      \<longrightarrow> signMessageExternal en m v =
            (Inr res, (emit (ApiSignMessage m) v)\<lparr>cachedApiAuth :=
              Some \<lparr>signature = signature res, message = message res,
                    userAddress = userAddress res, timestamp = now en v\<rparr>\<rparr>)
          \<and> signMessageExternal en m (snd (signMessageExternal en m v)) =
            (Inr res, snd (signMessageExternal en m v)))"
proof (intro conjI impI)
  assume "cachedApiAuth w = Some c \<and> message c = msg
            \<and> now en w - timestamp c < API_AUTH_CACHE_TTL_MS"
  then show "signMessageExternal en msg w =
            (Inr \<lparr>signature = signature c, message = message c, userAddress = userAddress c\<rparr>, w)"
    using api by (simp add: sign_hit)
next
  assume "cachedApiAuth w' = None
        \<or> (\<exists>c. cachedApiAuth w' = Some c \<and>
              (message c \<noteq> msg' \<or> API_AUTH_CACHE_TTL_MS \<le> now en w' - timestamp c))"
  from sign_miss[OF api this]
  show "events (snd (signMessageExternal en msg' w')) = events w' @ [ApiSignMessage msg']"
    by (simp add: emit_def split: sum.splits)
next
  assume a: "cachedApiAuth v = None \<and> api_sign_message en m (length (events v)) = Inr res
        \<and> message res = m
        \<and> clock en (Suc (length (events v))) - clock en (length (events v))
            < API_AUTH_CACHE_TTL_MS"
  let ?v1 = "(emit (ApiSignMessage m) v)\<lparr>cachedApiAuth :=
              Some \<lparr>signature = signature res, message = message res,
                    userAddress = userAddress res, timestamp = now en v\<rparr>\<rparr>"
  have first: "signMessageExternal en m v = (Inr res, ?v1)"
    using sign_miss[OF api, of v m] a by simp
  then show "signMessageExternal en m v = (Inr res, ?v1)" .
  have "signMessageExternal en m ?v1 = (Inr res, ?v1)"
    using a api by (simp add: signMessageExternal_def now_def emit_def)
  then show "signMessageExternal en m (snd (signMessageExternal en m v)) =
            (Inr res, snd (signMessageExternal en m v))"
    by (simp add: first)
qed

theorem delegated_signing_cache_witness:
  "signMessageExternal env0 ''Hello Nosana Node!'' (world0\<lparr>cachedApiAuth := Some cached0\<rparr>)
     = (Inr \<lparr>signature = ''sig'', message = ''Hello Nosana Node!'', userAddress = ''user''\<rparr>,
        world0\<lparr>cachedApiAuth := Some cached0\<rparr>)
   \<and> events (snd (signMessageExternal env0 ''another message''
                    (world0\<lparr>cachedApiAuth := Some cached0\<rparr>)))
     = [ApiSignMessage ''another message'']
   \<and> signMessageExternal env0 ''Hello Nosana Node!''
       (snd (signMessageExternal env0 ''Hello Nosana Node!'' world0))
     = (Inr \<lparr>signature = ''sig'', message = ''Hello Nosana Node!'', userAddress = ''user''\<rparr>,
        snd (signMessageExternal env0 ''Hello Nosana Node!'' world0))"
proof -
  have api: "authMode env0 = Api" by (simp add: env0_def)
  note T = delegated_signing_cache[OF api, where
          w = "world0\<lparr>cachedApiAuth := Some cached0\<rparr>" and c = cached0
          and msg = "''Hello Nosana Node!''"
          and w' = "world0\<lparr>cachedApiAuth := Some cached0\<rparr>" and msg' = "''another message''"
          and v = world0 and m = "''Hello Nosana Node!''"
          and res = "\<lparr>signature = ''sig'', message = ''Hello Nosana Node!'', userAddress = ''user''\<rparr>"]
  have h1: "cachedApiAuth (world0\<lparr>cachedApiAuth := Some cached0\<rparr>) = Some cached0
            \<and> message cached0 = ''Hello Nosana Node!''
            \<and> now env0 (world0\<lparr>cachedApiAuth := Some cached0\<rparr>) - timestamp cached0
                < API_AUTH_CACHE_TTL_MS"
    by (simp add: env0_def world0_def cached0_def now_def API_AUTH_CACHE_TTL_MS_def)
  have h2: "\<exists>c. cachedApiAuth (world0\<lparr>cachedApiAuth := Some cached0\<rparr>) = Some c \<and>
              (message c \<noteq> ''another message''
               \<or> API_AUTH_CACHE_TTL_MS
                    \<le> now env0 (world0\<lparr>cachedApiAuth := Some cached0\<rparr>) - timestamp c)"
    by (simp add: cached0_def)
  have h3: "cachedApiAuth world0 = None
            \<and> api_sign_message env0 ''Hello Nosana Node!'' (length (events world0))
                = Inr \<lparr>signature = ''sig'', message = ''Hello Nosana Node!'', userAddress = ''user''\<rparr>
            \<and> message \<lparr>signature = ''sig'', message = ''Hello Nosana Node!'', userAddress = ''user''\<rparr>
                = ''Hello Nosana Node!''
            \<and> clock env0 (Suc (length (events world0))) - clock env0 (length (events world0))
                < API_AUTH_CACHE_TTL_MS"
    by (simp add: env0_def world0_def API_AUTH_CACHE_TTL_MS_def)
  have c1: "signMessageExternal env0 ''Hello Nosana Node!'' (world0\<lparr>cachedApiAuth := Some cached0\<rparr>)
     = (Inr \<lparr>signature = ''sig'', message = ''Hello Nosana Node!'', userAddress = ''user''\<rparr>,
        world0\<lparr>cachedApiAuth := Some cached0\<rparr>)"
    using T h1 by (simp add: cached0_def)
  have c2: "events (snd (signMessageExternal env0 ''another message''
                    (world0\<lparr>cachedApiAuth := Some cached0\<rparr>)))
     = [ApiSignMessage ''another message'']"
    using T h2 by (simp add: world0_def)
  have c3: "signMessageExternal env0 ''Hello Nosana Node!''
       (snd (signMessageExternal env0 ''Hello Nosana Node!'' world0))
     = (Inr \<lparr>signature = ''sig'', message = ''Hello Nosana Node!'', userAddress = ''user''\<rparr>,
        snd (signMessageExternal env0 ''Hello Nosana Node!'' world0))"
    using T h3 by blast
  from c1 c2 c3 show ?thesis by blast
qed

section \<open>The confidential push\<close>

lemma sendDef_eq:
  "sendDef en url body hdrs w =
     ((case fetch_node en url (length (events w)) of
         NetworkError m \<Rightarrow> Inl (Error None (Some m))
       | Response c t \<Rightarrow> if 200 \<le> c \<and> c \<le> 299 then Inr () else Inl (Error (Some c) (Some t))),
      emit (NodePost url hdrs body) w)"
  by (cases "fetch_node en url (length (events w))") (simp_all add: sendDef_def extern_def)

lemma api_headers_uncached:
  "authMode en = Api \<Longrightarrow> cachedApiAuth w = None \<Longrightarrow>
   auth_headers en hash hdrs w =
     (case api_sign_message en SIGN_MESSAGE (length (events w)) of
        Inl e \<Rightarrow> (Inl e, emit (ApiSignMessage SIGN_MESSAGE) w)
      | Inr res \<Rightarrow>
          (Inr (obj_set ''Authorization'' (message res @ '':'' @ signature res) hdrs),
           (emit (ApiSignMessage SIGN_MESSAGE) w)\<lparr>cachedApiAuth :=
              Some \<lparr>signature = signature res, message = message res,
                    userAddress = userAddress res, timestamp = now en w\<rparr>\<rparr>))"
  by (simp add: auth_headers_def generateApiNodeAuthHeader_def signMessageExternal_def extern_def
      split: sum.splits)

lemma reauth_4xx:
  assumes api: "authMode en = Api"
    and r1: "fetch_node en url (length (events w)) = Response status reply"
    and c: "400 \<le> status" "status < 500"
  shows "send_with_reauth en url body hash hdrs w =
     (case api_sign_message en SIGN_MESSAGE (length (events w) + 3) of
        Inl e \<Rightarrow> (Inl e, w\<lparr>cachedApiAuth := None,
                           events := events w @ rejection_trace url hdrs body\<rparr>)
      | Inr res \<Rightarrow>
          ((case fetch_node en url (length (events w) + 4) of
              NetworkError m \<Rightarrow> Inl (Error None (Some m))
            | Response c t \<Rightarrow> if 200 \<le> c \<and> c \<le> 299 then Inr () else Inl (Error (Some c) (Some t))),
           w\<lparr>cachedApiAuth := Some \<lparr>signature = signature res, message = message res,
                    userAddress = userAddress res, timestamp = clock en (length (events w) + 3)\<rparr>,
              events := events w @ rejection_trace url hdrs body
                 @ [NodePost url (obj_set ''Authorization'' (message res @ '':'' @ signature res) hdrs) body]\<rparr>))"
proof -
  let ?w3 = "(emit (Sleep 5000)
               (emit (ConsoleLog Warn ''[Confidential] Node rejected definition, retrying in 5s...'')
                  (emit (NodePost url hdrs body) w)))\<lparr>cachedApiAuth := None\<rparr>"
  have len: "length (events ?w3) = length (events w) + 3" by (simp add: emit_def)
  have s: "send_with_reauth en url body hash hdrs w =
     (case auth_headers en hash hdrs ?w3 of
        (Inl e2, w4) \<Rightarrow> (Inl e2, w4)
      | (Inr fresh, w4) \<Rightarrow> sendDef en url body fresh w4)"
    using api r1 c by (simp add: send_with_reauth_def sendDef_eq Let_def)
  have a: "auth_headers en hash hdrs ?w3 =
     (case api_sign_message en SIGN_MESSAGE (length (events w) + 3) of
        Inl e \<Rightarrow> (Inl e, emit (ApiSignMessage SIGN_MESSAGE) ?w3)
      | Inr res \<Rightarrow>
          (Inr (obj_set ''Authorization'' (message res @ '':'' @ signature res) hdrs),
           (emit (ApiSignMessage SIGN_MESSAGE) ?w3)\<lparr>cachedApiAuth :=
              Some \<lparr>signature = signature res, message = message res,
                    userAddress = userAddress res, timestamp = now en ?w3\<rparr>\<rparr>))"
    using api_headers_uncached[OF api, of ?w3 hash hdrs] len by simp
  show ?thesis
    unfolding s a
    by (simp add: sendDef_eq emit_def now_def rejection_trace_def eval_nat_numeral split: sum.splits)
qed

lemma reauth_4xx_wallet:
  assumes wal: "authMode en = Wallet"
    and r1: "fetch_node en url (length (events w)) = Response status reply"
    and c: "400 \<le> status" "status < 500"
  shows "send_with_reauth en url body hash hdrs w =
     (case generateHeaders en hash (length (events w) + 3) of
        Inl e \<Rightarrow> (Inl e, w\<lparr>events := events w @
             [NodePost url hdrs body,
              ConsoleLog Warn ''[Confidential] Node rejected definition, retrying in 5s...'',
              Sleep 5000, GenerateHeaders hash]\<rparr>)
      | Inr hs \<Rightarrow>
          ((case fetch_node en url (length (events w) + 4) of
              NetworkError m \<Rightarrow> Inl (Error None (Some m))
            | Response c t \<Rightarrow> if 200 \<le> c \<and> c \<le> 299 then Inr () else Inl (Error (Some c) (Some t))),
           w\<lparr>events := events w @
             [NodePost url hdrs body,
              ConsoleLog Warn ''[Confidential] Node rejected definition, retrying in 5s...'',
              Sleep 5000, GenerateHeaders hash,
              NodePost url (fold (\<lambda>(k, v). obj_set k v) hs hdrs) body]\<rparr>))"
proof -
  let ?w3 = "emit (Sleep 5000)
               (emit (ConsoleLog Warn ''[Confidential] Node rejected definition, retrying in 5s...'')
                  (emit (NodePost url hdrs body) w))"
  have len: "length (events ?w3) = length (events w) + 3" by (simp add: emit_def)
  have s: "send_with_reauth en url body hash hdrs w =
     (case auth_headers en hash hdrs ?w3 of
        (Inl e2, w4) \<Rightarrow> (Inl e2, w4)
      | (Inr fresh, w4) \<Rightarrow> sendDef en url body fresh w4)"
    using wal r1 c by (simp add: send_with_reauth_def sendDef_eq Let_def)
  have a: "auth_headers en hash hdrs ?w3 =
     (case generateHeaders en hash (length (events w) + 3) of
        Inl e \<Rightarrow> (Inl e, emit (GenerateHeaders hash) ?w3)
      | Inr hs \<Rightarrow> (Inr (fold (\<lambda>(k, v). obj_set k v) hs hdrs), emit (GenerateHeaders hash) ?w3))"
    using wal len by (simp add: auth_headers_def extern_def split: sum.splits)
  show ?thesis
    unfolding s a
    by (simp add: sendDef_eq emit_def eval_nat_numeral split: sum.splits)
qed

text \<open>
  \<^bold>\<open>C7\<close>, as stated, does not hold: the retry comes after the fresh header, and
  obtaining the header can fail. When the node answers 401 and the signing service then
  fails, the definition is posted once and never again.
\<close>

theorem push_rejected_without_retry:
  "node_posts (events (snd (send_with_reauth
       (env0\<lparr>fetch_node := rejecting_node, api_sign_message := failing_signer\<rparr>)
       url0 def0 ''QmDummy'' headers0 world0)))
   = [(url0, headers0, def0)]"
proof -
  have "send_with_reauth (env0\<lparr>fetch_node := rejecting_node, api_sign_message := failing_signer\<rparr>)
       url0 def0 ''QmDummy'' headers0 world0
     = (Inl boom, world0\<lparr>cachedApiAuth := None,
          events := events world0 @ rejection_trace
             url0 headers0 def0\<rparr>)"
    by (subst reauth_4xx[where status = "401" and reply = "''signature expired''"])
       (simp_all add: env0_def rejecting_node_def failing_signer_def)
  then show ?thesis
    by (simp add: node_posts_def rejection_trace_def world0_def)
qed

text \<open>
  \<^bold>\<open>C7\<close>, amended. In API mode, when the node answers the first post of the real
  definition with a 4xx status, the handoff waits 5 s, clears the cached delegated
  signature and asks the signing service for a new one (whatever the cache held). If the
  service answers, the definition is posted exactly once more, with the fresh
  \<open>Authorization\<close> header, and the outcome of that second post is the outcome of the
  push: nothing follows it. If the service fails, that failure is the outcome and the
  definition is not posted again. A first post that fails without a 4xx status (no
  response, or a status that is neither 2xx nor 4xx) is the outcome at once. Every failed
  outcome is logged by \<open>push_definition\<close> and nothing more is done. In wallet mode
  the same holds with the wallet's signed headers in place of the delegated signature:
  after a 4xx status and the 5 s wait the headers are generated anew; if that succeeds
  the definition is posted exactly once more with the new headers merged into the old
  ones, and if it fails the definition is not posted again.
\<close>

theorem confidential_push_retry:
  "(authMode en = Api \<and> fetch_node en url (length (events w)) = Response status reply
      \<and> 400 \<le> status \<and> status < 500
      \<and> api_sign_message en SIGN_MESSAGE (length (events w) + 3) = Inr res
    \<longrightarrow> send_with_reauth en url body hash hdrs w =
          ((case fetch_node en url (length (events w) + 4) of
              NetworkError m \<Rightarrow> Inl (Error None (Some m))
            | Response c t \<Rightarrow>
                if 200 \<le> c \<and> c \<le> 299 then Inr () else Inl (Error (Some c) (Some t))),
           w\<lparr>cachedApiAuth :=
                Some \<lparr>signature = signature res, message = message res,
                      userAddress = userAddress res,
                      timestamp = clock en (length (events w) + 3)\<rparr>,
              events := events w @
                [NodePost url hdrs body,
                 ConsoleLog Warn ''[Confidential] Node rejected definition, retrying in 5s...'',
                 Sleep 5000,
                 ApiSignMessage SIGN_MESSAGE,
                 NodePost url
                   (obj_set ''Authorization'' (message res @ '':'' @ signature res) hdrs) body]\<rparr>))
   \<and> (authMode en1 = Api \<and> fetch_node en1 url1 (length (events w1)) = Response status1 reply1
      \<and> 400 \<le> status1 \<and> status1 < 500
      \<and> api_sign_message en1 SIGN_MESSAGE (length (events w1) + 3) = Inl e1
    \<longrightarrow> send_with_reauth en1 url1 body1 hash1 hdrs1 w1 =
          (Inl e1,
           w1\<lparr>cachedApiAuth := None,
               events := events w1 @
                [NodePost url1 hdrs1 body1,
                 ConsoleLog Warn ''[Confidential] Node rejected definition, retrying in 5s...'',
                 Sleep 5000,
                 ApiSignMessage SIGN_MESSAGE]\<rparr>))
   \<and> (fetch_node en2 url2 (length (events w2)) = NetworkError m2
    \<longrightarrow> send_with_reauth en2 url2 body2 hash2 hdrs2 w2 =
          (Inl (Error None (Some m2)), emit (NodePost url2 hdrs2 body2) w2))
   \<and> (fetch_node en3 url3 (length (events w3)) = Response status3 reply3
      \<and> (status3 < 200 \<or> 299 < status3) \<and> (status3 < 400 \<or> 500 \<le> status3)
    \<longrightarrow> send_with_reauth en3 url3 body3 hash3 hdrs3 w3 =
          (Inl (Error (Some status3) (Some reply3)), emit (NodePost url3 hdrs3 body3) w3))
   \<and> (auth_headers en4 hash4 [(''Content-Type'', ''application/json'')] w4 = (Inr hdrs4, v4)
      \<and> send_with_reauth en4
           (''https://'' @ job_node job4 @ ''.'' @ ingress_domain en4 @ ''/job/''
              @ job_address job4 @ ''/job-definition'')
           body4 hash4 hdrs4 v4 = (Inl e4, v5)
    \<longrightarrow> push_definition en4 addr4 body4 hash4 job4 w4 =
          emit (ConsoleLog Err ''[Confidential] Failed to send definition to node:'') v5)
   \<and> (authMode en5 = Wallet \<and> fetch_node en5 url5 (length (events w5)) = Response status5 reply5
      \<and> 400 \<le> status5 \<and> status5 < 500
      \<and> generateHeaders en5 hash5 (length (events w5) + 3) = Inr hs5
    \<longrightarrow> send_with_reauth en5 url5 body5 hash5 hdrs5 w5 =
          ((case fetch_node en5 url5 (length (events w5) + 4) of
              NetworkError m \<Rightarrow> Inl (Error None (Some m))
            | Response c t \<Rightarrow>
                if 200 \<le> c \<and> c \<le> 299 then Inr () else Inl (Error (Some c) (Some t))),
           w5\<lparr>events := events w5 @
                [NodePost url5 hdrs5 body5,
                 ConsoleLog Warn ''[Confidential] Node rejected definition, retrying in 5s...'',
                 Sleep 5000,
                 GenerateHeaders hash5,
                 NodePost url5 (fold (\<lambda>(k, v). obj_set k v) hs5 hdrs5) body5]\<rparr>))
   \<and> (authMode en6 = Wallet \<and> fetch_node en6 url6 (length (events w6)) = Response status6 reply6
      \<and> 400 \<le> status6 \<and> status6 < 500
      \<and> generateHeaders en6 hash6 (length (events w6) + 3) = Inl e6
    \<longrightarrow> send_with_reauth en6 url6 body6 hash6 hdrs6 w6 =
          (Inl e6,
           w6\<lparr>events := events w6 @
                [NodePost url6 hdrs6 body6,
                 ConsoleLog Warn ''[Confidential] Node rejected definition, retrying in 5s...'',
                 Sleep 5000,
                 GenerateHeaders hash6]\<rparr>))"
proof (intro conjI impI)
  assume a: "authMode en = Api \<and> fetch_node en url (length (events w)) = Response status reply
      \<and> 400 \<le> status \<and> status < 500
      \<and> api_sign_message en SIGN_MESSAGE (length (events w) + 3) = Inr res"
  then have "send_with_reauth en url body hash hdrs w = 
     (case api_sign_message en SIGN_MESSAGE (length (events w) + 3) of
        Inl e \<Rightarrow> (Inl e, w\<lparr>cachedApiAuth := None,
                           events := events w @ rejection_trace url hdrs body\<rparr>)
      | Inr res \<Rightarrow>
          ((case fetch_node en url (length (events w) + 4) of
              NetworkError m \<Rightarrow> Inl (Error None (Some m))
            | Response c t \<Rightarrow> if 200 \<le> c \<and> c \<le> 299 then Inr () else Inl (Error (Some c) (Some t))),
           w\<lparr>cachedApiAuth := Some \<lparr>signature = signature res, message = message res,
                    userAddress = userAddress res, timestamp = clock en (length (events w) + 3)\<rparr>,
              events := events w @ rejection_trace url hdrs body
                 @ [NodePost url (obj_set ''Authorization'' (message res @ '':'' @ signature res) hdrs) body]\<rparr>))"
    by (intro reauth_4xx[where status = status and reply = reply]) simp_all
  with a show "send_with_reauth en url body hash hdrs w =
          ((case fetch_node en url (length (events w) + 4) of
              NetworkError m \<Rightarrow> Inl (Error None (Some m))
            | Response c t \<Rightarrow>
                if 200 \<le> c \<and> c \<le> 299 then Inr () else Inl (Error (Some c) (Some t))),
           w\<lparr>cachedApiAuth :=
                Some \<lparr>signature = signature res, message = message res,
                      userAddress = userAddress res,
                      timestamp = clock en (length (events w) + 3)\<rparr>,
              events := events w @
                [NodePost url hdrs body,
                 ConsoleLog Warn ''[Confidential] Node rejected definition, retrying in 5s...'',
                 Sleep 5000,
                 ApiSignMessage SIGN_MESSAGE,
                 NodePost url
                   (obj_set ''Authorization'' (message res @ '':'' @ signature res) hdrs) body]\<rparr>)"
    by (simp add: rejection_trace_def)
next
  assume a: "authMode en1 = Api \<and> fetch_node en1 url1 (length (events w1)) = Response status1 reply1
      \<and> 400 \<le> status1 \<and> status1 < 500
      \<and> api_sign_message en1 SIGN_MESSAGE (length (events w1) + 3) = Inl e1"
  then have "send_with_reauth en1 url1 body1 hash1 hdrs1 w1 = 
     (case api_sign_message en1 SIGN_MESSAGE (length (events w1) + 3) of
        Inl e \<Rightarrow> (Inl e, w1\<lparr>cachedApiAuth := None,
                           events := events w1 @ rejection_trace url1 hdrs1 body1\<rparr>)
      | Inr res \<Rightarrow>
          ((case fetch_node en1 url1 (length (events w1) + 4) of
              NetworkError m \<Rightarrow> Inl (Error None (Some m))
            | Response c t \<Rightarrow> if 200 \<le> c \<and> c \<le> 299 then Inr () else Inl (Error (Some c) (Some t))),
           w1\<lparr>cachedApiAuth := Some \<lparr>signature = signature res, message = message res,
                    userAddress = userAddress res, timestamp = clock en1 (length (events w1) + 3)\<rparr>,
              events := events w1 @ rejection_trace url1 hdrs1 body1
                 @ [NodePost url1 (obj_set ''Authorization'' (message res @ '':'' @ signature res) hdrs1) body1]\<rparr>))"
    by (intro reauth_4xx[where status = status1 and reply = reply1]) simp_all
  with a show "send_with_reauth en1 url1 body1 hash1 hdrs1 w1 =
          (Inl e1,
           w1\<lparr>cachedApiAuth := None,
               events := events w1 @
                [NodePost url1 hdrs1 body1,
                 ConsoleLog Warn ''[Confidential] Node rejected definition, retrying in 5s...'',
                 Sleep 5000,
                 ApiSignMessage SIGN_MESSAGE]\<rparr>)"
    by (simp add: rejection_trace_def)
next
  assume "fetch_node en2 url2 (length (events w2)) = NetworkError m2"
  then show "send_with_reauth en2 url2 body2 hash2 hdrs2 w2 =
          (Inl (Error None (Some m2)), emit (NodePost url2 hdrs2 body2) w2)"
    by (simp add: send_with_reauth_def sendDef_eq)
next
  assume "fetch_node en3 url3 (length (events w3)) = Response status3 reply3
      \<and> (status3 < 200 \<or> 299 < status3) \<and> (status3 < 400 \<or> 500 \<le> status3)"
  then show "send_with_reauth en3 url3 body3 hash3 hdrs3 w3 =
          (Inl (Error (Some status3) (Some reply3)), emit (NodePost url3 hdrs3 body3) w3)"
    by (auto simp add: send_with_reauth_def sendDef_eq)
next
  assume "auth_headers en4 hash4 [(''Content-Type'', ''application/json'')] w4 = (Inr hdrs4, v4)
      \<and> send_with_reauth en4
           (''https://'' @ job_node job4 @ ''.'' @ ingress_domain en4 @ ''/job/''
              @ job_address job4 @ ''/job-definition'')
           body4 hash4 hdrs4 v4 = (Inl e4, v5)"
  then show "push_definition en4 addr4 body4 hash4 job4 w4 =
          emit (ConsoleLog Err ''[Confidential] Failed to send definition to node:'') v5"
    by (simp add: push_definition_def)
next
  assume a: "authMode en5 = Wallet \<and> fetch_node en5 url5 (length (events w5)) = Response status5 reply5
      \<and> 400 \<le> status5 \<and> status5 < 500
      \<and> generateHeaders en5 hash5 (length (events w5) + 3) = Inr hs5"
  then have w: "authMode en5 = Wallet"
    and r: "fetch_node en5 url5 (length (events w5)) = Response status5 reply5"
    and c: "400 \<le> status5" "status5 < 500" by simp_all
  from a show "send_with_reauth en5 url5 body5 hash5 hdrs5 w5 =
          ((case fetch_node en5 url5 (length (events w5) + 4) of
              NetworkError m \<Rightarrow> Inl (Error None (Some m))
            | Response c t \<Rightarrow>
                if 200 \<le> c \<and> c \<le> 299 then Inr () else Inl (Error (Some c) (Some t))),
           w5\<lparr>events := events w5 @
                [NodePost url5 hdrs5 body5,
                 ConsoleLog Warn ''[Confidential] Node rejected definition, retrying in 5s...'',
                 Sleep 5000,
                 GenerateHeaders hash5,
                 NodePost url5 (fold (\<lambda>(k, v). obj_set k v) hs5 hdrs5) body5]\<rparr>)"
    unfolding reauth_4xx_wallet[OF w r c] by simp
next
  assume a: "authMode en6 = Wallet \<and> fetch_node en6 url6 (length (events w6)) = Response status6 reply6
      \<and> 400 \<le> status6 \<and> status6 < 500
      \<and> generateHeaders en6 hash6 (length (events w6) + 3) = Inl e6"
  then have w: "authMode en6 = Wallet"
    and r: "fetch_node en6 url6 (length (events w6)) = Response status6 reply6"
    and c: "400 \<le> status6" "status6 < 500" by simp_all
  from a show "send_with_reauth en6 url6 body6 hash6 hdrs6 w6 =
          (Inl e6,
           w6\<lparr>events := events w6 @
                [NodePost url6 hdrs6 body6,
                 ConsoleLog Warn ''[Confidential] Node rejected definition, retrying in 5s...'',
                 Sleep 5000,
                 GenerateHeaders hash6]\<rparr>)"
    unfolding reauth_4xx_wallet[OF w r c] by simp
qed

theorem confidential_push_retry_witness:
  "send_with_reauth (env0\<lparr>fetch_node := rejecting_node\<rparr>) url0 def0 ''QmDummy'' headers0 world0
     = (Inl (Error (Some 401) (Some ''signature expired'')),
        world0\<lparr>cachedApiAuth :=
                 Some \<lparr>signature = ''sig'', message = ''Hello Nosana Node!'',
                       userAddress = ''user'', timestamp = 0\<rparr>,
               events :=
                 [NodePost url0 headers0 def0,
                  ConsoleLog Warn ''[Confidential] Node rejected definition, retrying in 5s...'',
                  Sleep 5000,
                  ApiSignMessage ''Hello Nosana Node!'',
                  NodePost url0 [(''Content-Type'', ''application/json''),
                                 (''Authorization'', ''Hello Nosana Node!:sig'')] def0]\<rparr>)
   \<and> send_with_reauth (env0\<lparr>fetch_node := rejecting_node, api_sign_message := failing_signer\<rparr>)
       url0 def0 ''QmDummy'' headers0 world0
     = (Inl boom,
        world0\<lparr>events :=
                 [NodePost url0 headers0 def0,
                  ConsoleLog Warn ''[Confidential] Node rejected definition, retrying in 5s...'',
                  Sleep 5000,
                  ApiSignMessage ''Hello Nosana Node!'']\<rparr>)
   \<and> send_with_reauth (env0\<lparr>fetch_node := unreachable_node\<rparr>) url0 def0 ''QmDummy'' headers0 world0
     = (Inl (Error None (Some ''fetch failed'')), world0\<lparr>events := [NodePost url0 headers0 def0]\<rparr>)
   \<and> send_with_reauth (env0\<lparr>fetch_node := broken_node\<rparr>) url0 def0 ''QmDummy'' headers0 world0
     = (Inl (Error (Some 500) (Some ''internal error'')),
        world0\<lparr>events := [NodePost url0 headers0 def0]\<rparr>)
   \<and> events (push_definition (env0\<lparr>fetch_node := broken_node\<rparr>) ''job1'' def0 ''QmDummy'' job0 world0)
     = [ApiSignMessage ''Hello Nosana Node!'',
        NodePost url0 [(''Content-Type'', ''application/json''),
                       (''Authorization'', ''Hello Nosana Node!:sig'')] def0,
        ConsoleLog Err ''[Confidential] Failed to send definition to node:'']
   \<and> send_with_reauth
       (env0\<lparr>authMode := Wallet, fetch_node := rejecting_node, generateHeaders := wallet_signer\<rparr>)
       url0 def0 ''QmDummy'' headers0 world0
     = (Inl (Error (Some 401) (Some ''signature expired'')),
        world0\<lparr>events :=
                 [NodePost url0 headers0 def0,
                  ConsoleLog Warn ''[Confidential] Node rejected definition, retrying in 5s...'',
                  Sleep 5000,
                  GenerateHeaders ''QmDummy'',
                  NodePost url0 [(''Content-Type'', ''application/json''),
                                 (''Authorization'', ''Hello Nosana Node!:new''),
                                 (''X-Time'', ''1'')] def0]\<rparr>)
   \<and> send_with_reauth
       (env0\<lparr>authMode := Wallet, fetch_node := rejecting_node, generateHeaders := failing_wallet\<rparr>)
       url0 def0 ''QmDummy'' headers0 world0
     = (Inl boom,
        world0\<lparr>events :=
                 [NodePost url0 headers0 def0,
                  ConsoleLog Warn ''[Confidential] Node rejected definition, retrying in 5s...'',
                  Sleep 5000,
                  GenerateHeaders ''QmDummy'']\<rparr>)"
proof -
  note T = confidential_push_retry
  have c1: "send_with_reauth (env0\<lparr>fetch_node := rejecting_node\<rparr>) url0 def0 ''QmDummy'' headers0 world0
     = (Inl (Error (Some 401) (Some ''signature expired'')),
        world0\<lparr>cachedApiAuth :=
                 Some \<lparr>signature = ''sig'', message = ''Hello Nosana Node!'',
                       userAddress = ''user'', timestamp = 0\<rparr>,
               events :=
                 [NodePost url0 headers0 def0,
                  ConsoleLog Warn ''[Confidential] Node rejected definition, retrying in 5s...'',
                  Sleep 5000,
                  ApiSignMessage ''Hello Nosana Node!'',
                  NodePost url0 [(''Content-Type'', ''application/json''),
                                 (''Authorization'', ''Hello Nosana Node!:sig'')] def0]\<rparr>)"
  proof -
    have h: "authMode (env0\<lparr>fetch_node := rejecting_node\<rparr>) = Api
      \<and> fetch_node (env0\<lparr>fetch_node := rejecting_node\<rparr>) url0 (length (events world0))
          = Response 401 ''signature expired''
      \<and> (400::int) \<le> 401 \<and> (401::int) < 500
      \<and> api_sign_message (env0\<lparr>fetch_node := rejecting_node\<rparr>) SIGN_MESSAGE
            (length (events world0) + 3)
          = Inr \<lparr>signature = ''sig'', message = ''Hello Nosana Node!'', userAddress = ''user''\<rparr>"
      by (simp add: env0_def rejecting_node_def SIGN_MESSAGE_def)
    from T[THEN conjunct1, rule_format, OF h, of def0 "''QmDummy''" headers0]
    show ?thesis
      by (simp add: env0_def rejecting_node_def world0_def SIGN_MESSAGE_def headers0_def obj_set_def)
  qed
  have c2: "send_with_reauth (env0\<lparr>fetch_node := rejecting_node, api_sign_message := failing_signer\<rparr>)
       url0 def0 ''QmDummy'' headers0 world0
     = (Inl boom,
        world0\<lparr>events :=
                 [NodePost url0 headers0 def0,
                  ConsoleLog Warn ''[Confidential] Node rejected definition, retrying in 5s...'',
                  Sleep 5000,
                  ApiSignMessage ''Hello Nosana Node!'']\<rparr>)"
  proof -
    have h: "authMode (env0\<lparr>fetch_node := rejecting_node, api_sign_message := failing_signer\<rparr>) = Api
      \<and> fetch_node (env0\<lparr>fetch_node := rejecting_node, api_sign_message := failing_signer\<rparr>)
            url0 (length (events world0))
          = Response 401 ''signature expired''
      \<and> (400::int) \<le> 401 \<and> (401::int) < 500
      \<and> api_sign_message (env0\<lparr>fetch_node := rejecting_node, api_sign_message := failing_signer\<rparr>)
            SIGN_MESSAGE (length (events world0) + 3)
          = Inl boom"
      by (simp add: env0_def rejecting_node_def failing_signer_def)
    from T[THEN conjunct2, THEN conjunct1, rule_format, OF h, of def0 "''QmDummy''" headers0]
    show ?thesis
      by (simp add: world0_def SIGN_MESSAGE_def)
  qed
  have c3: "send_with_reauth (env0\<lparr>fetch_node := unreachable_node\<rparr>) url0 def0 ''QmDummy'' headers0 world0
     = (Inl (Error None (Some ''fetch failed'')), world0\<lparr>events := [NodePost url0 headers0 def0]\<rparr>)"
  proof -
    have h: "fetch_node (env0\<lparr>fetch_node := unreachable_node\<rparr>) url0 (length (events world0))
               = NetworkError ''fetch failed''"
      by (simp add: unreachable_node_def)
    from T[THEN conjunct2, THEN conjunct2, THEN conjunct1, rule_format, OF h,
           of def0 "''QmDummy''" headers0]
    show ?thesis by (simp add: emit_def world0_def)
  qed
  have c4: "send_with_reauth (env0\<lparr>fetch_node := broken_node\<rparr>) url0 def0 ''QmDummy'' headers0 world0
     = (Inl (Error (Some 500) (Some ''internal error'')),
        world0\<lparr>events := [NodePost url0 headers0 def0]\<rparr>)"
  proof -
    have h: "fetch_node (env0\<lparr>fetch_node := broken_node\<rparr>) url0 (length (events world0))
               = Response 500 ''internal error''
             \<and> ((500::int) < 200 \<or> (299::int) < 500) \<and> ((500::int) < 400 \<or> (500::int) \<le> 500)"
      by (simp add: broken_node_def)
    from T[THEN conjunct2, THEN conjunct2, THEN conjunct2, THEN conjunct1, rule_format, OF h,
           of def0 "''QmDummy''" headers0]
    show ?thesis by (simp add: emit_def world0_def)
  qed
  have c5: "events (push_definition (env0\<lparr>fetch_node := broken_node\<rparr>) ''job1'' def0 ''QmDummy'' job0 world0)
     = [ApiSignMessage ''Hello Nosana Node!'',
        NodePost url0 [(''Content-Type'', ''application/json''),
                       (''Authorization'', ''Hello Nosana Node!:sig'')] def0,
        ConsoleLog Err ''[Confidential] Failed to send definition to node:'']"
  proof -
    let ?en = "env0\<lparr>fetch_node := broken_node\<rparr>"
    let ?H = "[(''Content-Type'', ''application/json''),
               (''Authorization'', ''Hello Nosana Node!:sig'')]"
    let ?v4 = "world0\<lparr>cachedApiAuth :=
                 Some \<lparr>signature = ''sig'', message = ''Hello Nosana Node!'',
                       userAddress = ''user'', timestamp = 0\<rparr>,
               events := [ApiSignMessage ''Hello Nosana Node!'']\<rparr>"
    have a: "auth_headers ?en ''QmDummy'' [(''Content-Type'', ''application/json'')] world0
               = (Inr ?H, ?v4)"
      by (simp add: auth_headers_def generateApiNodeAuthHeader_def signMessageExternal_def
            extern_def emit_def now_def env0_def world0_def SIGN_MESSAGE_def obj_set_def)
    have u: "''https://'' @ job_node job0 @ ''.'' @ ingress_domain ?en @ ''/job/''
              @ job_address job0 @ ''/job-definition'' = url0"
      by (simp add: job0_def ingress_domain_def str_or_def env0_def url0_def)
    have f: "fetch_node ?en url0 (length (events ?v4)) = Response 500 ''internal error''
             \<and> ((500::int) < 200 \<or> (299::int) < 500) \<and> ((500::int) < 400 \<or> (500::int) \<le> 500)"
      by (simp add: broken_node_def)
    have s: "send_with_reauth ?en url0 def0 ''QmDummy'' ?H ?v4
               = (Inl (Error (Some 500) (Some ''internal error'')), emit (NodePost url0 ?H def0) ?v4)"
      using T[THEN conjunct2, THEN conjunct2, THEN conjunct2, THEN conjunct1, rule_format, OF f,
              of def0 "''QmDummy''" ?H] .
    have "push_definition ?en ''job1'' def0 ''QmDummy'' job0 world0
            = emit (ConsoleLog Err ''[Confidential] Failed to send definition to node:'')
                (emit (NodePost url0 ?H def0) ?v4)"
      using T[THEN conjunct2, THEN conjunct2, THEN conjunct2, THEN conjunct2, THEN conjunct1,
              rule_format,
              of ?en "''QmDummy''" world0 ?H ?v4 job0 def0 _ _ "''job1''"] a s u
      by simp
    then show ?thesis by (simp add: emit_def world0_def)
  qed
  have c6: "send_with_reauth
       (env0\<lparr>authMode := Wallet, fetch_node := rejecting_node, generateHeaders := wallet_signer\<rparr>)
       url0 def0 ''QmDummy'' headers0 world0
     = (Inl (Error (Some 401) (Some ''signature expired'')),
        world0\<lparr>events :=
                 [NodePost url0 headers0 def0,
                  ConsoleLog Warn ''[Confidential] Node rejected definition, retrying in 5s...'',
                  Sleep 5000,
                  GenerateHeaders ''QmDummy'',
                  NodePost url0 [(''Content-Type'', ''application/json''),
                                 (''Authorization'', ''Hello Nosana Node!:new''),
                                 (''X-Time'', ''1'')] def0]\<rparr>)"
  proof -
    let ?en = "env0\<lparr>authMode := Wallet, fetch_node := rejecting_node,
                     generateHeaders := wallet_signer\<rparr>"
    have h: "authMode ?en = Wallet
      \<and> fetch_node ?en url0 (length (events world0)) = Response 401 ''signature expired''
      \<and> (400::int) \<le> 401 \<and> (401::int) < 500
      \<and> generateHeaders ?en ''QmDummy'' (length (events world0) + 3)
          = Inr [(''Authorization'', ''Hello Nosana Node!:new''), (''X-Time'', ''1'')]"
      by (simp add: rejecting_node_def wallet_signer_def)
    from T[THEN conjunct2, THEN conjunct2, THEN conjunct2, THEN conjunct2, THEN conjunct2,
           THEN conjunct1, rule_format, OF h, of def0 headers0]
    show ?thesis
      by (simp add: rejecting_node_def world0_def headers0_def obj_set_def)
  qed
  have c7: "send_with_reauth
       (env0\<lparr>authMode := Wallet, fetch_node := rejecting_node, generateHeaders := failing_wallet\<rparr>)
       url0 def0 ''QmDummy'' headers0 world0
     = (Inl boom,
        world0\<lparr>events :=
                 [NodePost url0 headers0 def0,
                  ConsoleLog Warn ''[Confidential] Node rejected definition, retrying in 5s...'',
                  Sleep 5000,
                  GenerateHeaders ''QmDummy'']\<rparr>)"
  proof -
    let ?en = "env0\<lparr>authMode := Wallet, fetch_node := rejecting_node,
                     generateHeaders := failing_wallet\<rparr>"
    have h: "authMode ?en = Wallet
      \<and> fetch_node ?en url0 (length (events world0)) = Response 401 ''signature expired''
      \<and> (400::int) \<le> 401 \<and> (401::int) < 500
      \<and> generateHeaders ?en ''QmDummy'' (length (events world0) + 3) = Inl boom"
      by (simp add: rejecting_node_def failing_wallet_def)
    from T[THEN conjunct2, THEN conjunct2, THEN conjunct2, THEN conjunct2, THEN conjunct2,
           THEN conjunct2, rule_format, OF h, of def0 headers0]
    show ?thesis
      by (simp add: world0_def)
  qed
  from c1 c2 c3 c4 c5 c6 c7 show ?thesis by blast
qed

section \<open>Waiting for the job to run\<close>

lemma seen_append:
  "seen en addr P b (xs @ ys) = (seen en addr P b xs \<or> seen en addr P (b + length xs) ys)"
  by (induction xs arbitrary: b) auto

lemma node_posts_append [simp]: "node_posts (xs @ ys) = node_posts xs @ node_posts ys"
  by (simp add: node_posts_def)

lemma node_posts_simps [simp]:
  "node_posts [] = []"
  "node_posts (JobsGet a # es) = node_posts es"
  "node_posts (Sleep d # es) = node_posts es"
  "node_posts (ConsoleLog l m # es) = node_posts es"
  by (simp_all add: node_posts_def)

lemma retry_get:
  assumes "retry (extern (JobsGet addr) (jobs_get en addr)) r d w = (res, w')"
    and "d mod 2000 = 0"
  shows "\<exists>es. events w' = events w @ es @ [JobsGet addr]
              \<and> res = jobs_get en addr (length (events w) + length es)
              \<and> \<not> seen en addr (\<lambda>s. True) (length (events w)) es
              \<and> node_posts es = []
              \<and> count_list es (Sleep 3000) = 0"
  using assms
proof (induction "nat r" arbitrary: r d w)
  case 0
  then have r0: "r \<le> 0" by simp
  have x: "extern (JobsGet addr) (jobs_get en addr) w
             = (jobs_get en addr (length (events w)), emit (JobsGet addr) w)"
    by (simp add: extern_def)
  show ?case
  proof (cases "jobs_get en addr (length (events w))")
    case (Inl e)
    with x have "retry (extern (JobsGet addr) (jobs_get en addr)) r d w = (Inl e, emit (JobsGet addr) w)"
      using r0 by (simp add: retry_exhausted)
    with 0 Inl show ?thesis by (intro exI[of _ "[]"]) (auto simp: emit_def)
  next
    case (Inr j)
    with x have "retry (extern (JobsGet addr) (jobs_get en addr)) r d w = (Inr j, emit (JobsGet addr) w)"
      by (simp add: retry_returns)
    with 0 Inr show ?thesis by (intro exI[of _ "[]"]) (auto simp: emit_def)
  qed
next
  case (Suc n)
  then have rpos: "0 < r" and n: "n = nat (r - 1)" by auto
  have x: "extern (JobsGet addr) (jobs_get en addr) w
             = (jobs_get en addr (length (events w)), emit (JobsGet addr) w)"
    by (simp add: extern_def)
  show ?case
  proof (cases "jobs_get en addr (length (events w))")
    case (Inr j)
    with x have "retry (extern (JobsGet addr) (jobs_get en addr)) r d w = (Inr j, emit (JobsGet addr) w)"
      by (simp add: retry_returns)
    with Suc.prems Inr show ?thesis by (intro exI[of _ "[]"]) (auto simp: emit_def)
  next
    case (Inl e)
    show ?thesis
    proof (cases "rate_limited e")
      case False
      with x Inl have "retry (extern (JobsGet addr) (jobs_get en addr)) r d w = (Inl e, emit (JobsGet addr) w)"
        by (simp add: retry_propagates)
      with Suc.prems Inl show ?thesis by (intro exI[of _ "[]"]) (auto simp: emit_def)
    next
      case True
      let ?w2 = "emit (Sleep d) (emit (JobsGet addr) w)"
      from x Inl True rpos
      have "retry (extern (JobsGet addr) (jobs_get en addr)) r d w
              = retry (extern (JobsGet addr) (jobs_get en addr)) (r - 1) (d * 2) ?w2"
        by (simp add: retry_again)
      with Suc.prems have rec: "retry (extern (JobsGet addr) (jobs_get en addr)) (r - 1) (d * 2) ?w2 = (res, w')"
        by simp
      have d2: "(d * 2) mod 2000 = 0" using Suc.prems(2) by (metis mod_mult_left_eq mult_zero_left mod_0)
      from Suc.hyps(1)[OF n rec d2] obtain es where es:
        "events w' = events ?w2 @ es @ [JobsGet addr]"
        "res = jobs_get en addr (length (events ?w2) + length es)"
        "\<not> seen en addr (\<lambda>s. True) (length (events ?w2)) es"
        "node_posts es = []" "count_list es (Sleep 3000) = 0"
        by blast
      have dne: "d \<noteq> 3000" using Suc.prems(2) by auto
      show ?thesis
        using es Inl dne
        by (intro exI[of _ "JobsGet addr # Sleep d # es"]) (auto simp: emit_def)
    qed
  qed
qed

lemma seen_simps2 [simp]:
  "seen en addr P b (Sleep d # es) = seen en addr P (Suc b) es"
  "seen en addr P b (ConsoleLog l m # es) = seen en addr P (Suc b) es"
  by simp_all

lemma seen_mono: "\<not> seen en addr (\<lambda>s. True) b es \<Longrightarrow> \<not> seen en addr P b es"
  by (induction es arbitrary: b) (auto split: sum.splits)

lemma poll_running_inv:
  assumes "poll_running en addr i job w = (ex, w')"
  shows "\<exists>es. events w' = events w @ es
              \<and> node_posts es = []
              \<and> count_list es (Sleep 3000) \<le> 600 - i
              \<and> (case ex of
                    Ended \<Rightarrow> seen en addr shows_ended (length (events w)) es
                              \<and> \<not> seen en addr shows_running (length (events w)) es
                  | LoopDone jo \<Rightarrow>
                      \<not> seen en addr shows_ended (length (events w)) es
                      \<and> (if seen en addr shows_running (length (events w)) es
                          then (\<exists>j. jo = Some j \<and> job_state j = JobState_RUNNING)
                          else count_list es (Sleep 3000) = 600 - i
                               \<and> (jo = job \<or> (\<exists>j. jo = Some j \<and> job_state j \<noteq> JobState_RUNNING))))"
  using assms
proof (induction "600 - i" arbitrary: i job w)
  case 0
  then have ge: "\<not> i < 600" by simp
  with 0 have "ex = LoopDone job" "w' = w" by (simp_all add: poll_running.simps)
  with ge show ?case by (intro exI[of _ "[]"]) simp
next
  case (Suc n)
  then have lt: "i < 600" and n: "n = 600 - (i + 1)" by auto
  let ?b = "length (events w)"
  obtain res w1 where r: "retry (extern (JobsGet addr) (jobs_get en addr)) 3 2000 w = (res, w1)"
    by (cases "retry (extern (JobsGet addr) (jobs_get en addr)) 3 2000 w")
  from retry_get[OF r] obtain es1 where es1:
    "events w1 = events w @ es1 @ [JobsGet addr]"
    "res = jobs_get en addr (?b + length es1)"
    "\<not> seen en addr (\<lambda>s. True) ?b es1"
    "node_posts es1 = []" "count_list es1 (Sleep 3000) = 0"
    by auto
  have nr: "\<not> seen en addr shows_running ?b es1" and ne: "\<not> seen en addr shows_ended ?b es1"
    using es1(3) by (auto dest: seen_mono)
  let ?w2 = "emit (Sleep 3000) w1"
  have len2: "length (events ?w2) = ?b + length es1 + 2" using es1(1) by (simp add: emit_def)
  have ev2: "events ?w2 = events w @ es1 @ [JobsGet addr, Sleep 3000]"
    using es1(1) by (simp add: emit_def)
  show ?case
  proof (cases res)
    case (Inl e)
    with r lt Suc.prems have rec: "poll_running en addr (i + 1) job ?w2 = (ex, w')"
      by (subst (asm) poll_running.simps) simp
    from Suc.hyps(1)[OF n rec] obtain es2 where es2:
      "events w' = events ?w2 @ es2" "node_posts es2 = []"
      "count_list es2 (Sleep 3000) \<le> 600 - (i + 1)"
      "(case ex of
          Ended \<Rightarrow> seen en addr shows_ended (length (events ?w2)) es2
                    \<and> \<not> seen en addr shows_running (length (events ?w2)) es2
        | LoopDone jo \<Rightarrow>
            \<not> seen en addr shows_ended (length (events ?w2)) es2
            \<and> (if seen en addr shows_running (length (events ?w2)) es2
                then (\<exists>j. jo = Some j \<and> job_state j = JobState_RUNNING)
                else count_list es2 (Sleep 3000) = 600 - (i + 1)
                     \<and> (jo = job \<or> (\<exists>j. jo = Some j \<and> job_state j \<noteq> JobState_RUNNING))))"
      by blast
    have last: "\<And>P. \<not> seen en addr P (?b + length es1) [JobsGet addr, Sleep 3000]"
      using Inl es1(2) by simp
    have s: "\<And>P. seen en addr P ?b (es1 @ JobsGet addr # Sleep 3000 # es2)
               = (seen en addr P ?b es1 \<or> seen en addr P (length (events ?w2)) es2)"
      using last by (simp add: seen_append len2)
    have ev': "events w' = events w @ es1 @ JobsGet addr # Sleep 3000 # es2"
      using es2(1) ev2 by simp
    show ?thesis
      using es2(2-) nr ne es1(4,5) lt
      by (intro exI[of _ "es1 @ JobsGet addr # Sleep 3000 # es2"])
         (auto simp: ev' s split: poll_exit.splits if_splits)
  next
    case (Inr j)
    show ?thesis
    proof (cases "job_state j = JobState_RUNNING")
      case True
      with r lt Suc.prems Inr have "ex = LoopDone (Some j)" "w' = w1"
        by (subst (asm) poll_running.simps, simp)+
      moreover have "seen en addr shows_running ?b (es1 @ [JobsGet addr])"
        using Inr es1(2) True by (simp add: seen_append shows_running_def)
      moreover have "\<not> seen en addr shows_ended ?b (es1 @ [JobsGet addr])"
        using Inr es1(2) True ne
        by (simp add: seen_append shows_ended_def JobState_RUNNING_def JobState_COMPLETED_def
              JobState_STOPPED_def)
      ultimately show ?thesis
        using es1 True
        by (intro exI[of _ "es1 @ [JobsGet addr]"]) auto
    next
      case nrun: False
      then have n1: "job_state j \<noteq> 1" by (simp add: JobState_RUNNING_def)
      show ?thesis
      proof (cases "job_state j = JobState_COMPLETED \<or> job_state j = JobState_STOPPED")
        case True
        with r lt Suc.prems Inr nrun n1 have "ex = Ended"
          "w' = emit (ConsoleLog Warn ''[Confidential] Job ended before we could send definition.'') w1"
          by (subst (asm) poll_running.simps, simp)+
        moreover have "seen en addr shows_ended ?b (es1 @ [JobsGet addr, ConsoleLog Warn ''[Confidential] Job ended before we could send definition.''])"
          using Inr es1(2) True by (simp add: seen_append shows_ended_def)
        moreover have "\<not> seen en addr shows_running ?b (es1 @ [JobsGet addr, ConsoleLog Warn ''[Confidential] Job ended before we could send definition.''])"
          using Inr es1(2) nrun nr by (simp add: seen_append shows_running_def)
        ultimately show ?thesis
          using es1
          by (intro exI[of _ "es1 @ [JobsGet addr, ConsoleLog Warn ''[Confidential] Job ended before we could send definition.'']"])
             (auto simp: emit_def)
      next
        case False
        with r lt Suc.prems Inr nrun n1
        have rec: "poll_running en addr (i + 1) (Some j) ?w2 = (ex, w')"
          by (subst (asm) poll_running.simps) simp
        from Suc.hyps(1)[OF n rec] obtain es2 where es2:
          "events w' = events ?w2 @ es2" "node_posts es2 = []"
          "count_list es2 (Sleep 3000) \<le> 600 - (i + 1)"
          "(case ex of
              Ended \<Rightarrow> seen en addr shows_ended (length (events ?w2)) es2
                        \<and> \<not> seen en addr shows_running (length (events ?w2)) es2
            | LoopDone jo \<Rightarrow>
                \<not> seen en addr shows_ended (length (events ?w2)) es2
                \<and> (if seen en addr shows_running (length (events ?w2)) es2
                    then (\<exists>j. jo = Some j \<and> job_state j = JobState_RUNNING)
                    else count_list es2 (Sleep 3000) = 600 - (i + 1)
                         \<and> (jo = Some j \<or> (\<exists>j. jo = Some j \<and> job_state j \<noteq> JobState_RUNNING))))"
          by blast
        have last: "\<not> seen en addr shows_running (?b + length es1) [JobsGet addr, Sleep 3000]"
                   "\<not> seen en addr shows_ended (?b + length es1) [JobsGet addr, Sleep 3000]"
          using Inr es1(2) nrun False by (simp_all add: shows_running_def shows_ended_def)
        have s: "seen en addr shows_running ?b (es1 @ JobsGet addr # Sleep 3000 # es2)
               = seen en addr shows_running (length (events ?w2)) es2"
            "seen en addr shows_ended ?b (es1 @ JobsGet addr # Sleep 3000 # es2)
               = seen en addr shows_ended (length (events ?w2)) es2"
          using last nr ne by (simp_all add: seen_append len2)
        have ev': "events w' = events w @ es1 @ JobsGet addr # Sleep 3000 # es2"
          using es2(1) ev2 by simp
        show ?thesis
          using es2(2-) es1(4,5) lt nrun
          by (intro exI[of _ "es1 @ JobsGet addr # Sleep 3000 # es2"])
             (auto simp: ev' s split: poll_exit.splits if_splits)
      qed
    qed
  qed
qed

lemma new_events_emit:
  "events w1 = events w @ es \<Longrightarrow> new_events w (emit e w1) = es @ [e]"
  by (simp add: new_events_def emit_def)

lemma poll_never_answered:
  assumes "\<forall>p. \<exists>e. jobs_get en addr p = Inl e \<and> \<not> rate_limited e"
  shows "poll_running en addr i job w =
           (LoopDone job,
            w\<lparr>events := events w @ concat (replicate (600 - i) [JobsGet addr, Sleep 3000])\<rparr>)"
proof (induction "600 - i" arbitrary: i w)
  case 0
  then show ?case by (simp add: poll_running.simps)
next
  case (Suc n)
  then have lt: "i < 600" and n: "n = 600 - (i + 1)" by auto
  obtain e where e: "jobs_get en addr (length (events w)) = Inl e" "\<not> rate_limited e"
    using assms by blast
  have "extern (JobsGet addr) (jobs_get en addr) w = (Inl e, emit (JobsGet addr) w)"
    by (simp add: extern_def e)
  then have r: "retry (extern (JobsGet addr) (jobs_get en addr)) 3 2000 w
                  = (Inl e, emit (JobsGet addr) w)"
    using e(2) by (rule retry_propagates)
  have "poll_running en addr i job w
          = poll_running en addr (i + 1) job (emit (Sleep 3000) (emit (JobsGet addr) w))"
    using lt r by (subst poll_running.simps) simp
  also have "\<dots> = (LoopDone job,
       (emit (Sleep 3000) (emit (JobsGet addr) w))\<lparr>events :=
           events (emit (Sleep 3000) (emit (JobsGet addr) w))
             @ concat (replicate (600 - (i + 1)) [JobsGet addr, Sleep 3000])\<rparr>)"
    by (rule Suc.hyps(1)[OF n])
  also have "\<dots> = (LoopDone job,
            w\<lparr>events := events w @ concat (replicate (600 - i) [JobsGet addr, Sleep 3000])\<rparr>)"
  proof -
    have "600 - i = Suc (600 - (i + 1))" using lt by simp
    then show ?thesis by (simp add: emit_def)
  qed
  finally show ?case .
qed

lemma seen_never:
  "\<forall>p. \<exists>e. jobs_get en addr p = Inl e \<Longrightarrow> \<not> seen en addr P b es"
proof (induction es arbitrary: b)
  case Nil
  then show ?case by simp
next
  case (Cons x xs)
  from Cons.prems obtain e where "jobs_get en addr b = Inl e" by blast
  with Cons show ?case by simp
qed

text \<open>
  \<^bold>\<open>C8\<close>. Let the polling loop of a handoff for a well-formed job address end in the
  world \<open>w1\<close>. The loop has posted nothing to a node and has slept its 3 s at most 600
  times. If one of its reads was answered with a COMPLETED or STOPPED job, then no read
  was answered with a RUNNING job and the handoff ends in \<open>w1\<close> itself: nothing is
  pushed. If no read was answered with a RUNNING, COMPLETED or STOPPED job, the loop has
  used all 600 attempts, and the handoff only logs the timeout: nothing is pushed.
\<close>

theorem handoff_aborts_without_running:
  assumes p: "poll_running en addr 0 None w = (ex, w1)" and a: "is_address en addr"
  shows "events w1 = events w @ new_events w w1
         \<and> node_posts (new_events w w1) = []
         \<and> count_list (new_events w w1) (Sleep 3000) \<le> 600
         \<and> (seen en addr shows_ended (length (events w)) (new_events w w1) \<longrightarrow>
              \<not> seen en addr shows_running (length (events w)) (new_events w w1)
              \<and> waitForRunningAndSendDefinition en addr realDef hash uuid w = (Inr (), w1))
         \<and> (\<not> seen en addr shows_running (length (events w)) (new_events w w1)
            \<and> \<not> seen en addr shows_ended (length (events w)) (new_events w w1) \<longrightarrow>
              count_list (new_events w w1) (Sleep 3000) = 600
              \<and> waitForRunningAndSendDefinition en addr realDef hash uuid w
                 = (Inr (), emit (ConsoleLog Err ''[Confidential] Timeout waiting for job to run.'') w1)
              \<and> node_posts (new_events w
                   (emit (ConsoleLog Err ''[Confidential] Timeout waiting for job to run.'') w1)) = [])"
proof -
  from poll_running_inv[OF p] obtain es where es:
    "events w1 = events w @ es" "node_posts es = []" "count_list es (Sleep 3000) \<le> 600"
    and c: "(case ex of
              Ended \<Rightarrow> seen en addr shows_ended (length (events w)) es
                        \<and> \<not> seen en addr shows_running (length (events w)) es
            | LoopDone jo \<Rightarrow>
                \<not> seen en addr shows_ended (length (events w)) es
                \<and> (if seen en addr shows_running (length (events w)) es
                    then (\<exists>j. jo = Some j \<and> job_state j = JobState_RUNNING)
                    else count_list es (Sleep 3000) = 600 - 0
                         \<and> (jo = None \<or> (\<exists>j. jo = Some j \<and> job_state j \<noteq> JobState_RUNNING))))"
    by auto
  have ne: "new_events w w1 = es" using es(1) by (simp add: new_events_def)
  have ended: "seen en addr shows_ended (length (events w)) es \<Longrightarrow>
                 \<not> seen en addr shows_running (length (events w)) es
                 \<and> waitForRunningAndSendDefinition en addr realDef hash uuid w = (Inr (), w1)"
    using c a p by (cases ex) (simp_all add: waitForRunningAndSendDefinition_def)
  have timeout: "\<not> seen en addr shows_running (length (events w)) es \<Longrightarrow>
                 \<not> seen en addr shows_ended (length (events w)) es \<Longrightarrow>
                 count_list es (Sleep 3000) = 600
                 \<and> waitForRunningAndSendDefinition en addr realDef hash uuid w
                   = (Inr (), emit (ConsoleLog Err ''[Confidential] Timeout waiting for job to run.'') w1)"
    using c a p
    by (cases ex) (auto simp add: waitForRunningAndSendDefinition_def JobState_RUNNING_def)
  show ?thesis
    using es ended timeout by (simp add: ne new_events_emit[OF es(1)])
qed

theorem handoff_aborts_witness:
  "waitForRunningAndSendDefinition (env0\<lparr>jobs_get := completed_job\<rparr>) ''job1'' def0 ''QmDummy'' None world0
     = (Inr (), world0\<lparr>events := [JobsGet ''job1'',
          ConsoleLog Warn ''[Confidential] Job ended before we could send definition.'']\<rparr>)
   \<and> waitForRunningAndSendDefinition env0 ''job1'' def0 ''QmDummy'' None world0
     = (Inr (), world0\<lparr>events := concat (replicate 600 [JobsGet ''job1'', Sleep 3000])
          @ [ConsoleLog Err ''[Confidential] Timeout waiting for job to run.'']\<rparr>)
   \<and> count_list (concat (replicate 600 [JobsGet ''job1'', Sleep 3000])) (Sleep 3000) = 600
   \<and> node_posts (concat (replicate 600 [JobsGet ''job1'', Sleep 3000])
          @ [ConsoleLog Err ''[Confidential] Timeout waiting for job to run.'']) = []"
proof -
  let ?enE = "env0\<lparr>jobs_get := completed_job\<rparr>"
  let ?wE = "world0\<lparr>events := [JobsGet ''job1'',
          ConsoleLog Warn ''[Confidential] Job ended before we could send definition.'']\<rparr>"
  have pE: "poll_running ?enE ''job1'' 0 None world0 = (Ended, ?wE)"
    by (simp add: poll_running.simps retry.simps extern_def emit_def completed_job_def job_done_def
          world0_def JobState_RUNNING_def JobState_COMPLETED_def)
  have aE: "is_address ?enE ''job1''" by (simp add: env0_def)
  have sE: "seen ?enE ''job1'' shows_ended (length (events world0)) (new_events world0 ?wE)"
    by (simp add: new_events_def world0_def completed_job_def job_done_def shows_ended_def
          JobState_COMPLETED_def)
  have c1: "waitForRunningAndSendDefinition ?enE ''job1'' def0 ''QmDummy'' None world0 = (Inr (), ?wE)"
    using handoff_aborts_without_running[OF pE aE, of def0 "''QmDummy''" None] sE by blast
  let ?wT = "world0\<lparr>events := events world0 @ concat (replicate (600 - 0) [JobsGet ''job1'', Sleep 3000])\<rparr>"
  have never: "\<forall>p. \<exists>e. jobs_get env0 ''job1'' p = Inl e \<and> \<not> rate_limited e"
    by (simp add: env0_def not_rate_limited_boom)
  have pT: "poll_running env0 ''job1'' 0 None world0 = (LoopDone None, ?wT)"
    by (rule poll_never_answered[OF never])
  have aT: "is_address env0 ''job1''" by (simp add: env0_def)
  have nT: "\<And>P. \<not> seen env0 ''job1'' P (length (events world0)) (new_events world0 ?wT)"
    using never by (intro seen_never) blast
  note T = handoff_aborts_without_running[OF pT aT, of def0 "''QmDummy''" None]
  have c2: "waitForRunningAndSendDefinition env0 ''job1'' def0 ''QmDummy'' None world0
     = (Inr (), emit (ConsoleLog Err ''[Confidential] Timeout waiting for job to run.'') ?wT)"
    using T nT by blast
  have c3: "count_list (new_events world0 ?wT) (Sleep 3000) = 600"
    using T nT by blast
  have c4: "node_posts (new_events world0
                   (emit (ConsoleLog Err ''[Confidential] Timeout waiting for job to run.'') ?wT)) = []"
    using T nT by blast
  have e: "new_events world0 ?wT = concat (replicate 600 [JobsGet ''job1'', Sleep 3000])"
    by (simp add: new_events_def world0_def)
  have e2: "new_events world0 (emit (ConsoleLog Err ''[Confidential] Timeout waiting for job to run.'') ?wT)
             = concat (replicate 600 [JobsGet ''job1'', Sleep 3000])
          @ [ConsoleLog Err ''[Confidential] Timeout waiting for job to run.'']"
    by (simp add: new_events_def world0_def emit_def)
  have w: "emit (ConsoleLog Err ''[Confidential] Timeout waiting for job to run.'') ?wT
             = world0\<lparr>events := concat (replicate 600 [JobsGet ''job1'', Sleep 3000])
          @ [ConsoleLog Err ''[Confidential] Timeout waiting for job to run.'']\<rparr>"
    by (simp add: emit_def world0_def)
  have c2': "waitForRunningAndSendDefinition env0 ''job1'' def0 ''QmDummy'' None world0
     = (Inr (), world0\<lparr>events := concat (replicate 600 [JobsGet ''job1'', Sleep 3000])
          @ [ConsoleLog Err ''[Confidential] Timeout waiting for job to run.'']\<rparr>)"
    using c2 unfolding w .
  have c3': "count_list (concat (replicate 600 [JobsGet ''job1'', Sleep 3000])) (Sleep 3000) = 600"
    using c3 unfolding e .
  have c4': "node_posts (concat (replicate 600 [JobsGet ''job1'', Sleep 3000])
          @ [ConsoleLog Err ''[Confidential] Timeout waiting for job to run.'']) = []"
    using c4 unfolding e2 .
  from c1 c2' c3' c4' show ?thesis by blast
qed

section \<open>The watch loop at a terminal state\<close>

lemma heartbeats_append [simp]: "heartbeats (xs @ ys) = heartbeats xs @ heartbeats ys"
  by (simp add: heartbeats_def)

lemma launches_append [simp]: "launches (xs @ ys) = launches xs @ launches ys"
  by (simp add: launches_def)

lemma spawned_append [simp]: "spawned (xs @ ys) = spawned xs @ spawned ys"
  by (simp add: spawned_def)

lemma proj_Nil [simp]: "heartbeats [] = []" "launches [] = []" "spawned [] = []"
  by (simp_all add: heartbeats_def launches_def spawned_def)

lemma proj_Cons [simp]:
  "heartbeats (e # es) = (case e of Heartbeat u p \<Rightarrow> [p] | _ \<Rightarrow> []) @ heartbeats es"
  "launches (e # es) = (case e of LaunchJob d m c \<Rightarrow> [(d, m, c)] | _ \<Rightarrow> []) @ launches es"
  "spawned (e # es) = (case e of SpawnWatch a u opts \<Rightarrow> [(a, u, opts)] | _ \<Rightarrow> []) @ spawned es"
  by (simp_all add: heartbeats_def launches_def spawned_def)

lemma quiet_proj:
  "\<forall>e\<in>set es. quiet e \<Longrightarrow> heartbeats es = [] \<and> launches es = [] \<and> spawned es = []"
  by (induction es) (auto simp: quiet_def split: event.splits)

lemma adds_refl: "adds w [] w"
  by (simp add: adds_def)

lemma adds_trans: "adds w es w1 \<Longrightarrow> adds w1 es' w2 \<Longrightarrow> adds w (es @ es') w2"
  by (simp add: adds_def)

lemma adds_emit: "adds w [e] (emit e w)"
  by (simp add: adds_def emit_def)

lemma adds_extern: "extern ev resp w = (r, w') \<Longrightarrow> adds w [ev] w'"
  by (auto simp add: extern_def adds_def emit_def)

lemma adds_audit: "\<exists>e. quiet e \<and> adds w [e] (sendAuditLog action addr details st w)"
  unfolding sendAuditLog_def
  by (intro exI[of _ "AuditLog action addr (if truthy details then details else JObj [])
                        (str_or st ''success'')"])
     (simp add: adds_emit quiet_def)

text \<open>A retried outside call adds only the call and sleeps.\<close>

lemma retry_extern_adds:
  assumes "retry (extern ev resp) r d w = (res, w')"
  shows "\<exists>es. adds w es w' \<and> set es \<subseteq> insert ev (range Sleep)"
  using assms
proof (induction "nat r" arbitrary: r d w)
  case 0
  then have r0: "r \<le> 0" by simp
  have x: "extern ev resp w = (resp (length (events w)), emit ev w)" by (simp add: extern_def)
  have "retry (extern ev resp) r d w = (resp (length (events w)), emit ev w)"
  proof (cases "resp (length (events w))")
    case (Inl e)
    with x r0 show ?thesis by (simp add: retry_exhausted)
  next
    case (Inr v)
    with x show ?thesis by (simp add: retry_returns)
  qed
  with 0 have "w' = emit ev w" by simp
  then show ?case by (intro exI[of _ "[ev]"]) (simp add: adds_emit)
next
  case (Suc n)
  then have rpos: "0 < r" and n: "n = nat (r - 1)" by auto
  have x: "extern ev resp w = (resp (length (events w)), emit ev w)" by (simp add: extern_def)
  show ?case
  proof (cases "\<exists>e. resp (length (events w)) = Inl e \<and> rate_limited e")
    case True
    then obtain e where e: "resp (length (events w)) = Inl e" "rate_limited e" by blast
    with x rpos have "retry (extern ev resp) r d w
            = retry (extern ev resp) (r - 1) (d * 2) (emit (Sleep d) (emit ev w))"
      by (simp add: retry_again)
    with Suc.prems have "retry (extern ev resp) (r - 1) (d * 2) (emit (Sleep d) (emit ev w)) = (res, w')"
      by simp
    from Suc.hyps(1)[OF n this] obtain es where
      es: "adds (emit (Sleep d) (emit ev w)) es w'" "set es \<subseteq> insert ev (range Sleep)" by blast
    have "adds w ([ev] @ [Sleep d] @ es) w'"
      by (intro adds_trans[OF adds_emit] adds_trans[OF adds_emit] es(1))
    with es(2) show ?thesis by (intro exI[of _ "[ev] @ [Sleep d] @ es"]) auto
  next
    case False
    have "retry (extern ev resp) r d w = (resp (length (events w)), emit ev w)"
    proof (cases "resp (length (events w))")
      case (Inl e)
      with False have "\<not> rate_limited e" by simp
      with x Inl show ?thesis by (simp add: retry_propagates)
    next
      case (Inr v)
      with x show ?thesis by (simp add: retry_returns)
    qed
    with Suc.prems have "w' = emit ev w" by simp
    then show ?thesis by (intro exI[of _ "[ev]"]) (simp add: adds_emit)
  qed
qed

lemma retry_extern_quiet:
  assumes "retry (extern ev resp) r d w = (res, w')" and "quiet ev"
  shows "\<exists>es. events w' = events w @ es \<and> (\<forall>e\<in>set es. quiet e)"
proof -
  from retry_extern_adds[OF assms(1)] obtain es where
    "adds w es w'" "set es \<subseteq> insert ev (range Sleep)" by blast
  moreover have "\<And>d. quiet (Sleep d)" by (simp add: quiet_def)
  ultimately show ?thesis using assms(2) by (intro exI[of _ es]) (auto simp: adds_def)
qed

lemma getJob_quiet:
  assumes "getJob en addr w = (r, w1)"
  shows "\<exists>es. events w1 = events w @ es \<and> (\<forall>e\<in>set es. quiet e)"
proof (cases "is_address en addr")
  case False
  with assms show ?thesis by (simp add: getJob_def)
next
  case True
  obtain res wa where a: "retry_default (extern (JobsGet addr) (jobs_get en addr)) w = (res, wa)"
    by (cases "retry_default (extern (JobsGet addr) (jobs_get en addr)) w")
  from retry_extern_quiet[OF a[unfolded retry_default_def]]
  obtain es1 where es1: "events wa = events w @ es1" "\<forall>e\<in>set es1. quiet e"
    by (auto simp: quiet_def)
  show ?thesis
  proof (cases res)
    case (Inl e)
    with assms True a es1 show ?thesis by (auto simp add: getJob_def)
  next
    case (Inr job)
    have rs: "\<And>h c u wb. resolve_service_url en addr h c wa = (u, wb) \<Longrightarrow>
                 \<exists>es. events wb = events wa @ es \<and> (\<forall>e\<in>set es. quiet e)"
    proof -
      fix h c u wb assume rs: "resolve_service_url en addr h c wa = (u, wb)"
      obtain rr wc where b: "retry_default (extern (IpfsRetrieve h) (ipfs_retrieve en h)) wa = (rr, wc)"
        by (cases "retry_default (extern (IpfsRetrieve h) (ipfs_retrieve en h)) wa")
      from retry_extern_quiet[OF b[unfolded retry_default_def]]
      obtain es2 where es2: "events wc = events wa @ es2" "\<forall>e\<in>set es2. quiet e"
        by (auto simp: quiet_def)
      have "events wb = events wc \<or> events wb = events wc @ [ConsoleLog Err ''Failed to resolve service URL:'']"
        using rs b
        by (auto simp add: resolve_service_url_def emit_def split: sum.splits if_splits option.splits)
      then show "\<exists>es. events wb = events wa @ es \<and> (\<forall>e\<in>set es. quiet e)"
      proof
        assume "events wb = events wc"
        with es2 show ?thesis by auto
      next
        assume "events wb = events wc @ [ConsoleLog Err ''Failed to resolve service URL:'']"
        with es2 show ?thesis
          by (intro exI[of _ "es2 @ [ConsoleLog Err ''Failed to resolve service URL:'']"])
             (auto simp: quiet_def)
      qed
    qed
    have "events w1 = events wa \<or> (\<exists>h c u. resolve_service_url en addr h c wa = (u, w1))"
      using assms True a Inr
      by (auto simp add: getJob_def Let_def split: option.splits if_splits prod.splits)
    then show ?thesis
    proof
      assume "events w1 = events wa"
      with es1 show ?thesis by auto
    next
      assume "\<exists>h c u. resolve_service_url en addr h c wa = (u, w1)"
      then obtain h c u where "resolve_service_url en addr h c wa = (u, w1)" by blast
      from rs[OF this] obtain es where "events w1 = events wa @ es" "\<forall>e\<in>set es. quiet e" by blast
      with es1 show ?thesis by (intro exI[of _ "es1 @ es"]) auto
    qed
  qed
qed

lemma poll_deployment_quiet:
  "poll_deployment en uuid a w = (r, w') \<Longrightarrow> quietly w w'"
proof (induction "30 - a" arbitrary: a w)
  case 0
  then show ?case by (simp add: poll_deployment.simps quietly_def)
next
  case (Suc n)
  then have lt: "a < 30" and n: "n = 30 - (a + 1)" by auto
  show ?case
  proof (cases "deployments_get en uuid (length (events w))")
    case (Inl e)
    with Suc.prems lt show ?thesis
      by (subst (asm) poll_deployment.simps)
         (auto simp: extern_def emit_def quietly_def quiet_def)
  next
    case (Inr jobs)
    show ?thesis
    proof (cases jobs)
      case (Cons dj rest)
      with Suc.prems lt Inr show ?thesis
        by (subst (asm) poll_deployment.simps)
           (auto simp: extern_def emit_def quietly_def quiet_def)
    next
      case Nil
      with Suc.prems lt Inr
      have "poll_deployment en uuid (a + 1)
              (emit (Sleep 2000) (emit (DeploymentsGet uuid) w)) = (r, w')"
        by (subst (asm) poll_deployment.simps) (simp add: extern_def)
      from Suc.hyps(1)[OF n this] show ?thesis
        by (auto simp: quietly_def emit_def quiet_def)
    qed
  qed
qed

lemma launch_api_quiet: "launch_api en p m w = (r, w') \<Longrightarrow> quietly w w'"
  unfolding launch_api_def
  by (auto simp: extern_def emit_def quietly_def quiet_def Let_def
           split: sum.splits prod.splits if_splits dest!: poll_deployment_quiet)

lemma launch_wallet_quiet: "launch_wallet en p m w = (r, w') \<Longrightarrow> quietly w w'"
  unfolding launch_wallet_def
  by (auto simp: extern_def emit_def quietly_def quiet_def
           split: sum.splits prod.splits if_splits)

lemma launch_body_quiet: "launch_body en d m c w = (r, w') \<Longrightarrow> quietly w w'"
  unfolding launch_body_def
  by (auto simp: sendAuditLog_def emit_def quietly_def quiet_def
           split: sum.splits prod.splits if_splits
           dest!: launch_api_quiet launch_wallet_quiet)

lemma launchJob_frame:
  assumes "launchJob en d m c w = (r, w')"
  shows "\<exists>es. events w' = events w @ LaunchJob d m c # es \<and> (\<forall>e\<in>set es. quiet e)"
  using assms unfolding launchJob_def
  by (auto simp: emit_def quietly_def quiet_def split: sum.splits prod.splits
           dest!: launch_body_quiet)

lemma terminal_not_running:
  "isTerminated st \<Longrightarrow> \<not> (st = JobState_RUNNING \<or> st = 1)"
  by (auto simp: isTerminated_def JobState_RUNNING_def JobState_COMPLETED_def JobState_STOPPED_def)

lemma iteration_terminal:
  assumes "getJob en addr w = (Inr job, w1)" and "watchedJobs w1 addr = Some info"
    and "isTerminated (jobState job)"
  shows "watch_iteration en addr url loc w =
           (Exit, watch_terminated en addr url (now en w) (jobState job) info
                    (snd (note_state_change addr loc (jobState job) w1)))"
  using assms terminal_not_running[OF assms(3)]
  by (simp add: watch_iteration_def Let_def split: prod.splits)

lemma loop_exits:
  "watch_iteration en addr url loc w = (Exit, w') \<Longrightarrow> watch_loop en addr url loc w = Some w'"
  by (subst watch_loop.simps) simp

lemma before_decision:
  assumes "getJob en addr w = (Inr job, w1)"
  shows "\<exists>q. events (audit_terminated addr rt st info
                        (snd (note_state_change addr loc st' w1))) = events w @ q
             \<and> (\<forall>e\<in>set q. quiet e)"
proof -
  from getJob_quiet[OF assms] obtain q1 where "events w1 = events w @ q1" "\<forall>e\<in>set q1. quiet e"
    by blast
  then show ?thesis
    by (auto simp: audit_terminated_def note_state_change_def sendAuditLog_def emit_def quiet_def)
qed

lemma new_events_eq: "events w' = events w @ es \<Longrightarrow> new_events w w' = es"
  by (simp add: new_events_def)

lemma redeploy_events:
  assumes "launchJob en (jobDefinition info) (marketAddress info) (isConfidential info) w = (lr, w3)"
  shows "\<exists>es. (\<forall>e\<in>set es. quiet e) \<and>
          events (redeploy en addr url info w) =
            events w @ LaunchJob (jobDefinition info) (marketAddress info) (isConfidential info) # es @
            (case lr of
               Inr newJob \<Rightarrow>
                 [Heartbeat (url @ ''/inventory/heartbeat'')
                    (provisioning_payload (lr_jobAddress newJob) addr (resources info)),
                  SpawnWatch (lr_jobAddress newJob) url
                    \<lparr>opt_jobDefinition = jobDefinition info,
                     opt_marketAddress = Some (marketAddress info),
                     opt_deploymentUuid = lr_deploymentUuid newJob,
                     opt_isConfidential = Some (isConfidential info),
                     resources_allocated = Some (resources info)\<rparr>,
                  AuditLog ''WATCHDOG_STARTED'' (lr_jobAddress newJob)
                    (JObj [(''resources'',
                            JObj [(''gpu_allocated'', JNum (gpu_allocated (resources info))),
                                  (''vcpu_allocated'', JNum (vcpu_allocated (resources info))),
                                  (''ram_gb_allocated'', JNum (ram_gb_allocated (resources info)))]),
                           (''deploymentUuid'', case lr_deploymentUuid newJob of
                                                  None \<Rightarrow> JUndefined | Some u \<Rightarrow> JStr u)])
                    ''success'']
             | Inl e \<Rightarrow>
                 [ConsoleLog Err ''[auto-redeploy] Failed:'',
                  Heartbeat (url @ ''/inventory/heartbeat'') (down_payload addr ''failed'')])"
proof -
  from launchJob_frame[OF assms] obtain es where
    es: "events w3 = events w @ LaunchJob (jobDefinition info) (marketAddress info) (isConfidential info) # es"
        "\<forall>e\<in>set es. quiet e" by blast
  show ?thesis
    using assms es
    by (intro exI[of _ es])
       (auto simp: redeploy_def spawn_watchJob_def watchJob_begin_def sendAuditLog_def
          send_heartbeat_def emit_def Let_def str_or_def split: sum.splits)
qed

lemma decision_heartbeats:
  "\<exists>m. events (redeploy_decision en addr url rt info w) = events w @ m
       \<and> (\<forall>p\<in>set (heartbeats m). state p \<noteq> ''terminated'')"
proof -
  obtain lr w3 where
    l: "launchJob en (jobDefinition info) (marketAddress info) (isConfidential info) w = (lr, w3)"
    by (cases "launchJob en (jobDefinition info) (marketAddress info) (isConfidential info) w")
  from redeploy_events[OF l, of addr url] obtain es where es: "\<forall>e\<in>set es. quiet e"
    and ev: "events (redeploy en addr url info w) =
            events w @ LaunchJob (jobDefinition info) (marketAddress info) (isConfidential info) # es @
            (case lr of
               Inr newJob \<Rightarrow>
                 [Heartbeat (url @ ''/inventory/heartbeat'')
                    (provisioning_payload (lr_jobAddress newJob) addr (resources info)),
                  SpawnWatch (lr_jobAddress newJob) url
                    \<lparr>opt_jobDefinition = jobDefinition info,
                     opt_marketAddress = Some (marketAddress info),
                     opt_deploymentUuid = lr_deploymentUuid newJob,
                     opt_isConfidential = Some (isConfidential info),
                     resources_allocated = Some (resources info)\<rparr>,
                  AuditLog ''WATCHDOG_STARTED'' (lr_jobAddress newJob)
                    (JObj [(''resources'',
                            JObj [(''gpu_allocated'', JNum (gpu_allocated (resources info))),
                                  (''vcpu_allocated'', JNum (vcpu_allocated (resources info))),
                                  (''ram_gb_allocated'', JNum (ram_gb_allocated (resources info)))]),
                           (''deploymentUuid'', case lr_deploymentUuid newJob of
                                                  None \<Rightarrow> JUndefined | Some u \<Rightarrow> JStr u)])
                    ''success'']
             | Inl e \<Rightarrow>
                 [ConsoleLog Err ''[auto-redeploy] Failed:'',
                  Heartbeat (url @ ''/inventory/heartbeat'') (down_payload addr ''failed'')])"
    by blast
  from quiet_proj[OF es] have hq: "heartbeats es = []" by simp
  have red: "\<exists>m. events (redeploy en addr url info w) = events w @ m
       \<and> (\<forall>p\<in>set (heartbeats m). state p \<noteq> ''terminated'')"
    unfolding ev using hq
    by (cases lr) (auto simp: provisioning_payload_def down_payload_def)
  show ?thesis
    using red
    by (auto simp: redeploy_decision_def Let_def send_heartbeat_def emit_def down_payload_def)
qed

lemma env_late_fields:
  "clock env_late = (\<lambda>i. 1500000)" "authMode env_late = Api"
  "api_jobs_list env_late = (\<lambda>h m i. Inr ''job2'')"
  "ipfs_pin env_late = (\<lambda>d i. Inr ''QmDummy'')"
  "is_address env_late = (\<lambda>a. True)" "jobs_get env_late = completed_job"
  by (simp_all add: env_late_def env0_def)

lemma env_early_fields:
  "clock env_early = (\<lambda>i. 600000)" "authMode env_early = Api"
  "is_address env_early = (\<lambda>a. True)" "jobs_get env_early = completed_job"
  by (simp_all add: env_early_def env0_def)

lemma getJob_sample:
  "clock en = (\<lambda>i. t) \<Longrightarrow> jobs_get en = completed_job \<Longrightarrow> is_address en = (\<lambda>a. True) \<Longrightarrow>
   getJob en ''job1'' watching0 = (Inr status0, watching0\<lparr>events := [JobsGet ''job1'']\<rparr>)"
  by (simp add: getJob_def retry_default_def retry.simps extern_def emit_def completed_job_def
        job_done_def status0_def watching0_def world0_def info0_def Let_def JobState_RUNNING_def)

lemma sample_registry:
  "watchedJobs (watching0\<lparr>events := [JobsGet ''job1'']\<rparr>) ''job1'' = Some info0"
  by (simp add: watching0_def)

lemma sample_terminated: "isTerminated (jobState status0)"
  by (simp add: status0_def isTerminated_def)

text \<open>
  \<^bold>\<open>C3\<close>. When an iteration of the watch loop reads a terminal state for a job that
  is still in the registry, was not stopped by the user, and has run for less than 20
  minutes, the heartbeats it sends are exactly two, first one with state "failed" and
  then the final one with state "terminated", both for the job's address with every
  allocation and the health score 0; it calls \<open>launchJob\<close> not at all and starts no
  watch task; the registry entry of the address is removed and the loop returns.
\<close>

theorem short_run_reports_failed:
  assumes G: "getJob en addr w = (Inr job, w1)"
    and R: "watchedJobs w1 addr = Some info"
    and T: "isTerminated (jobState job)"
    and U: "\<not> userStopped info"
    and S: "now en w - startTime info < MIN_RUNTIME_FOR_REDEPLOY_MS"
    and W: "watch_iteration en addr url loc w = (ctl, w')"
  shows "ctl = Exit
     \<and> watch_loop en addr url loc w = Some w'
     \<and> heartbeats (new_events w w') =
         [\<lparr>provider = ''nosana'', provider_instance_id = addr, old_provider_instance_id = None,
           hb_gpu_allocated = 0, hb_vcpu_allocated = 0, hb_ram_gb_allocated = 0,
           health_score = 0, state = ''failed'', expose_url = None\<rparr>,
          \<lparr>provider = ''nosana'', provider_instance_id = addr, old_provider_instance_id = None,
           hb_gpu_allocated = 0, hb_vcpu_allocated = 0, hb_ram_gb_allocated = 0,
           health_score = 0, state = ''terminated'', expose_url = None\<rparr>]
     \<and> launches (new_events w w') = []
     \<and> spawned (new_events w w') = []
     \<and> watchedJobs w' addr = None"
proof -
  let ?wa = "audit_terminated addr (now en w - startTime info) (jobState job) info
               (snd (note_state_change addr loc (jobState job) w1))"
  let ?url = "url @ ''/inventory/heartbeat''"
  from before_decision[OF G] obtain q where
    q: "events ?wa = events w @ q" "\<forall>e\<in>set q. quiet e" by blast
  have it: "watch_iteration en addr url loc w =
           (Exit, watch_terminated en addr url (now en w) (jobState job) info
                    (snd (note_state_change addr loc (jobState job) w1)))"
    by (rule iteration_terminal[OF G R T])
  with W have ctl: "ctl = Exit"
    and w': "w' = watch_terminated en addr url (now en w) (jobState job) info
                    (snd (note_state_change addr loc (jobState job) w1))" by simp_all
  have ev: "events w' = events w @ q @ [Heartbeat ?url (down_payload addr ''failed''),
                                        Heartbeat ?url (down_payload addr ''terminated'')]"
    and reg: "watchedJobs w' addr = None"
    using U S q(1) unfolding w'
    by (simp_all add: watch_terminated_def redeploy_decision_def Let_def send_heartbeat_def emit_def)
  note ne = new_events_eq[OF ev]
  from quiet_proj[OF q(2)] have qp: "heartbeats q = []" "launches q = []" "spawned q = []"
    by simp_all
  have "watch_loop en addr url loc w = Some w'"
    using W ctl by (intro loop_exits) simp
  then show ?thesis
    using ctl reg qp
    by (simp add: ne down_payload_def)
qed

theorem short_run_reports_failed_witness:
  "fst (watch_iteration env_early ''job1'' orch0 loc0 watching0) = Exit
   \<and> heartbeats (new_events watching0 (snd (watch_iteration env_early ''job1'' orch0 loc0 watching0)))
       = [\<lparr>provider = ''nosana'', provider_instance_id = ''job1'',
           old_provider_instance_id = None,
           hb_gpu_allocated = 0, hb_vcpu_allocated = 0, hb_ram_gb_allocated = 0,
           health_score = 0, state = ''failed'', expose_url = None\<rparr>,
          \<lparr>provider = ''nosana'', provider_instance_id = ''job1'',
           old_provider_instance_id = None,
           hb_gpu_allocated = 0, hb_vcpu_allocated = 0, hb_ram_gb_allocated = 0,
           health_score = 0, state = ''terminated'', expose_url = None\<rparr>]
   \<and> launches (new_events watching0 (snd (watch_iteration env_early ''job1'' orch0 loc0 watching0)))
       = []
   \<and> watchedJobs (snd (watch_iteration env_early ''job1'' orch0 loc0 watching0)) ''job1'' = None"
proof -
  let ?w1 = "watching0\<lparr>events := [JobsGet ''job1'']\<rparr>"
  have G: "getJob env_early ''job1'' watching0 = (Inr status0, ?w1)"
    by (rule getJob_sample[where t = 600000]) (simp_all add: env_early_fields)
  have U: "\<not> userStopped info0" by (simp add: info0_def)
  have S: "now env_early watching0 - startTime info0 < MIN_RUNTIME_FOR_REDEPLOY_MS"
    by (simp add: MIN_RUNTIME_FOR_REDEPLOY_MS_def now_def env_early_fields info0_def)
  have W: "watch_iteration env_early ''job1'' orch0 loc0 watching0
             = (fst (watch_iteration env_early ''job1'' orch0 loc0 watching0),
                snd (watch_iteration env_early ''job1'' orch0 loc0 watching0))"
    by simp
  from short_run_reports_failed[OF G sample_registry sample_terminated U S W]
  show ?thesis by simp
qed

text \<open>
  \<^bold>\<open>C9\<close>. When an iteration of the watch loop reads a terminal state for a job that
  is still in the registry, then whatever is decided about a redeploy, the last thing the
  iteration sends is a heartbeat for the job's address with state "terminated",
  \<open>gpu_allocated\<close>, \<open>vcpu_allocated\<close>, \<open>ram_gb_allocated\<close> and \<open>health_score\<close> all 0; it is the only
  heartbeat with that state the iteration sends; the registry entry of the address is
  removed and the loop returns.
\<close>

theorem terminated_heartbeat_is_last:
  assumes G: "getJob en addr w = (Inr job, w1)"
    and R: "watchedJobs w1 addr = Some info"
    and T: "isTerminated (jobState job)"
    and W: "watch_iteration en addr url loc w = (ctl, w')"
  shows "ctl = Exit
     \<and> watch_loop en addr url loc w = Some w'
     \<and> events w' \<noteq> []
     \<and> last (events w') =
         Heartbeat (url @ ''/inventory/heartbeat'')
           \<lparr>provider = ''nosana'', provider_instance_id = addr, old_provider_instance_id = None,
            hb_gpu_allocated = 0, hb_vcpu_allocated = 0, hb_ram_gb_allocated = 0,
            health_score = 0, state = ''terminated'', expose_url = None\<rparr>
     \<and> filter (\<lambda>p. state p = ''terminated'') (heartbeats (new_events w w')) =
         [\<lparr>provider = ''nosana'', provider_instance_id = addr, old_provider_instance_id = None,
           hb_gpu_allocated = 0, hb_vcpu_allocated = 0, hb_ram_gb_allocated = 0,
           health_score = 0, state = ''terminated'', expose_url = None\<rparr>]
     \<and> watchedJobs w' addr = None"
proof -
  let ?wa = "audit_terminated addr (now en w - startTime info) (jobState job) info
               (snd (note_state_change addr loc (jobState job) w1))"
  let ?wd = "redeploy_decision en addr url (now en w - startTime info) info ?wa"
  let ?hb = "Heartbeat (url @ ''/inventory/heartbeat'') (down_payload addr ''terminated'')"
  from before_decision[OF G] obtain q where
    q: "events ?wa = events w @ q" "\<forall>e\<in>set q. quiet e" by blast
  from decision_heartbeats obtain m where
    m: "events ?wd = events ?wa @ m" "\<forall>p\<in>set (heartbeats m). state p \<noteq> ''terminated''"
    by blast
  have it: "watch_iteration en addr url loc w =
           (Exit, watch_terminated en addr url (now en w) (jobState job) info
                    (snd (note_state_change addr loc (jobState job) w1)))"
    by (rule iteration_terminal[OF G R T])
  with W have ctl: "ctl = Exit"
    and w': "w' = watch_terminated en addr url (now en w) (jobState job) info
                    (snd (note_state_change addr loc (jobState job) w1))" by simp_all
  have ev: "events w' = events w @ q @ m @ [?hb]"
    and reg: "watchedJobs w' addr = None"
    using q(1) m(1) unfolding w'
    by (simp_all add: watch_terminated_def Let_def send_heartbeat_def emit_def)
  note ne = new_events_eq[OF ev]
  from quiet_proj[OF q(2)] have qp: "heartbeats q = []" by simp
  have fm: "filter (\<lambda>p. state p = ''terminated'') (heartbeats m) = []"
    using m(2) by (simp add: filter_empty_conv)
  have loop: "watch_loop en addr url loc w = Some w'"
    using W ctl by (intro loop_exits) simp
  have "filter (\<lambda>p. state p = ''terminated'') (heartbeats (new_events w w'))
          = [down_payload addr ''terminated'']"
    by (simp add: ne qp fm down_payload_def)
  with ctl loop reg show ?thesis
    by (simp add: ev down_payload_def)
qed

theorem terminated_heartbeat_is_last_witness:
  "fst (watch_iteration env_early ''job1'' orch0 loc0 (markJobAsStopping ''job1'' watching0)) = Exit
   \<and> last (events (snd (watch_iteration env_early ''job1'' orch0 loc0
                          (markJobAsStopping ''job1'' watching0))))
       = Heartbeat ''http://localhost:8080/inventory/heartbeat''
           \<lparr>provider = ''nosana'', provider_instance_id = ''job1'',
            old_provider_instance_id = None,
            hb_gpu_allocated = 0, hb_vcpu_allocated = 0, hb_ram_gb_allocated = 0,
            health_score = 0, state = ''terminated'', expose_url = None\<rparr>
   \<and> watchedJobs (snd (watch_iteration env_early ''job1'' orch0 loc0
                          (markJobAsStopping ''job1'' watching0))) ''job1'' = None"
proof -
  let ?w = "markJobAsStopping ''job1'' watching0"
  let ?w1 = "?w\<lparr>events := [JobsGet ''job1'']\<rparr>"
  have G: "getJob env_early ''job1'' ?w = (Inr status0, ?w1)"
    by (simp add: env_early_fields getJob_def retry_default_def retry.simps extern_def emit_def
          completed_job_def job_done_def status0_def watching0_def world0_def info0_def Let_def
          JobState_RUNNING_def markJobAsStopping_def)
  have R: "watchedJobs ?w1 ''job1'' = Some (info0\<lparr>userStopped := True\<rparr>)"
    by (simp add: markJobAsStopping_def watching0_def)
  have W: "watch_iteration env_early ''job1'' orch0 loc0 ?w
             = (fst (watch_iteration env_early ''job1'' orch0 loc0 ?w),
                snd (watch_iteration env_early ''job1'' orch0 loc0 ?w))"
    by simp
  from terminated_heartbeat_is_last[OF G R sample_terminated W]
  show ?thesis by (simp add: orch0_def)
qed

text \<open>
  \<^bold>\<open>C2\<close>, as stated, does not hold: the one call of \<open>launchJob\<close> can fail. With a
  job that ran 25 minutes, was not stopped by the user and has a definition and a market,
  and a content store that refuses the pin, the iteration starts no watch task and sends
  no "provisioning" heartbeat: its heartbeats are "failed" and "terminated".
\<close>

theorem redeploy_call_may_fail:
  "spawned (new_events watching0
      (snd (watch_iteration (env_late\<lparr>ipfs_pin := no_storage\<rparr>) ''job1'' orch0 loc0 watching0))) = []
   \<and> map state (heartbeats (new_events watching0
      (snd (watch_iteration (env_late\<lparr>ipfs_pin := no_storage\<rparr>) ''job1'' orch0 loc0 watching0))))
       = [''failed'', ''terminated'']"
proof -
  let ?en = "env_late\<lparr>ipfs_pin := no_storage\<rparr>"
  have G: "getJob ?en ''job1'' watching0 = (Inr status0, watching0\<lparr>events := [JobsGet ''job1'']\<rparr>)"
    by (rule getJob_sample[where t = 1500000]) (simp_all add: env_late_fields)
  have R: "watchedJobs (watching0\<lparr>events := [JobsGet ''job1'']\<rparr>) ''job1'' = Some info0"
    by (simp add: watching0_def)
  have T: "isTerminated (jobState status0)"
    by (simp add: status0_def isTerminated_def)
  have "events (snd (watch_iteration ?en ''job1'' orch0 loc0 watching0)) =
     [JobsGet ''job1'',
      AuditLog ''JOB_STATE_CHANGED'' ''job1'' (JObj [(''old_state'', JNum 1), (''new_state'', JNum 2)]) ''success'',
      AuditLog ''WATCHDOG_TERMINATED'' ''job1''
         (JObj [(''final_state'', JNum 2), (''runtime_mins'', JNum 25), (''user_stopped'', JBool False)]) ''success'',
      LaunchJob def0 ''market1'' True,
      IpfsPin (JObj [(''version'', JStr ''0.1''), (''type'', JStr ''container''),
                (''meta'', JObj [(''trigger'', JStr ''cli''),
                                 (''system_requirements'', JObj [(''required_vram'', JNum 24)])]),
                (''logistics'', JObj [(''send'', api_listen), (''receive'', api_listen)]),
                (''ops'', JArr [])]),
      ConsoleLog Err ''Launch Error:'',
      ConsoleLog Err ''[auto-redeploy] Failed:'',
      Heartbeat ''http://localhost:8080/inventory/heartbeat'' (down_payload ''job1'' ''failed''),
      Heartbeat ''http://localhost:8080/inventory/heartbeat'' (down_payload ''job1'' ''terminated'')]"
    unfolding iteration_terminal[OF G R T]
    by (simp add: env_late_fields status0_def info0_def
          note_state_change_def loc0_def sendAuditLog_def emit_def str_or_def
          watch_terminated_def audit_terminated_def redeploy_decision_def now_def
          MIN_RUNTIME_FOR_REDEPLOY_MS_def redeploy_def launchJob_def launch_body_def
          launch_api_def extern_def no_storage_def send_heartbeat_def orch0_def Let_def
          def0_def dummy_definition_def dummy_endpoint_def js_prop_def obj_set_def
          watching0_def world0_def)
  then show ?thesis
    by (simp add: new_events_def watching0_def world0_def down_payload_def)
qed

text \<open>
  \<^bold>\<open>C2\<close>, amended. When an iteration of the watch loop reads a terminal state for a job
  that is still in the registry, was not stopped by the user, has a truthy definition and
  a non-empty market address, and has run for 20 minutes or more, it calls \<open>launchJob\<close>
  exactly once, with the definition, the market and the confidentiality flag of the
  registry entry. If that call returns a new job, the iteration sends one "provisioning"
  heartbeat for the new address, with \<open>old_provider_instance_id\<close> the old address and the
  resources of the entry, and starts exactly one watch task, for the new address, with
  the same definition, market, flag and resources. If the call fails, it starts no watch
  task and sends a "failed" heartbeat instead. Either way the "terminated" heartbeat
  follows, the old entry is removed and the loop returns.
\<close>

theorem redeploy_after_long_run:
  assumes G: "getJob en addr w = (Inr job, w1)"
    and R: "watchedJobs w1 addr = Some info"
    and T: "isTerminated (jobState job)"
    and U: "\<not> userStopped info"
    and D: "truthy (jobDefinition info)"
    and M: "marketAddress info \<noteq> []"
    and S: "MIN_RUNTIME_FOR_REDEPLOY_MS \<le> now en w - startTime info"
    and L: "launchJob en (jobDefinition info) (marketAddress info) (isConfidential info)
              (audit_terminated addr (now en w - startTime info) (jobState job) info
                 (snd (note_state_change addr loc (jobState job) w1))) = (lr, w3)"
    and W: "watch_iteration en addr url loc w = (ctl, w')"
  shows "ctl = Exit
     \<and> watch_loop en addr url loc w = Some w'
     \<and> launches (new_events w w') =
         [(jobDefinition info, marketAddress info, isConfidential info)]
     \<and> (case lr of
          Inr newJob \<Rightarrow>
            heartbeats (new_events w w') =
              [\<lparr>provider = ''nosana'', provider_instance_id = lr_jobAddress newJob,
                old_provider_instance_id = Some addr,
                hb_gpu_allocated = gpu_allocated (resources info),
                hb_vcpu_allocated = vcpu_allocated (resources info),
                hb_ram_gb_allocated = ram_gb_allocated (resources info),
                health_score = 50, state = ''provisioning'', expose_url = None\<rparr>,
               \<lparr>provider = ''nosana'', provider_instance_id = addr,
                old_provider_instance_id = None,
                hb_gpu_allocated = 0, hb_vcpu_allocated = 0, hb_ram_gb_allocated = 0,
                health_score = 0, state = ''terminated'', expose_url = None\<rparr>]
            \<and> spawned (new_events w w') =
              [(lr_jobAddress newJob, url,
                \<lparr>opt_jobDefinition = jobDefinition info,
                 opt_marketAddress = Some (marketAddress info),
                 opt_deploymentUuid = lr_deploymentUuid newJob,
                 opt_isConfidential = Some (isConfidential info),
                 resources_allocated = Some (resources info)\<rparr>)]
        | Inl e \<Rightarrow>
            heartbeats (new_events w w') =
              [\<lparr>provider = ''nosana'', provider_instance_id = addr,
                old_provider_instance_id = None,
                hb_gpu_allocated = 0, hb_vcpu_allocated = 0, hb_ram_gb_allocated = 0,
                health_score = 0, state = ''failed'', expose_url = None\<rparr>,
               \<lparr>provider = ''nosana'', provider_instance_id = addr,
                old_provider_instance_id = None,
                hb_gpu_allocated = 0, hb_vcpu_allocated = 0, hb_ram_gb_allocated = 0,
                health_score = 0, state = ''terminated'', expose_url = None\<rparr>]
            \<and> spawned (new_events w w') = [])
     \<and> watchedJobs w' addr = None"
proof -
  let ?wa = "audit_terminated addr (now en w - startTime info) (jobState job) info
               (snd (note_state_change addr loc (jobState job) w1))"
  let ?hb = "Heartbeat (url @ ''/inventory/heartbeat'') (down_payload addr ''terminated'')"
  let ?tail = "(case lr of
               Inr newJob \<Rightarrow>
                 [Heartbeat (url @ ''/inventory/heartbeat'')
                    (provisioning_payload (lr_jobAddress newJob) addr (resources info)),
                  SpawnWatch (lr_jobAddress newJob) url
                    \<lparr>opt_jobDefinition = jobDefinition info,
                     opt_marketAddress = Some (marketAddress info),
                     opt_deploymentUuid = lr_deploymentUuid newJob,
                     opt_isConfidential = Some (isConfidential info),
                     resources_allocated = Some (resources info)\<rparr>,
                  AuditLog ''WATCHDOG_STARTED'' (lr_jobAddress newJob)
                    (JObj [(''resources'',
                            JObj [(''gpu_allocated'', JNum (gpu_allocated (resources info))),
                                  (''vcpu_allocated'', JNum (vcpu_allocated (resources info))),
                                  (''ram_gb_allocated'', JNum (ram_gb_allocated (resources info)))]),
                           (''deploymentUuid'', case lr_deploymentUuid newJob of
                                                  None \<Rightarrow> JUndefined | Some u \<Rightarrow> JStr u)])
                    ''success'']
             | Inl e \<Rightarrow>
                 [ConsoleLog Err ''[auto-redeploy] Failed:'',
                  Heartbeat (url @ ''/inventory/heartbeat'') (down_payload addr ''failed'')])"
  from before_decision[OF G] obtain q where
    q: "events ?wa = events w @ q" "\<forall>e\<in>set q. quiet e" by blast
  from redeploy_events[OF L, of addr url] obtain es where es: "\<forall>e\<in>set es. quiet e"
    and ev: "events (redeploy en addr url info ?wa) =
            events ?wa @ LaunchJob (jobDefinition info) (marketAddress info) (isConfidential info)
              # es @ ?tail"
    by blast
  have it: "watch_iteration en addr url loc w =
           (Exit, watch_terminated en addr url (now en w) (jobState job) info
                    (snd (note_state_change addr loc (jobState job) w1)))"
    by (rule iteration_terminal[OF G R T])
  with W have ctl: "ctl = Exit"
    and w': "w' = watch_terminated en addr url (now en w) (jobState job) info
                    (snd (note_state_change addr loc (jobState job) w1))" by simp_all
  have dec: "redeploy_decision en addr url (now en w - startTime info) info ?wa
               = redeploy en addr url info ?wa"
    using U D M S by (simp add: redeploy_decision_def Let_def)
  have evw: "events w' = events w @ q
               @ LaunchJob (jobDefinition info) (marketAddress info) (isConfidential info)
                   # es @ ?tail @ [?hb]"
    and reg: "watchedJobs w' addr = None"
    using q(1) ev unfolding w'
    by (simp_all add: watch_terminated_def Let_def dec send_heartbeat_def emit_def)
  note ne = new_events_eq[OF evw]
  from quiet_proj[OF q(2)] have qp: "heartbeats q = []" "launches q = []" "spawned q = []"
    by simp_all
  from quiet_proj[OF es] have ep: "heartbeats es = []" "launches es = []" "spawned es = []"
    by simp_all
  have loop: "watch_loop en addr url loc w = Some w'"
    using W ctl by (intro loop_exits) simp
  show ?thesis
    using ctl loop reg qp ep
    by (cases lr) (simp_all add: ne provisioning_payload_def down_payload_def)
qed

theorem redeploy_after_long_run_witness:
  "fst (watch_iteration env_late ''job1'' orch0 loc0 watching0) = Exit
   \<and> launches (new_events watching0 (snd (watch_iteration env_late ''job1'' orch0 loc0 watching0)))
       = [(def0, ''market1'', True)]
   \<and> heartbeats (new_events watching0 (snd (watch_iteration env_late ''job1'' orch0 loc0 watching0)))
       = [\<lparr>provider = ''nosana'', provider_instance_id = ''job2'',
           old_provider_instance_id = Some ''job1'',
           hb_gpu_allocated = 1, hb_vcpu_allocated = 8, hb_ram_gb_allocated = 32,
           health_score = 50, state = ''provisioning'', expose_url = None\<rparr>,
          \<lparr>provider = ''nosana'', provider_instance_id = ''job1'',
           old_provider_instance_id = None,
           hb_gpu_allocated = 0, hb_vcpu_allocated = 0, hb_ram_gb_allocated = 0,
           health_score = 0, state = ''terminated'', expose_url = None\<rparr>]
   \<and> spawned (new_events watching0 (snd (watch_iteration env_late ''job1'' orch0 loc0 watching0)))
       = [(''job2'', orch0,
           \<lparr>opt_jobDefinition = def0, opt_marketAddress = Some ''market1'',
            opt_deploymentUuid = None, opt_isConfidential = Some True,
            resources_allocated =
              Some \<lparr>gpu_allocated = 1, vcpu_allocated = 8, ram_gb_allocated = 32\<rparr>\<rparr>)]
   \<and> watchedJobs (snd (watch_iteration env_late ''job1'' orch0 loc0 watching0)) ''job1'' = None"
proof -
  let ?w1 = "watching0\<lparr>events := [JobsGet ''job1'']\<rparr>"
  let ?wa = "audit_terminated ''job1'' (now env_late watching0 - startTime info0)
               (jobState status0) info0
               (snd (note_state_change ''job1'' loc0 (jobState status0) ?w1))"
  let ?new = "\<lparr>lr_jobAddress = ''job2'', lr_deploymentUuid = None, lr_ipfsHash = ''QmDummy''\<rparr>"
  have G: "getJob env_late ''job1'' watching0 = (Inr status0, ?w1)"
    by (rule getJob_sample[where t = 1500000]) (simp_all add: env_late_fields)
  have U: "\<not> userStopped info0" and D: "truthy (jobDefinition info0)"
    and M: "marketAddress info0 \<noteq> []"
    by (simp_all add: info0_def def0_def)
  have S: "MIN_RUNTIME_FOR_REDEPLOY_MS \<le> now env_late watching0 - startTime info0"
    by (simp add: MIN_RUNTIME_FOR_REDEPLOY_MS_def now_def env_late_fields info0_def)
  have "fst (launchJob env_late (jobDefinition info0) (marketAddress info0) (isConfidential info0) ?wa)
          = Inr ?new"
    by (simp add: env_late_fields launchJob_def launch_body_def launch_api_def extern_def
          info0_def def0_def dummy_definition_def dummy_endpoint_def js_prop_def obj_set_def
          split: prod.splits)
  then have L: "launchJob env_late (jobDefinition info0) (marketAddress info0) (isConfidential info0) ?wa
          = (Inr ?new,
             snd (launchJob env_late (jobDefinition info0) (marketAddress info0)
                    (isConfidential info0) ?wa))"
    by (simp add: prod_eq_iff)
  have W: "watch_iteration env_late ''job1'' orch0 loc0 watching0
             = (fst (watch_iteration env_late ''job1'' orch0 loc0 watching0),
                snd (watch_iteration env_late ''job1'' orch0 loc0 watching0))"
    by simp
  from redeploy_after_long_run[OF G sample_registry sample_terminated U D M S L W]
  show ?thesis
    by (simp add: info0_def)
qed

section \<open>The log streamer\<close>

lemma reconnects_append [simp]: "reconnects (xs @ ys) = reconnects xs @ reconnects ys"
  by (simp add: reconnects_def)

lemma reconnects_simps [simp]:
  "reconnects [] = []"
  "reconnects (SetTimeoutConnect d # es) = d # reconnects es"
  "reconnects (Console m # es) = reconnects es"
  "reconnects (EmitClose # es) = reconnects es"
  "reconnects (NewWebSocket n # es) = reconnects es"
  "reconnects (Send n # es) = reconnects es"
  "reconnects (CloseSocket n # es) = reconnects es"
  "reconnects (Resolve # es) = reconnects es"
  "reconnects (Reject # es) = reconnects es"
  "reconnects (EmitLog j # es) = reconnects es"
  "reconnects (EmitError m # es) = reconnects es"
  by (simp_all add: reconnects_def)

text \<open>Once reconnection is disabled, no step enables it or sets a reconnect timer.\<close>

lemma step_disabled:
  assumes "ls_step i st = Some (st', es)" and "\<not> shouldReconnect st"
  shows "\<not> shouldReconnect st' \<and> reconnects es = []"
  using assms
  by (cases i)
     (auto simp: connect_def close_def on_open_def on_message_def on_error_def on_close_def
        Let_def split: if_splits option.splits frame.splits)

lemma run_disabled:
  assumes "ls_run ins st = Some (st', es)" and "\<not> shouldReconnect st"
  shows "\<not> shouldReconnect st' \<and> reconnects es = []"
  using assms
proof (induction ins arbitrary: st es st')
  case Nil
  then show ?case by simp
next
  case (Cons i rest)
  from Cons.prems(1) obtain st1 es1 st2 es2 where
    s1: "ls_step i st = Some (st1, es1)" and s2: "ls_run rest st1 = Some (st2, es2)"
    and r: "st' = st2" "es = es1 @ es2"
    by (auto split: option.splits prod.splits)
  from step_disabled[OF s1 Cons.prems(2)] have d1: "\<not> shouldReconnect st1" "reconnects es1 = []"
    by simp_all
  from Cons.IH[OF s2 d1(1)] d1(2) r show ?case by simp
qed

lemma close_disables: "\<not> shouldReconnect (fst (close st))"
  by (simp add: close_def split: option.splits)

lemma nth_replicate_snoc: "(replicate k x @ [y]) ! k = y"
  by (simp add: nth_append)

lemma one_round:
  assumes "k < 10" "code \<noteq> 1000" "code \<noteq> 1005"
  shows "ls_run [OnClose k code, ReconnectTimer] (failing_state k) =
           Some (failing_state (Suc k),
                 [Console ''[LogStreamer] WebSocket closed.'', Console ''[LogStreamer] Reconnecting'',
                  SetTimeoutConnect 3000, NewWebSocket (Suc k)])"
proof -
  have "(replicate k CLOSED @ [CONNECTING])[k := CLOSED] = replicate (Suc k) CLOSED"
    by (simp add: list_update_append replicate_append_same)
  then show ?thesis
    using assms
    by (simp add: failing_state_def on_close_def connect_def maxRetries_def retryDelay_def
          nth_replicate_snoc Let_def)
qed

lemma ls_run_append:
  "ls_run xs st = Some (st1, es1) \<Longrightarrow> ls_run ys st1 = Some (st2, es2) \<Longrightarrow>
   ls_run (xs @ ys) st = Some (st2, es1 @ es2)"
  by (induction xs arbitrary: st es1) (auto split: option.splits prod.splits)

lemma rounds:
  assumes "code \<noteq> 1000" "code \<noteq> 1005"
  shows "k + n \<le> 10 \<Longrightarrow>
         \<exists>es. ls_run (failed_rounds code k n) (failing_state k) = Some (failing_state (k + n), es)
              \<and> reconnects es = replicate n 3000"
proof (induction n arbitrary: k)
  case 0
  then show ?case by (simp add: failed_rounds_def)
next
  case (Suc n)
  then have k: "k < 10" and le: "Suc k + n \<le> 10" by simp_all
  from Suc.IH[OF le] obtain es where
    es: "ls_run (failed_rounds code (Suc k) n) (failing_state (Suc k))
           = Some (failing_state (Suc k + n), es)" "reconnects es = replicate n 3000"
    by blast
  have split: "failed_rounds code k (Suc n)
                 = [OnClose k code, ReconnectTimer] @ failed_rounds code (Suc k) n"
    by (simp add: failed_rounds_def upt_conv_Cons)
  from ls_run_append[OF one_round[OF k assms] es(1)] es(2)
  show ?case
    unfolding split by (intro exI) (auto simp: )
qed

lemma last_close:
  assumes "code \<noteq> 1000" "code \<noteq> 1005"
  shows "ls_step (OnClose 10 code) (failing_state 10) =
           Some (stopped_state, [Console ''[LogStreamer] WebSocket closed.'', EmitClose])"
proof -
  have "(replicate 10 CLOSED @ [CONNECTING])[10 := CLOSED] = replicate 11 CLOSED"
    by (simp add: eval_nat_numeral)
  moreover have "(replicate 10 CLOSED @ [CONNECTING]) ! 10 = CONNECTING"
    using nth_replicate_snoc[of 10 CLOSED CONNECTING] by simp
  ultimately show ?thesis
    using assms
    by (simp add: failing_state_def stopped_state_def on_close_def maxRetries_def Let_def)
qed

lemma budget:
  assumes "code \<noteq> 1000" "code \<noteq> 1005"
  shows "\<exists>es. ls_run (CallConnect # failed_rounds code 0 10 @ [OnClose 10 code]) new_LogStreamer
                = Some (stopped_state, es)
              \<and> reconnects es = replicate 10 3000 \<and> last es = EmitClose"
proof -
  have c: "ls_step CallConnect new_LogStreamer = Some (failing_state 0, [NewWebSocket 0])"
    by (simp add: new_LogStreamer_def connect_def failing_state_def)
  from rounds[OF assms, of 0 10] obtain es where
    es: "ls_run (failed_rounds code 0 10) (failing_state 0) = Some (failing_state 10, es)"
        "reconnects es = replicate 10 3000" by auto
  have l: "ls_run [OnClose 10 code] (failing_state 10)
             = Some (stopped_state, [Console ''[LogStreamer] WebSocket closed.'', EmitClose])"
    using last_close[OF assms] by simp
  from ls_run_append[OF es(1) l]
  have "ls_run (CallConnect # failed_rounds code 0 10 @ [OnClose 10 code]) new_LogStreamer
          = Some (stopped_state,
                  [NewWebSocket 0] @ es @ [Console ''[LogStreamer] WebSocket closed.'', EmitClose])"
    using c by simp
  with es(2) show ?thesis by (intro exI) auto
qed

lemma stopped:
  "i \<noteq> CallConnect \<Longrightarrow> i \<noteq> CallClose \<Longrightarrow> ls_step i stopped_state = None"
proof (cases i)
  case (OnOpen s ok)
  then show ?thesis by (simp add: stopped_state_def)
next
  case (OnMessage s f)
  then show ?thesis by (simp add: stopped_state_def)
next
  case (OnError s m)
  then show ?thesis by (simp add: stopped_state_def)
next
  case (OnClose s c)
  then show ?thesis by (simp add: stopped_state_def)
next
  case ReconnectTimer
  then show ?thesis by (simp add: stopped_state_def)
qed simp_all

text \<open>Every reconnect timer is set to 3000 ms; between two opens the timers set are
  bounded by what is left of the budget; and a streamer whose budget is used up, with no
  timer pending and no socket connecting, sets no timer and creates no socket until
  \<^verbatim>\<open>connect\<close> is called again.\<close>

lemma step_delay:
  "ls_step i st = Some (st', es) \<Longrightarrow> set (reconnects es) \<subseteq> {3000}"
  by (cases i)
     (auto simp: connect_def close_def on_open_def on_message_def on_error_def on_close_def
                 retryDelay_def Let_def
           split: if_splits option.splits frame.splits)

lemma run_delay:
  "ls_run ins st = Some (st', es) \<Longrightarrow> set (reconnects es) \<subseteq> {3000}"
proof (induction ins arbitrary: st st' es)
  case Nil
  then show ?case by simp
next
  case (Cons i ins)
  from Cons.prems obtain st1 es1 es2 where
    s: "ls_step i st = Some (st1, es1)" and r: "ls_run ins st1 = Some (st', es2)"
    and e: "es = es1 @ es2"
    by (auto split: option.splits prod.splits)
  from step_delay[OF s] Cons.IH[OF r] e show ?case by auto
qed

lemma step_count:
  "ls_step i st = Some (st', es) \<Longrightarrow> \<not> is_open i \<Longrightarrow>
     retryCount st' = retryCount st + length (reconnects es)
     \<and> (reconnects es \<noteq> [] \<longrightarrow> retryCount st' \<le> maxRetries)"
  by (cases i)
     (auto simp: connect_def close_def on_message_def on_error_def on_close_def Let_def
           split: if_splits option.splits frame.splits)

lemma run_count:
  "ls_run ins st = Some (st', es) \<Longrightarrow> \<forall>i\<in>set ins. \<not> is_open i \<Longrightarrow>
     length (reconnects es) \<le> maxRetries - retryCount st"
proof (induction ins arbitrary: st st' es)
  case Nil
  then show ?case by simp
next
  case (Cons i ins)
  from Cons.prems(1) obtain st1 es1 es2 where
    s: "ls_step i st = Some (st1, es1)" and r: "ls_run ins st1 = Some (st', es2)"
    and e: "es = es1 @ es2"
    by (auto split: option.splits prod.splits)
  from Cons.prems(2) have o: "\<not> is_open i" and os: "\<forall>i\<in>set ins. \<not> is_open i" by simp_all
  from step_count[OF s o] have c: "retryCount st1 = retryCount st + length (reconnects es1)"
    and b: "reconnects es1 \<noteq> [] \<longrightarrow> retryCount st1 \<le> maxRetries" by blast+
  from Cons.IH[OF r os] have ih: "length (reconnects es2) \<le> maxRetries - retryCount st1" .
  show ?case
  proof (cases "reconnects es1 = []")
    case True
    with c ih e show ?thesis by simp
  next
    case False
    with b have "retryCount st1 \<le> maxRetries" by simp
    with c ih e show ?thesis by simp
  qed
qed

lemma exhausted_close:
  assumes "\<not> retryCount st < maxRetries" "s < length (sockets st)" "sockets st ! s \<noteq> CLOSED"
  shows "ls_step (OnClose s c) st =
           Some (st\<lparr>sockets := (sockets st)[s := CLOSED]\<rparr>,
                 (if c \<noteq> 1000 \<and> c \<noteq> 1005 then [Console ''[LogStreamer] WebSocket closed.'']
                  else []) @ [EmitClose])"
  using assms by (simp add: on_close_def Let_def)

lemma closing_not_connecting: "closing r \<noteq> CONNECTING"
  by (cases r) (simp_all add: closing_def)

lemma update_not_connecting:
  "CONNECTING \<notin> set xs \<Longrightarrow> v \<noteq> CONNECTING \<Longrightarrow> CONNECTING \<notin> set (xs[s := v])"
  using set_update_subset_insert[of xs s v] by auto

lemma close_not_connecting:
  "CONNECTING \<notin> set xs \<Longrightarrow>
   CONNECTING \<notin> set (if b then xs[s := closing (xs ! s)] else xs)"
  by (simp add: update_not_connecting closing_not_connecting)

lemma step_idle:
  assumes s: "ls_step i st = Some (st', es)" and i: "i \<noteq> CallConnect"
    and r: "maxRetries \<le> retryCount st" and t: "timers st = 0"
    and c: "CONNECTING \<notin> set (sockets st)"
  shows "reconnects es = [] \<and> length (sockets st') = length (sockets st)
         \<and> maxRetries \<le> retryCount st' \<and> timers st' = 0 \<and> CONNECTING \<notin> set (sockets st')"
proof (cases i)
  case CallConnect
  with i show ?thesis by simp
next
  case CallClose
  with s r t c show ?thesis
    by (auto simp: close_def split: option.splits dest: close_not_connecting)
next
  case (OnOpen x ok)
  with s c show ?thesis by (auto split: if_splits dest: nth_mem)
next
  case (OnMessage x f)
  with s r t c show ?thesis by (auto simp: on_message_def split: if_splits frame.splits)
next
  case (OnError x m)
  with s r t c show ?thesis by (auto simp: on_error_def split: if_splits)
next
  case (OnClose x code)
  with s r t c show ?thesis
    by (auto simp: on_close_def Let_def update_not_connecting split: if_splits)
next
  case ReconnectTimer
  with s t show ?thesis by simp
qed

lemma run_idle:
  "ls_run ins st = Some (st', es) \<Longrightarrow> CallConnect \<notin> set ins \<Longrightarrow>
   maxRetries \<le> retryCount st \<Longrightarrow> timers st = 0 \<Longrightarrow> CONNECTING \<notin> set (sockets st) \<Longrightarrow>
   reconnects es = [] \<and> length (sockets st') = length (sockets st)"
proof (induction ins arbitrary: st st' es)
  case Nil
  then show ?case by simp
next
  case (Cons i ins)
  from Cons.prems(1) obtain st1 es1 es2 where
    s: "ls_step i st = Some (st1, es1)" and r: "ls_run ins st1 = Some (st', es2)"
    and e: "es = es1 @ es2"
    by (auto split: option.splits prod.splits)
  from Cons.prems(2) have i: "i \<noteq> CallConnect" and rest: "CallConnect \<notin> set ins" by auto
  from step_idle[OF s i Cons.prems(3) Cons.prems(4) Cons.prems(5)]
  have a: "reconnects es1 = []" "length (sockets st1) = length (sockets st)"
    "maxRetries \<le> retryCount st1" "timers st1 = 0" "CONNECTING \<notin> set (sockets st1)"
    by simp_all
  from Cons.IH[OF r rest a(3) a(4) a(5)] a(1) a(2) e show ?case by simp
qed

text \<open>
  \<^bold>\<open>C5\<close>, as stated, does not hold: the counter of attempts is set back to 0 whenever a
  connection opens, so the budget of 10 bounds the consecutive failed attempts and not
  the reconnects of a streamer. A connection that opens and is dropped with code 1006
  eleven times in a row sets eleven reconnect timers.
\<close>

theorem flapping_stream_reconnects_eleven_times:
  "ls_run flapping new_LogStreamer \<noteq> None
   \<and> reconnects (snd (the (ls_run flapping new_LogStreamer)))
       = [3000, 3000, 3000, 3000, 3000, 3000, 3000, 3000, 3000, 3000, 3000]"
  by (simp add: flapping_def new_LogStreamer_def upt_conv_Cons connect_def on_open_def
        on_close_def maxRetries_def retryDelay_def Let_def)

text \<open>
  \<^bold>\<open>C5\<close>, amended: the attempts counted are the consecutive ones. A close with an
  abnormal code while reconnection is enabled and fewer than 10 attempts have been made
  since the last open sets the reconnect timer to 3000 ms and counts one attempt; ten
  failed attempts in a row from a fresh streamer use up the budget, the eleventh close
  emits \<open>close\<close>, and from the state reached no event of the socket or of a timer is
  possible any more; every open sets the counter back to 0; and after \<open>close()\<close> no run
  sets a reconnect timer, whatever close events arrive. For every streamer: a close when
  the counter has reached 10 emits \<open>close\<close> and sets no timer; every timer set is of
  3000 ms; in a run with no open the timers set are at most 10 minus the counter at its
  start; and once the counter has reached 10 with no timer pending and no socket
  connecting, no run without a new call of \<open>connect\<close> sets a timer or creates a socket.
\<close>

theorem log_stream_reconnects:
  "(shouldReconnect st \<and> retryCount st < maxRetries \<and> s < length (sockets st)
      \<and> sockets st ! s \<noteq> CLOSED \<and> c \<noteq> 1000 \<and> c \<noteq> 1005
    \<longrightarrow> ls_step (OnClose s c) st =
          Some (st\<lparr>sockets := (sockets st)[s := CLOSED], retryCount := retryCount st + 1,
                   timers := timers st + 1\<rparr>,
                [Console ''[LogStreamer] WebSocket closed.'',
                 Console ''[LogStreamer] Reconnecting'', SetTimeoutConnect 3000]))
   \<and> (c1 \<noteq> 1000 \<and> c1 \<noteq> 1005
    \<longrightarrow> (\<exists>es. ls_run (CallConnect # failed_rounds c1 0 10 @ [OnClose 10 c1]) new_LogStreamer
                  = Some (stopped_state, es)
              \<and> reconnects es = replicate 10 3000 \<and> last es = EmitClose))
   \<and> (i \<noteq> CallConnect \<and> i \<noteq> CallClose \<longrightarrow> ls_step i stopped_state = None)
   \<and> (ls_step (OnOpen s2 ok) st2 = Some (st2', es2) \<longrightarrow> retryCount st2' = 0)
   \<and> (ls_run (CallClose # ins) st3 = Some (st3', es3)
    \<longrightarrow> reconnects es3 = [] \<and> \<not> shouldReconnect st3')
   \<and> (\<not> retryCount st4 < maxRetries \<and> s4 < length (sockets st4) \<and> sockets st4 ! s4 \<noteq> CLOSED
    \<longrightarrow> ls_step (OnClose s4 c4) st4 =
          Some (st4\<lparr>sockets := (sockets st4)[s4 := CLOSED]\<rparr>,
                (if c4 \<noteq> 1000 \<and> c4 \<noteq> 1005 then [Console ''[LogStreamer] WebSocket closed.'']
                 else []) @ [EmitClose]))
   \<and> (ls_run ins5 st5 = Some (st5', es5) \<and> (\<forall>i\<in>set ins5. \<not> is_open i)
    \<longrightarrow> length (reconnects es5) \<le> maxRetries - retryCount st5)
   \<and> (ls_run ins6 st6 = Some (st6', es6) \<longrightarrow> set (reconnects es6) \<subseteq> {3000})
   \<and> (maxRetries \<le> retryCount st7 \<and> timers st7 = 0 \<and> CONNECTING \<notin> set (sockets st7)
      \<and> CallConnect \<notin> set ins7 \<and> ls_run ins7 st7 = Some (st7', es7)
    \<longrightarrow> reconnects es7 = [] \<and> length (sockets st7') = length (sockets st7))"
proof (intro conjI impI)
  assume "shouldReconnect st \<and> retryCount st < maxRetries \<and> s < length (sockets st)
      \<and> sockets st ! s \<noteq> CLOSED \<and> c \<noteq> 1000 \<and> c \<noteq> 1005"
  then show "ls_step (OnClose s c) st =
          Some (st\<lparr>sockets := (sockets st)[s := CLOSED], retryCount := retryCount st + 1,
                   timers := timers st + 1\<rparr>,
                [Console ''[LogStreamer] WebSocket closed.'',
                 Console ''[LogStreamer] Reconnecting'', SetTimeoutConnect 3000])"
    by (simp add: on_close_def retryDelay_def Let_def)
next
  assume "c1 \<noteq> 1000 \<and> c1 \<noteq> 1005"
  then show "\<exists>es. ls_run (CallConnect # failed_rounds c1 0 10 @ [OnClose 10 c1]) new_LogStreamer
                  = Some (stopped_state, es)
              \<and> reconnects es = replicate 10 3000 \<and> last es = EmitClose"
    by (intro budget) simp_all
next
  assume "i \<noteq> CallConnect \<and> i \<noteq> CallClose"
  then show "ls_step i stopped_state = None" by (simp add: stopped)
next
  assume "ls_step (OnOpen s2 ok) st2 = Some (st2', es2)"
  then show "retryCount st2' = 0"
    by (auto simp: on_open_def split: if_splits)
next
  assume a: "ls_run (CallClose # ins) st3 = Some (st3', es3)"
  then obtain es' where r: "ls_run ins (fst (close st3)) = Some (st3', es')"
    and e: "es3 = snd (close st3) @ es'"
    by (auto split: option.splits prod.splits)
  from run_disabled[OF r close_disables] have d: "\<not> shouldReconnect st3'" "reconnects es' = []"
    by simp_all
  have "reconnects (snd (close st3)) = []"
    by (simp add: close_def split: option.splits)
  with d e show "reconnects es3 = []" by simp
  from d show "\<not> shouldReconnect st3'" by simp
next
  assume "\<not> retryCount st4 < maxRetries \<and> s4 < length (sockets st4) \<and> sockets st4 ! s4 \<noteq> CLOSED"
  then show "ls_step (OnClose s4 c4) st4 =
          Some (st4\<lparr>sockets := (sockets st4)[s4 := CLOSED]\<rparr>,
                (if c4 \<noteq> 1000 \<and> c4 \<noteq> 1005 then [Console ''[LogStreamer] WebSocket closed.'']
                 else []) @ [EmitClose])"
    by (intro exhausted_close) simp_all
next
  assume "ls_run ins5 st5 = Some (st5', es5) \<and> (\<forall>i\<in>set ins5. \<not> is_open i)"
  then show "length (reconnects es5) \<le> maxRetries - retryCount st5"
    using run_count[of ins5 st5 st5' es5] by blast
next
  assume "ls_run ins6 st6 = Some (st6', es6)"
  then show "set (reconnects es6) \<subseteq> {3000}" by (rule run_delay)
next
  assume a: "maxRetries \<le> retryCount st7 \<and> timers st7 = 0 \<and> CONNECTING \<notin> set (sockets st7)
      \<and> CallConnect \<notin> set ins7 \<and> ls_run ins7 st7 = Some (st7', es7)"
  then have i: "reconnects es7 = [] \<and> length (sockets st7') = length (sockets st7)"
    using run_idle[of ins7 st7 st7' es7] by blast
  from i show "reconnects es7 = []" by simp
  from i show "length (sockets st7') = length (sockets st7)" by simp
qed

theorem log_stream_reconnects_witness:
  "ls_step (OnClose 0 1006) (failing_state 0) =
      Some (\<lparr>ws = Some 0, shouldReconnect = True, retryCount = 1, sockets = [CLOSED], timers = 1\<rparr>,
            [Console ''[LogStreamer] WebSocket closed.'',
             Console ''[LogStreamer] Reconnecting'', SetTimeoutConnect 3000])
   \<and> map_option (\<lambda>r. (fst r, reconnects (snd r)))
        (ls_run (CallConnect # failed_rounds 1006 0 10 @ [OnClose 10 1006]) new_LogStreamer)
       = Some (stopped_state, [3000, 3000, 3000, 3000, 3000, 3000, 3000, 3000, 3000, 3000])
   \<and> ls_step ReconnectTimer stopped_state = None
   \<and> ls_step (OnClose 10 1006) stopped_state = None
   \<and> retryCount (fst (the (ls_step (OnOpen 0 True) (failing_state 0)))) = 0
   \<and> map_option (\<lambda>r. reconnects (snd r)) (ls_run [CallClose, OnClose 0 1006] (failing_state 0))
       = Some []
   \<and> ls_step (OnClose 10 1006) (failing_state 10) =
       Some (stopped_state, [Console ''[LogStreamer] WebSocket closed.'', EmitClose])
   \<and> ls_run [OnClose 0 1006, ReconnectTimer, OnClose 1 1006] (failing_state 0) \<noteq> None
   \<and> length (reconnects (snd (the
         (ls_run [OnClose 0 1006, ReconnectTimer, OnClose 1 1006] (failing_state 0))))) \<le> 10
   \<and> set (reconnects (snd (the
         (ls_run [OnClose 0 1006, ReconnectTimer, OnClose 1 1006] (failing_state 0))))) \<subseteq> {3000}
   \<and> ls_run [CallClose] stopped_state \<noteq> None
   \<and> reconnects (snd (the (ls_run [CallClose] stopped_state))) = []"
proof -
  note T = log_stream_reconnects
  have h1: "shouldReconnect (failing_state 0) \<and> retryCount (failing_state 0) < maxRetries
      \<and> 0 < length (sockets (failing_state 0))
      \<and> sockets (failing_state 0) ! 0 \<noteq> CLOSED \<and> (1006::int) \<noteq> 1000 \<and> (1006::int) \<noteq> 1005"
    by (simp add: failing_state_def maxRetries_def)
  have c1: "ls_step (OnClose 0 1006) (failing_state 0) =
      Some (\<lparr>ws = Some 0, shouldReconnect = True, retryCount = 1, sockets = [CLOSED], timers = 1\<rparr>,
            [Console ''[LogStreamer] WebSocket closed.'',
             Console ''[LogStreamer] Reconnecting'', SetTimeoutConnect 3000])"
    using T[THEN conjunct1, rule_format, OF h1] by (simp add: failing_state_def)
  have h2: "(1006::int) \<noteq> 1000 \<and> (1006::int) \<noteq> 1005" by simp
  from T[THEN conjunct2, THEN conjunct1, rule_format, OF h2] obtain es where
    es: "ls_run (CallConnect # failed_rounds 1006 0 10 @ [OnClose 10 1006]) new_LogStreamer
           = Some (stopped_state, es)" "reconnects es = replicate 10 3000"
    by blast
  have c2: "map_option (\<lambda>r. (fst r, reconnects (snd r)))
        (ls_run (CallConnect # failed_rounds 1006 0 10 @ [OnClose 10 1006]) new_LogStreamer)
       = Some (stopped_state, [3000, 3000, 3000, 3000, 3000, 3000, 3000, 3000, 3000, 3000])"
    using es by (simp add: eval_nat_numeral)
  have c3: "ls_step ReconnectTimer stopped_state = None"
    using T[THEN conjunct2, THEN conjunct2, THEN conjunct1, rule_format, of ReconnectTimer]
    by simp
  have c4: "ls_step (OnClose 10 1006) stopped_state = None"
    using T[THEN conjunct2, THEN conjunct2, THEN conjunct1, rule_format, of "OnClose 10 1006"]
    by simp
  have o: "ls_step (OnOpen 0 True) (failing_state 0)
             = Some (the (ls_step (OnOpen 0 True) (failing_state 0)))"
    by (simp add: failing_state_def)
  have c5: "retryCount (fst (the (ls_step (OnOpen 0 True) (failing_state 0)))) = 0"
    using T[THEN conjunct2, THEN conjunct2, THEN conjunct2, THEN conjunct1, rule_format,
            of 0 True "failing_state 0"
               "fst (the (ls_step (OnOpen 0 True) (failing_state 0)))"
               "snd (the (ls_step (OnOpen 0 True) (failing_state 0)))"] o
    by simp
  have r: "ls_run [CallClose, OnClose 0 1006] (failing_state 0)
             = Some (the (ls_run [CallClose, OnClose 0 1006] (failing_state 0)))"
    by (simp add: failing_state_def close_def closing_def on_close_def Let_def)
  have c6: "map_option (\<lambda>r. reconnects (snd r)) (ls_run [CallClose, OnClose 0 1006] (failing_state 0))
       = Some []"
    using T[THEN conjunct2, THEN conjunct2, THEN conjunct2, THEN conjunct2, THEN conjunct1,
            rule_format,
            of "[OnClose 0 1006]" "failing_state 0"
               "fst (the (ls_run [CallClose, OnClose 0 1006] (failing_state 0)))"
               "snd (the (ls_run [CallClose, OnClose 0 1006] (failing_state 0)))"] r
    by (metis (no_types, lifting) option.simps(9) prod.collapse)
  note U = T[THEN conjunct2, THEN conjunct2, THEN conjunct2, THEN conjunct2, THEN conjunct2]
  have h7: "\<not> retryCount (failing_state 10) < maxRetries
      \<and> 10 < length (sockets (failing_state 10)) \<and> sockets (failing_state 10) ! 10 \<noteq> CLOSED"
    using nth_replicate_snoc[of 10 CLOSED CONNECTING]
    by (simp add: failing_state_def maxRetries_def)
  have u7: "(sockets (failing_state 10))[10 := CLOSED] = replicate 11 CLOSED"
    by (simp add: failing_state_def eval_nat_numeral)
  have c7: "ls_step (OnClose 10 1006) (failing_state 10) =
       Some (stopped_state, [Console ''[LogStreamer] WebSocket closed.'', EmitClose])"
    using U[THEN conjunct1, rule_format, OF h7, of 1006] u7
    by (simp add: failing_state_def stopped_state_def)
  let ?ins = "[OnClose 0 1006, ReconnectTimer, OnClose 1 1006]"
  have r8: "ls_run ?ins (failing_state 0) = Some (the (ls_run ?ins (failing_state 0)))"
    by (simp add: failing_state_def on_close_def connect_def maxRetries_def Let_def)
  then have c8: "ls_run ?ins (failing_state 0) \<noteq> None" by (metis option.distinct(1))
  have h10: "ls_run ?ins (failing_state 0)
              = Some (fst (the (ls_run ?ins (failing_state 0))),
                      snd (the (ls_run ?ins (failing_state 0))))"
    using r8 by (metis prod.collapse)
  have o9: "\<forall>i\<in>set ?ins. \<not> is_open i" by simp
  have h9: "ls_run ?ins (failing_state 0)
              = Some (fst (the (ls_run ?ins (failing_state 0))),
                      snd (the (ls_run ?ins (failing_state 0))))
            \<and> (\<forall>i\<in>set ?ins. \<not> is_open i)"
    using h10 o9 by (rule conjI)
  have k9: "maxRetries - retryCount (failing_state 0) = 10"
    by (simp add: maxRetries_def failing_state_def)
  have c9: "length (reconnects (snd (the (ls_run ?ins (failing_state 0))))) \<le> 10"
    using U[THEN conjunct2, THEN conjunct1, rule_format, OF h9] unfolding k9 .
  have c10: "set (reconnects (snd (the (ls_run ?ins (failing_state 0))))) \<subseteq> {3000}"
    using U[THEN conjunct2, THEN conjunct2, THEN conjunct1, rule_format, OF h10] .
  have r11: "ls_run [CallClose] stopped_state = Some (the (ls_run [CallClose] stopped_state))"
    by (simp add: close_def stopped_state_def)
  then have c11: "ls_run [CallClose] stopped_state \<noteq> None" by (metis option.distinct(1))
  have p12: "ls_run [CallClose] stopped_state
          = Some (fst (the (ls_run [CallClose] stopped_state)),
                  snd (the (ls_run [CallClose] stopped_state)))"
    using r11 by (metis prod.collapse)
  have q12: "maxRetries \<le> retryCount stopped_state \<and> timers stopped_state = 0
      \<and> CONNECTING \<notin> set (sockets stopped_state)
      \<and> CallConnect \<notin> set [CallClose]"
    by (simp add: stopped_state_def maxRetries_def)
  have h12: "maxRetries \<le> retryCount stopped_state \<and> timers stopped_state = 0
      \<and> CONNECTING \<notin> set (sockets stopped_state)
      \<and> CallConnect \<notin> set [CallClose]
      \<and> ls_run [CallClose] stopped_state
          = Some (fst (the (ls_run [CallClose] stopped_state)),
                  snd (the (ls_run [CallClose] stopped_state)))"
    using p12 q12 by blast
  have c12: "reconnects (snd (the (ls_run [CallClose] stopped_state))) = []"
    using U[THEN conjunct2, THEN conjunct2, THEN conjunct2, rule_format, OF h12] by blast
  from c1 c2 c3 c4 c5 c6 c7 c8 c9 c10 c11 c12 show ?thesis by blast
qed

section \<open>The confidential placeholder\<close>

lemma published_append [simp]: "published (xs @ ys) = published xs @ published ys"
  by (simp add: published_def)

lemma published_Nil [simp]: "published [] = []"
  by (simp add: published_def)

lemma published_Cons [simp]:
  "published (e # es) =
     (case e of IpfsPin d \<Rightarrow> [d] | DeploymentsCreate d m \<Rightarrow> [d] | _ \<Rightarrow> []) @ published es"
  by (simp add: published_def)

lemma publishes_refl: "publishes p w w"
  by (simp add: publishes_def)

lemma publishes_trans: "publishes p w w1 \<Longrightarrow> publishes p w1 w2 \<Longrightarrow> publishes p w w2"
  by (auto simp: publishes_def)

lemma publishes_emit:
  "(case e of IpfsPin d \<Rightarrow> d = p | DeploymentsCreate d m \<Rightarrow> d = p | _ \<Rightarrow> True)
   \<Longrightarrow> publishes p w (emit e w)"
  by (auto simp: publishes_def emit_def split: event.splits)

lemma poll_deployment_publishes:
  "poll_deployment en uuid a w = (r, w') \<Longrightarrow> publishes p w w'"
proof (induction "30 - a" arbitrary: a w)
  case 0
  then show ?case by (simp add: poll_deployment.simps publishes_refl)
next
  case (Suc n)
  then have lt: "a < 30" and n: "n = 30 - (a + 1)" by auto
  have g: "publishes p w (emit (DeploymentsGet uuid) w)"
    by (rule publishes_emit) simp
  show ?case
  proof (cases "deployments_get en uuid (length (events w))")
    case (Inl e)
    with Suc.prems lt g show ?thesis
      by (subst (asm) poll_deployment.simps) (auto simp: extern_def)
  next
    case (Inr jobs)
    show ?thesis
    proof (cases jobs)
      case (Cons dj rest)
      with Inr Suc.prems lt g show ?thesis
        by (subst (asm) poll_deployment.simps) (auto simp: extern_def)
    next
      case Nil
      with Inr Suc.prems lt have
        "poll_deployment en uuid (a + 1) (emit (Sleep 2000) (emit (DeploymentsGet uuid) w)) = (r, w')"
        by (subst (asm) poll_deployment.simps) (simp add: extern_def)
      from Suc.hyps(1)[OF n this] have "publishes p (emit (Sleep 2000) (emit (DeploymentsGet uuid) w)) w'" .
      moreover have "publishes p (emit (DeploymentsGet uuid) w) (emit (Sleep 2000) (emit (DeploymentsGet uuid) w))"
        by (rule publishes_emit) simp
      ultimately show ?thesis using g by (blast intro: publishes_trans)
    qed
  qed
qed

lemma launch_api_publishes:
  assumes L: "launch_api en p m w = (r, w')"
  shows "publishes p w w'"
proof -
  let ?w1 = "emit (IpfsPin p) w"
  have p1: "publishes p w ?w1" by (rule publishes_emit) simp
  show ?thesis
  proof (cases "ipfs_pin en p (length (events w))")
    case (Inl e)
    with L have "w' = ?w1" by (simp add: launch_api_def extern_def)
    with p1 show ?thesis by simp
  next
    case (Inr h)
    note pin = this
    let ?w2 = "emit (ApiJobsList h m) ?w1"
    have p2: "publishes p w ?w2"
      by (rule publishes_trans[OF p1]) (rule publishes_emit, simp)
    show ?thesis
    proof (cases "api_jobs_list en h m (length (events ?w1))")
      case (Inr job)
      with pin L have "w' = ?w2" by (simp add: launch_api_def extern_def)
      with p2 show ?thesis by simp
    next
      case (Inl e)
      note lst = this
      let ?wc = "emit (ConsoleLog Warn ''[Launch] Direct API failed. Falling back to SDK deployments API...'') ?w2"
      let ?w3 = "emit (DeploymentsCreate p m) ?wc"
      have pc: "publishes p w ?wc"
        by (rule publishes_trans[OF p2]) (rule publishes_emit, simp)
      have p3: "publishes p w ?w3"
        by (rule publishes_trans[OF pc]) (rule publishes_emit, simp)
      show ?thesis
      proof (cases "deployments_create en p m (length (events ?wc))")
        case (Inl e')
        with pin lst L have "w' = ?w3" by (simp add: launch_api_def extern_def)
        with p3 show ?thesis by simp
      next
        case (Inr uuid)
        note cr = this
        obtain r4 w4 where pd: "poll_deployment en uuid 0 ?w3 = (r4, w4)"
          by (cases "poll_deployment en uuid 0 ?w3") blast
        from L have "w' = w4"
          unfolding launch_api_def extern_def
          by (simp add: pin lst cr pd Let_def split: sum.splits if_splits)
        with poll_deployment_publishes[OF pd, of p] p3 show ?thesis
          by (blast intro: publishes_trans)
      qed
    qed
  qed
qed

lemma launch_wallet_publishes:
  assumes L: "launch_wallet en p m w = (r, w')"
  shows "publishes p w w'"
proof -
  let ?w1 = "emit (IpfsPin p) w"
  have p1: "publishes p w ?w1" by (rule publishes_emit) simp
  have q: "\<And>es. (\<forall>e\<in>set es. case e of IpfsPin d \<Rightarrow> False | DeploymentsCreate d m \<Rightarrow> False | _ \<Rightarrow> True)
      \<Longrightarrow> events w' = events ?w1 @ es \<Longrightarrow> publishes p ?w1 w'"
  proof -
    fix es
    assume a: "\<forall>e\<in>set es. case e of IpfsPin d \<Rightarrow> False | DeploymentsCreate d m \<Rightarrow> False | _ \<Rightarrow> True"
      and b: "events w' = events ?w1 @ es"
    from a have "published es = []"
      by (induction es) (auto split: event.splits)
    with b show "publishes p ?w1 w'" by (auto simp: publishes_def)
  qed
  from L have "\<exists>es. (\<forall>e\<in>set es. case e of IpfsPin d \<Rightarrow> False | DeploymentsCreate d m \<Rightarrow> False | _ \<Rightarrow> True)
      \<and> events w' = events ?w1 @ es"
    unfolding launch_wallet_def extern_def
    by (auto simp: emit_def split: sum.splits if_splits)
  with q p1 show ?thesis by (blast intro: publishes_trans)
qed


lemma launch_body_publishes:
  assumes L: "launch_body en jd m True w = (r, w')"
  shows "case dummy_definition jd of Inl e \<Rightarrow> w' = w | Inr p \<Rightarrow> publishes p w w'"
proof (cases "dummy_definition jd")
  case (Inl e)
  with L show ?thesis by (simp add: launch_body_def)
next
  case (Inr p)
  obtain r1 w1 where l1: "(if authMode en = Api then launch_api en p m w
                 else launch_wallet en p m w) = (r1, w1)"
    by (cases "if authMode en = Api then launch_api en p m w else launch_wallet en p m w") blast
  then have p1: "publishes p w w1"
    by (auto split: if_splits dest: launch_api_publishes launch_wallet_publishes)
  have "publishes p w1 w'"
  proof (cases r1)
    case (Inl e)
    with L Inr l1 have "w' = w1" by (simp add: launch_body_def)
    then show ?thesis by (simp add: publishes_refl)
  next
    case r: (Inr res)
    obtain addr uuid h where res: "res = (addr, uuid, h)" by (cases res) blast
    from L Inr l1 r res obtain x y z u where
      w': "w' = emit (AuditLog ''JOB_LAUNCHED'' x y z) (emit (SpawnHandoff addr jd h u) w1)"
      by (auto simp add: launch_body_def sendAuditLog_def)
    have "publishes p w1 (emit (SpawnHandoff addr jd h u) w1)"
      "publishes p (emit (SpawnHandoff addr jd h u) w1)
         (emit (AuditLog ''JOB_LAUNCHED'' x y z) (emit (SpawnHandoff addr jd h u) w1))"
      by (auto intro!: publishes_emit)
    with w' show ?thesis by (blast intro: publishes_trans)
  qed
  with p1 Inr show ?thesis by (auto intro: publishes_trans)
qed

lemma launchJob_publishes:
  assumes L: "launchJob en jd m True w = (r, w')"
  shows "set (published (new_events w w')) \<subseteq> (case dummy_definition jd of Inl e \<Rightarrow> {} | Inr p \<Rightarrow> {p})"
proof -
  let ?w0 = "emit (LaunchJob jd m True) w"
  obtain r1 w1 where b: "launch_body en jd m True ?w0 = (r1, w1)"
    by (cases "launch_body en jd m True ?w0") blast
  from L b have w': "w' = w1 \<or> w' = emit (ConsoleLog Err ''Launch Error:'') w1"
    by (auto simp: launchJob_def split: sum.splits)
  show ?thesis
  proof (cases "dummy_definition jd")
    case (Inl e)
    with launch_body_publishes[OF b] have "w1 = ?w0" by simp
    with w' Inl show ?thesis by (auto simp: new_events_def emit_def)
  next
    case (Inr p)
    with launch_body_publishes[OF b] obtain es where
      "events w1 = events ?w0 @ es" "set (published es) \<subseteq> {p}"
      by (auto simp: publishes_def)
    with w' Inr show ?thesis by (auto simp: new_events_def emit_def)
  qed
qed

lemma dummy_definition_shape:
  assumes "dummy_definition jd = Inr p"
  shows "map fst (js_spread p) = [''version'', ''type'', ''meta'', ''logistics'', ''ops'']"
    and "js_prop p ''ops'' = JArr []"
    and "js_prop p ''version'' =
           (if truthy (js_prop jd ''version'') then js_prop jd ''version'' else JStr ''0.1'')"
    and "js_prop p ''type'' =
           (if truthy (js_prop jd ''type'') then js_prop jd ''type'' else JStr ''container'')"
    and "js_prop p ''meta'' =
           JObj (obj_set ''trigger'' (JStr ''cli'') (js_spread (js_prop jd ''meta'')))"
    and "js_prop p ''logistics'' =
           JObj [(''send'', if carried_over jd ''send''
                            then js_prop (js_prop jd ''logistics'') ''send'' else api_listen),
                 (''receive'', if carried_over jd ''receive''
                               then js_prop (js_prop jd ''logistics'') ''receive'' else api_listen)]"
proof -
  from assms obtain v where v: "js_get jd ''version'' = Inr v"
    by (auto simp: dummy_definition_def split: sum.splits)
  with assms have p: "p = JObj
            [(''version'', if truthy v then v else JStr ''0.1''),
             (''type'', if truthy (js_prop jd ''type'') then js_prop jd ''type''
                        else JStr ''container''),
             (''meta'', JObj (obj_set ''trigger'' (JStr ''cli'') (js_spread (js_prop jd ''meta'')))),
             (''logistics'', JObj [(''send'', dummy_endpoint jd ''send''),
                                   (''receive'', dummy_endpoint jd ''receive'')]),
             (''ops'', JArr [])]"
    by (simp add: dummy_definition_def)
  have jv: "js_prop jd ''version'' = v" by (simp add: js_prop_def v)
  have de: "\<And>side. dummy_endpoint jd side =
       (if carried_over jd side then js_prop (js_prop jd ''logistics'') side else api_listen)"
    by (simp add: dummy_endpoint_def carried_over_def Let_def)
  show "map fst (js_spread p) = [''version'', ''type'', ''meta'', ''logistics'', ''ops'']"
    unfolding p by simp
  show "js_prop p ''ops'' = JArr []"
    unfolding p js_prop_def by simp
  show "js_prop p ''version'' =
           (if truthy (js_prop jd ''version'') then js_prop jd ''version'' else JStr ''0.1'')"
    unfolding p jv unfolding js_prop_def by simp
  show "js_prop p ''type'' =
           (if truthy (js_prop jd ''type'') then js_prop jd ''type'' else JStr ''container'')"
    unfolding p by (simp add: js_prop_def[of "JObj _"])
  show "js_prop p ''meta'' =
           JObj (obj_set ''trigger'' (JStr ''cli'') (js_spread (js_prop jd ''meta'')))"
    unfolding p by (simp add: js_prop_def[of "JObj _"])
  show "js_prop p ''logistics'' =
           JObj [(''send'', if carried_over jd ''send''
                            then js_prop (js_prop jd ''logistics'') ''send'' else api_listen),
                 (''receive'', if carried_over jd ''receive''
                               then js_prop (js_prop jd ''logistics'') ''receive'' else api_listen)]"
    unfolding p de by (simp add: js_prop_def[of "JObj _"])
qed

text \<open>
  \<^bold>\<open>C1\<close>, as stated, does not hold: the placeholder is built with
  \<^verbatim>\<open>meta: {...jobDefinition.meta, trigger: "cli"}\<close>, so it retains every field of the
  real definition's \<open>meta\<close>, not only trigger metadata and endpoints, and the trigger it
  carries is \<open>cli\<close>, not the real one. A definition whose \<open>meta\<close> holds
  \<open>system_requirements\<close> is pinned with them.
\<close>

theorem placeholder_keeps_meta_fields:
  "published (new_events world0 (snd (launchJob env0 def0 ''market1'' True world0))) =
     [JObj [(''version'', JStr ''0.1''), (''type'', JStr ''container''),
            (''meta'', JObj [(''trigger'', JStr ''cli''),
                             (''system_requirements'', JObj [(''required_vram'', JNum 24)])]),
            (''logistics'', JObj [(''send'', api_listen), (''receive'', api_listen)]),
            (''ops'', JArr [])]]"
  by (simp add: launchJob_def launch_body_def launch_api_def extern_def emit_def
        sendAuditLog_def str_or_def env0_def world0_def new_events_def
        def0_def dummy_definition_def dummy_endpoint_def js_prop_def obj_set_def Let_def)

text \<open>
  \<^bold>\<open>C1\<close>, amended: whatever a confidential launch hands to public storage (or to the
  deployments interface) is an object of exactly the fields \<open>version\<close>, \<open>type\<close>, \<open>meta\<close>,
  \<open>logistics\<close>, \<open>ops\<close>, in which \<open>ops\<close> is empty; \<open>version\<close> and \<open>type\<close> are the real
  ones or the defaults \<open>0.1\<close> and \<open>container\<close>; \<open>meta\<close> is the real \<open>meta\<close> with its
  trigger set to \<open>cli\<close>; and \<open>logistics\<close> has the two entries \<open>send\<close> and \<open>receive\<close>, each
  the real entry when that one is of type \<open>api\<close> and \<open>api-listen\<close> with empty arguments
  otherwise.
\<close>

theorem confidential_placeholder:
  "\<forall>d\<in>set (published (new_events w (snd (launchJob en jd market True w)))).
      map fst (js_spread d) = [''version'', ''type'', ''meta'', ''logistics'', ''ops'']
    \<and> js_prop d ''ops'' = JArr []
    \<and> js_prop d ''version'' =
         (if truthy (js_prop jd ''version'') then js_prop jd ''version'' else JStr ''0.1'')
    \<and> js_prop d ''type'' =
         (if truthy (js_prop jd ''type'') then js_prop jd ''type'' else JStr ''container'')
    \<and> js_prop d ''meta'' =
         JObj (obj_set ''trigger'' (JStr ''cli'') (js_spread (js_prop jd ''meta'')))
    \<and> js_prop d ''logistics'' =
         JObj [(''send'', if carried_over jd ''send''
                          then js_prop (js_prop jd ''logistics'') ''send'' else api_listen),
               (''receive'', if carried_over jd ''receive''
                             then js_prop (js_prop jd ''logistics'') ''receive'' else api_listen)]"
proof
  fix d
  assume d: "d \<in> set (published (new_events w (snd (launchJob en jd market True w))))"
  have "launchJob en jd market True w =
          (fst (launchJob en jd market True w), snd (launchJob en jd market True w))"
    by simp
  from launchJob_publishes[OF this] d have "dummy_definition jd = Inr d"
    by (cases "dummy_definition jd") auto
  from dummy_definition_shape[OF this]
  show "map fst (js_spread d) = [''version'', ''type'', ''meta'', ''logistics'', ''ops'']
    \<and> js_prop d ''ops'' = JArr []
    \<and> js_prop d ''version'' =
         (if truthy (js_prop jd ''version'') then js_prop jd ''version'' else JStr ''0.1'')
    \<and> js_prop d ''type'' =
         (if truthy (js_prop jd ''type'') then js_prop jd ''type'' else JStr ''container'')
    \<and> js_prop d ''meta'' =
         JObj (obj_set ''trigger'' (JStr ''cli'') (js_spread (js_prop jd ''meta'')))
    \<and> js_prop d ''logistics'' =
         JObj [(''send'', if carried_over jd ''send''
                          then js_prop (js_prop jd ''logistics'') ''send'' else api_listen),
               (''receive'', if carried_over jd ''receive''
                             then js_prop (js_prop jd ''logistics'') ''receive'' else api_listen)]"
    by blast
qed

theorem confidential_placeholder_witness:
  "published (new_events world0 (snd (launchJob env0 def_listen ''market1'' True world0))) =
     [JObj [(''version'', JStr ''0.1''), (''type'', JStr ''container''),
            (''meta'', JObj [(''trigger'', JStr ''cli'')]),
            (''logistics'', JObj [(''send'', api_send), (''receive'', api_listen)]),
            (''ops'', JArr [])]]
   \<and> js_prop (hd (published (new_events world0
          (snd (launchJob env0 def_listen ''market1'' True world0))))) ''ops'' = JArr []
   \<and> js_prop (hd (published (new_events world0
          (snd (launchJob env0 def_listen ''market1'' True world0))))) ''meta''
        = JObj [(''trigger'', JStr ''cli'')]
   \<and> js_prop (hd (published (new_events world0
          (snd (launchJob env0 def_listen ''market1'' True world0))))) ''logistics''
        = JObj [(''send'', api_send), (''receive'', api_listen)]"
proof -
  let ?p = "JObj [(''version'', JStr ''0.1''), (''type'', JStr ''container''),
            (''meta'', JObj [(''trigger'', JStr ''cli'')]),
            (''logistics'', JObj [(''send'', api_send), (''receive'', api_listen)]),
            (''ops'', JArr [])]"
  have e: "published (new_events world0 (snd (launchJob env0 def_listen ''market1'' True world0)))
             = [?p]"
    by (simp add: launchJob_def launch_body_def launch_api_def extern_def emit_def
        sendAuditLog_def str_or_def env0_def world0_def new_events_def api_send_def
        def_listen_def dummy_definition_def dummy_endpoint_def js_prop_def obj_set_def Let_def)
  then have h: "hd (published (new_events world0
          (snd (launchJob env0 def_listen ''market1'' True world0))))
       \<in> set (published (new_events world0 (snd (launchJob env0 def_listen ''market1'' True world0))))"
    by simp
  have m: "js_spread (js_prop def_listen ''meta'') = [(''trigger'', JStr ''dashboard'')]"
    by (simp add: def_listen_def js_prop_def)
  have s: "carried_over def_listen ''send''"
    "js_prop (js_prop def_listen ''logistics'') ''send'' = api_send"
    by (simp_all add: carried_over_def def_listen_def js_prop_def api_send_def)
  have r: "\<not> carried_over def_listen ''receive''"
    by (simp add: carried_over_def def_listen_def js_prop_def)
  from confidential_placeholder[of world0 env0 def_listen "''market1''", THEN bspec, OF h]
  have "js_prop (hd (published (new_events world0
          (snd (launchJob env0 def_listen ''market1'' True world0))))) ''ops'' = JArr []"
    and "js_prop (hd (published (new_events world0
          (snd (launchJob env0 def_listen ''market1'' True world0))))) ''meta''
        = JObj [(''trigger'', JStr ''cli'')]"
    and "js_prop (hd (published (new_events world0
          (snd (launchJob env0 def_listen ''market1'' True world0))))) ''logistics''
        = JObj [(''send'', api_send), (''receive'', api_listen)]"
    by (simp_all add: m s r obj_set_def)
  with e show ?thesis by blast
qed

section \<open>The balance in API mode\<close>

text \<open>
  \<^bold>\<open>C10\<close>, as stated, does not hold: in API mode the request to the credits endpoint is
  inside a \<^verbatim>\<open>try\<close> whose \<^verbatim>\<open>catch\<close> falls back to the SDK. When the endpoint
  fails and the SDK answers, \<open>nos\<close> is the \<open>amount\<close> of the SDK's answer, not a difference
  of credits formatted to two decimals.
\<close>

theorem fallback_balance_is_sdk_amount:
  "fst (getBalance env0 int_number (balance0\<lparr>credits_balance := endpoint_down\<rparr>) world0)
     = Inr \<lparr>sol = 0, nos = JStr ''12.50'', credits = None, address = ''API_ACCOUNT''\<rparr>"
  by (simp add: getBalance_def api_balance_def extern_def emit_def env0_def world0_def
        balance0_def endpoint_down_def int_number_def)

text \<open>
  \<^bold>\<open>C10\<close>, amended. In API mode, when the credits endpoint answers, \<open>getBalance\<close> returns
  \<open>nos\<close> as assigned minus reserved minus settled credits of that answer, formatted with
  \<^verbatim>\<open>toFixed(2)\<close>, with \<open>sol = 0\<close>, the three credit fields and the address
  \<open>API_ACCOUNT\<close>, whatever the subtraction and the formatting of numbers are. When the
  endpoint fails (or answers a body with no fields to read) and the SDK answers, it
  returns \<open>nos\<close> as the \<open>amount\<close> of the SDK's answer, or \<open>"0"\<close> when that is falsy, with
  \<open>sol = 0\<close> and the address \<open>API_ACCOUNT\<close>. When both fail, the failure of the endpoint
  is thrown.
\<close>

theorem api_balance_report:
  "(authMode en = Api \<and> credits_balance be (length (events w)) = Inr (Some b)
    \<longrightarrow> getBalance en num be w =
          (Inr \<lparr>sol = num_zero num,
                nos = JStr (num_toFixed num
                        (num_minus num (num_minus num (assignedCredits b) (reservedCredits b))
                           (settledCredits b)) 2),
                credits = Some b, address = ''API_ACCOUNT''\<rparr>,
           emit ApiCreditsBalance w))
   \<and> (authMode en1 = Api
      \<and> (credits_balance be1 (length (events w1)) = Inl e1
         \<or> credits_balance be1 (length (events w1)) = Inr None)
      \<and> sdk_credits_balance be1 (length (events w1) + 2) = Inr bal1
      \<and> js_get bal1 ''amount'' = Inr amt1
    \<longrightarrow> getBalance en1 num1 be1 w1 =
          (Inr \<lparr>sol = num_zero num1, nos = (if truthy amt1 then amt1 else JStr ''0''),
                credits = None, address = ''API_ACCOUNT''\<rparr>,
           w1\<lparr>events := events w1 @
                [ApiCreditsBalance, ConsoleLog Err ''[API] Failed to get balance:'',
                 SdkCreditsBalance]\<rparr>))
   \<and> (authMode en2 = Api
      \<and> (credits_balance be2 (length (events w2)) = Inl e2
         \<or> credits_balance be2 (length (events w2)) = Inr None \<and> e2 = TypeError)
      \<and> (sdk_credits_balance be2 (length (events w2) + 2) = Inl e3
         \<or> sdk_credits_balance be2 (length (events w2) + 2) = Inr bal2
           \<and> js_get bal2 ''amount'' = Inl e3)
    \<longrightarrow> getBalance en2 num2 be2 w2 =
          (Inl e2,
           w2\<lparr>events := events w2 @
                [ApiCreditsBalance, ConsoleLog Err ''[API] Failed to get balance:'',
                 SdkCreditsBalance]\<rparr>))"
proof (intro conjI impI)
  assume "authMode en = Api \<and> credits_balance be (length (events w)) = Inr (Some b)"
  then show "getBalance en num be w =
          (Inr \<lparr>sol = num_zero num,
                nos = JStr (num_toFixed num
                        (num_minus num (num_minus num (assignedCredits b) (reservedCredits b))
                           (settledCredits b)) 2),
                credits = Some b, address = ''API_ACCOUNT''\<rparr>,
           emit ApiCreditsBalance w)"
    by (simp add: getBalance_def api_balance_def extern_def Let_def)
next
  assume a: "authMode en1 = Api
      \<and> (credits_balance be1 (length (events w1)) = Inl e1
         \<or> credits_balance be1 (length (events w1)) = Inr None)
      \<and> sdk_credits_balance be1 (length (events w1) + 2) = Inr bal1
      \<and> js_get bal1 ''amount'' = Inr amt1"
  then obtain e where "api_balance num1 be1 w1 = (Inl e, emit ApiCreditsBalance w1)"
    by (auto simp: api_balance_def extern_def)
  with a show "getBalance en1 num1 be1 w1 =
          (Inr \<lparr>sol = num_zero num1, nos = (if truthy amt1 then amt1 else JStr ''0''),
                credits = None, address = ''API_ACCOUNT''\<rparr>,
           w1\<lparr>events := events w1 @
                [ApiCreditsBalance, ConsoleLog Err ''[API] Failed to get balance:'',
                 SdkCreditsBalance]\<rparr>)"
    by (simp add: getBalance_def extern_def emit_def)
next
  assume a: "authMode en2 = Api
      \<and> (credits_balance be2 (length (events w2)) = Inl e2
         \<or> credits_balance be2 (length (events w2)) = Inr None \<and> e2 = TypeError)
      \<and> (sdk_credits_balance be2 (length (events w2) + 2) = Inl e3
         \<or> sdk_credits_balance be2 (length (events w2) + 2) = Inr bal2
           \<and> js_get bal2 ''amount'' = Inl e3)"
  then have "api_balance num2 be2 w2 = (Inl e2, emit ApiCreditsBalance w2)"
    by (auto simp: api_balance_def extern_def)
  with a show "getBalance en2 num2 be2 w2 =
          (Inl e2,
           w2\<lparr>events := events w2 @
                [ApiCreditsBalance, ConsoleLog Err ''[API] Failed to get balance:'',
                 SdkCreditsBalance]\<rparr>)"
    by (auto simp add: getBalance_def extern_def emit_def)
qed

theorem api_balance_report_witness:
  "getBalance env0 int_number balance0 world0 =
     (Inr \<lparr>sol = 0, nos = JStr ''70.00'', credits = Some credits0, address = ''API_ACCOUNT''\<rparr>,
      world0\<lparr>events := [ApiCreditsBalance]\<rparr>)
   \<and> getBalance env0 int_number (balance0\<lparr>credits_balance := endpoint_down\<rparr>) world0 =
     (Inr \<lparr>sol = 0, nos = JStr ''12.50'', credits = None, address = ''API_ACCOUNT''\<rparr>,
      world0\<lparr>events := [ApiCreditsBalance, ConsoleLog Err ''[API] Failed to get balance:'',
                          SdkCreditsBalance]\<rparr>)
   \<and> getBalance env0 int_number
        (balance0\<lparr>credits_balance := endpoint_down, sdk_credits_balance := sdk_down\<rparr>) world0 =
     (Inl boom,
      world0\<lparr>events := [ApiCreditsBalance, ConsoleLog Err ''[API] Failed to get balance:'',
                          SdkCreditsBalance]\<rparr>)"
proof -
  note T = api_balance_report
  have s: "show_int 70 = ''70''"
    by code_simp
  have h1: "authMode env0 = Api
      \<and> credits_balance balance0 (length (events world0)) = Inr (Some credits0)"
    by (simp add: env0_def balance0_def)
  have c1: "getBalance env0 int_number balance0 world0 =
     (Inr \<lparr>sol = 0, nos = JStr ''70.00'', credits = Some credits0, address = ''API_ACCOUNT''\<rparr>,
      world0\<lparr>events := [ApiCreditsBalance]\<rparr>)"
    using T[THEN conjunct1, rule_format, OF h1, of int_number]
    by (simp add: int_number_def credits0_def s emit_def world0_def eval_nat_numeral)
  have h2: "authMode env0 = Api
      \<and> (credits_balance (balance0\<lparr>credits_balance := endpoint_down\<rparr>) (length (events world0))
            = Inl boom
         \<or> credits_balance (balance0\<lparr>credits_balance := endpoint_down\<rparr>) (length (events world0))
            = Inr None)
      \<and> sdk_credits_balance (balance0\<lparr>credits_balance := endpoint_down\<rparr>)
            (length (events world0) + 2) = Inr (JObj [(''amount'', JStr ''12.50'')])
      \<and> js_get (JObj [(''amount'', JStr ''12.50'')]) ''amount'' = Inr (JStr ''12.50'')"
    by (simp add: env0_def balance0_def endpoint_down_def)
  have c2: "getBalance env0 int_number (balance0\<lparr>credits_balance := endpoint_down\<rparr>) world0 =
     (Inr \<lparr>sol = 0, nos = JStr ''12.50'', credits = None, address = ''API_ACCOUNT''\<rparr>,
      world0\<lparr>events := [ApiCreditsBalance, ConsoleLog Err ''[API] Failed to get balance:'',
                          SdkCreditsBalance]\<rparr>)"
    using T[THEN conjunct2, THEN conjunct1, rule_format, OF h2, of int_number]
    by (simp add: int_number_def world0_def)
  have h3: "authMode env0 = Api
      \<and> (credits_balance (balance0\<lparr>credits_balance := endpoint_down, sdk_credits_balance := sdk_down\<rparr>)
            (length (events world0)) = Inl boom
         \<or> credits_balance (balance0\<lparr>credits_balance := endpoint_down, sdk_credits_balance := sdk_down\<rparr>)
            (length (events world0)) = Inr None \<and> boom = TypeError)
      \<and> (sdk_credits_balance (balance0\<lparr>credits_balance := endpoint_down, sdk_credits_balance := sdk_down\<rparr>)
            (length (events world0) + 2) = Inl too_many
         \<or> sdk_credits_balance (balance0\<lparr>credits_balance := endpoint_down, sdk_credits_balance := sdk_down\<rparr>)
            (length (events world0) + 2) = Inr JNull
           \<and> js_get JNull ''amount'' = Inl too_many)"
    by (simp add: env0_def endpoint_down_def sdk_down_def)
  have c3: "getBalance env0 int_number
        (balance0\<lparr>credits_balance := endpoint_down, sdk_credits_balance := sdk_down\<rparr>) world0 =
     (Inl boom,
      world0\<lparr>events := [ApiCreditsBalance, ConsoleLog Err ''[API] Failed to get balance:'',
                          SdkCreditsBalance]\<rparr>)"
    using T[THEN conjunct2, THEN conjunct2, rule_format, OF h3, of int_number]
    by (simp add: world0_def)
  from c1 c2 c3 show ?thesis by blast
qed

end
